theory Spec2Isabelle
  imports Complex_Main "HOL-Library.AList" "HOL-Library.Char_ord" "HOL-Library.List_Lexorder"
begin

section \<open>The solver interface used by the three scripts\<close>

text \<open>
  Each script builds one linear model through the calls \<open>NumVar\<close>, \<open>IntVar\<close>,
  \<open>Add\<close>, \<open>Sum\<close>, \<open>Maximize\<close>/\<open>Minimize\<close> of a solver object and then solves it once.
  The solver object is modelled as a record that the calls extend; a variable handle is
  the position of the variable in the solver's list. Python numbers are read as exact
  reals: a literal such as \<open>0.05\<close> stands for 1/20, and no rounding is modelled.
  A failing subscript (\<open>KeyError\<close>, \<open>IndexError\<close>) or a failing \<open>list.index\<close>
  (\<open>ValueError\<close>) is the left injection of the result type.
\<close>

datatype error = KeyError | IndexError | ValueError

type_synonym handle = nat

datatype linexpr =
    Const real
  | Var handle
  | Plus linexpr linexpr
  | Minus linexpr linexpr
  | Times real linexpr
  | SumE "linexpr list"

datatype constraint =
    Eq linexpr linexpr
  | Le linexpr linexpr
  | Ge linexpr linexpr

record variable =
  var_lb :: real
  var_ub :: real
  var_integer :: bool
  var_name :: string

datatype sense = Maximise | Minimise

record solver =
  variables :: "variable list"
  constraints :: "constraint list"
  objective :: "(sense \<times> linexpr) option"

definition Solver :: solver where
  "Solver = \<lparr>variables = [], constraints = [], objective = None\<rparr>"

definition NumVar :: "real \<Rightarrow> real \<Rightarrow> string \<Rightarrow> solver \<Rightarrow> handle \<times> solver" where
  "NumVar lo hi nm s =
     (length (variables s),
      s\<lparr>variables := variables s @
           [\<lparr>var_lb = lo, var_ub = hi, var_integer = False, var_name = nm\<rparr>]\<rparr>)"

definition IntVar :: "real \<Rightarrow> real \<Rightarrow> string \<Rightarrow> solver \<Rightarrow> handle \<times> solver" where
  "IntVar lo hi nm s =
     (length (variables s),
      s\<lparr>variables := variables s @
           [\<lparr>var_lb = lo, var_ub = hi, var_integer = True, var_name = nm\<rparr>]\<rparr>)"

definition Add :: "constraint \<Rightarrow> solver \<Rightarrow> solver" where
  "Add c s = s\<lparr>constraints := constraints s @ [c]\<rparr>"

definition Maximize :: "linexpr \<Rightarrow> solver \<Rightarrow> solver" where
  "Maximize e s = s\<lparr>objective := Some (Maximise, e)\<rparr>"

definition Minimize :: "linexpr \<Rightarrow> solver \<Rightarrow> solver" where
  "Minimize e s = s\<lparr>objective := Some (Minimise, e)\<rparr>"

subsection \<open>Python subscripts, iteration and comprehensions\<close>

fun bind :: "error + 'a \<Rightarrow> ('a \<Rightarrow> error + 'b) \<Rightarrow> error + 'b" where
  "bind (Inl e) f = Inl e"
| "bind (Inr x) f = f x"

definition lift2 :: "('a \<Rightarrow> 'b \<Rightarrow> 'c) \<Rightarrow> error + 'a \<Rightarrow> error + 'b \<Rightarrow> error + 'c" where
  "lift2 f x y = bind x (\<lambda>a. bind y (\<lambda>b. Inr (f a b)))"

text \<open>\<open>d[k]\<close> on a dictionary, kept as an association list in insertion order.\<close>

definition getitem :: "('k \<times> 'v) list \<Rightarrow> 'k \<Rightarrow> error + 'v" where
  "getitem d k = (case map_of d k of None \<Rightarrow> Inl KeyError | Some v \<Rightarrow> Inr v)"

text \<open>\<open>xs.index(x)\<close>: the first position of \<open>x\<close>, or \<open>ValueError\<close>.\<close>

fun index :: "'a list \<Rightarrow> 'a \<Rightarrow> error + int" where
  "index [] x = Inl ValueError"
| "index (y # ys) x = (if y = x then Inr 0 else bind (index ys x) (\<lambda>i. Inr (i + 1)))"

text \<open>
  \<open>xs[i]\<close> on a list: positions from the front are 0 and up, positions from the back
  are -1 and down, and anything else raises.
\<close>

definition list_get :: "'a list \<Rightarrow> int \<Rightarrow> error + 'a" where
  "list_get xs i =
     (if 0 \<le> i \<and> i < int (length xs) then Inr (xs ! nat i)
      else if i < 0 \<and> - int (length xs) \<le> i then Inr (xs ! nat (int (length xs) + i))
      else Inl IndexError)"

text \<open>A \<open>for\<close> loop whose body changes the solver and may raise.\<close>

fun for_each :: "('a \<Rightarrow> solver \<Rightarrow> error + solver) \<Rightarrow> 'a list \<Rightarrow> solver \<Rightarrow> error + solver" where
  "for_each body [] s = Inr s"
| "for_each body (x # xs) s = bind (body x s) (for_each body xs)"

text \<open>A generator expression consumed by \<open>Sum\<close>: the terms in order, up to the first raise.\<close>

fun gen :: "('a \<Rightarrow> error + 'b) \<Rightarrow> 'a list \<Rightarrow> error + 'b list" where
  "gen f [] = Inr []"
| "gen f (x # xs) = bind (f x) (\<lambda>y. bind (gen f xs) (\<lambda>ys. Inr (y # ys)))"

text \<open>
  A dictionary comprehension \<open>{k: model.NumVar(...) for k in keys}\<close>: one variable is
  created per key, in order; a key met again keeps its place and takes the new handle.
\<close>

fun dict_comp ::
  "('k \<Rightarrow> solver \<Rightarrow> error + handle \<times> solver) \<Rightarrow> 'k list \<Rightarrow> ('k \<times> handle) list \<Rightarrow> solver
     \<Rightarrow> error + ('k \<times> handle) list \<times> solver" where
  "dict_comp f [] d s = Inr (d, s)"
| "dict_comp f (k # ks) d s =
     bind (f k s) (\<lambda>r. dict_comp f ks (AList.update k (fst r) d) (snd r))"

text \<open>
  Expressions over subscripted variable dictionaries, each subscript able to raise:
  \<open>var d k\<close> is \<open>d[k]\<close>, and \<open>py_add\<close>, \<open>py_sub\<close>, \<open>py_mul\<close>, \<open>py_eq\<close>,
  \<open>py_le\<close>, \<open>py_ge\<close> are the Python operators \<open>+\<close>, \<open>-\<close>, \<open>*\<close>, \<open>==\<close>, \<open><=\<close>,
  \<open>>=\<close> on them, the left operand evaluated first. A comparison of two expressions is
  kept as the constraint between its two sides.
\<close>

definition var :: "('k \<times> handle) list \<Rightarrow> 'k \<Rightarrow> error + linexpr" where
  "var d k = bind (getitem d k) (\<lambda>h. Inr (Var h))"

definition num :: "real \<Rightarrow> error + linexpr" where
  "num c = Inr (Const c)"

definition py_add :: "error + linexpr \<Rightarrow> error + linexpr \<Rightarrow> error + linexpr" where
  "py_add = lift2 Plus"

definition py_sub :: "error + linexpr \<Rightarrow> error + linexpr \<Rightarrow> error + linexpr" where
  "py_sub = lift2 Minus"

definition py_mul :: "error + real \<Rightarrow> error + linexpr \<Rightarrow> error + linexpr" where
  "py_mul = lift2 Times"

definition Sum :: "error + linexpr list \<Rightarrow> error + linexpr" where
  "Sum ts = bind ts (\<lambda>es. Inr (SumE es))"

definition py_eq :: "error + linexpr \<Rightarrow> error + linexpr \<Rightarrow> error + constraint" where
  "py_eq = lift2 Eq"

definition py_le :: "error + linexpr \<Rightarrow> error + linexpr \<Rightarrow> error + constraint" where
  "py_le = lift2 Le"

definition py_ge :: "error + linexpr \<Rightarrow> error + linexpr \<Rightarrow> error + constraint" where
  "py_ge = lift2 Ge"

definition add :: "error + constraint \<Rightarrow> solver \<Rightarrow> error + solver" where
  "add c s = bind c (\<lambda>c'. Inr (Add c' s))"

text \<open>\<open>str\<close> of a string inside a tuple is the string between apostrophes.\<close>

definition quoted :: "string \<Rightarrow> string" where
  "quoted s = [CHR 0x27] @ s @ [CHR 0x27]"

definition str_pair :: "string \<times> string \<Rightarrow> string" where
  "str_pair i = ''('' @ quoted (fst i) @ '', '' @ quoted (snd i) @ '')''"

subsection \<open>Assignments and feasibility\<close>

type_synonym assignment = "handle \<Rightarrow> real"

fun eval :: "assignment \<Rightarrow> linexpr \<Rightarrow> real" where
  "eval a (Const c) = c"
| "eval a (Var h) = a h"
| "eval a (Plus e f) = eval a e + eval a f"
| "eval a (Minus e f) = eval a e - eval a f"
| "eval a (Times c e) = c * eval a e"
| "eval a (SumE es) = sum_list (map (eval a) es)"

fun holds :: "assignment \<Rightarrow> constraint \<Rightarrow> bool" where
  "holds a (Eq e f) = (eval a e = eval a f)"
| "holds a (Le e f) = (eval a e \<le> eval a f)"
| "holds a (Ge e f) = (eval a e \<ge> eval a f)"

definition whole :: "real \<Rightarrow> bool" where
  "whole x = (of_int \<lfloor>x\<rfloor> = x)"

definition in_bounds :: "assignment \<Rightarrow> handle \<times> variable \<Rightarrow> bool" where
  "in_bounds a hv =
     (var_lb (snd hv) \<le> a (fst hv) \<and> a (fst hv) \<le> var_ub (snd hv) \<and>
      (if var_integer (snd hv) then whole (a (fst hv)) else True))"

text \<open>
  A feasible assignment gives every variable a value inside its declared bounds (a whole
  number where the variable is an integer one) and satisfies every registered constraint.
\<close>

definition feasible :: "solver \<Rightarrow> assignment \<Rightarrow> bool" where
  "feasible s a =
     (list_all (in_bounds a) (enumerate 0 (variables s)) \<and> list_all (holds a) (constraints s))"

text \<open>The value an assignment gives to the variable stored under a key.\<close>

definition val :: "assignment \<Rightarrow> ('k \<times> handle) list \<Rightarrow> 'k \<Rightarrow> real option" where
  "val a d k = map_option a (map_of d k)"

section \<open>Factory planning 2\<close>

definition products :: "string list" where
  "products = [''Prod1'', ''Prod2'', ''Prod3'', ''Prod4'', ''Prod5'', ''Prod6'', ''Prod7'']"

definition machines :: "string list" where
  "machines = [''grinder'', ''vertDrill'', ''horiDrill'', ''borer'', ''planer'']"

text \<open>The food script declares the same list \<open>months\<close>; both models use this one.\<close>

definition months :: "string list" where
  "months = [''Jan'', ''Feb'', ''Mar'', ''Apr'', ''May'', ''Jun'']"

definition profit :: "(string \<times> real) list" where
  "profit = [(''Prod1'', 10), (''Prod2'', 6), (''Prod3'', 8), (''Prod4'', 4),
             (''Prod5'', 11), (''Prod6'', 9), (''Prod7'', 3)]"

definition time_required :: "(string \<times> (string \<times> real) list) list" where
  "time_required =
     [(''grinder'', [(''Prod1'', 5/10), (''Prod2'', 7/10), (''Prod5'', 3/10),
                     (''Prod6'', 2/10), (''Prod7'', 5/10)]),
      (''vertDrill'', [(''Prod1'', 1/10), (''Prod2'', 2/10), (''Prod4'', 3/10),
                       (''Prod6'', 6/10)]),
      (''horiDrill'', [(''Prod1'', 2/10), (''Prod3'', 8/10), (''Prod7'', 6/10)]),
      (''borer'', [(''Prod1'', 5/100), (''Prod2'', 3/100), (''Prod4'', 7/100),
                   (''Prod5'', 1/10), (''Prod7'', 8/100)]),
      (''planer'', [(''Prod3'', 1/100), (''Prod5'', 5/100), (''Prod7'', 5/100)])]"

definition machines_down :: "(string \<times> real) list" where
  "machines_down = [(''grinder'', 2), (''vertDrill'', 2), (''horiDrill'', 3),
                    (''borer'', 1), (''planer'', 1)]"

definition machines_installed :: "(string \<times> real) list" where
  "machines_installed = [(''grinder'', 4), (''vertDrill'', 2), (''horiDrill'', 3),
                         (''borer'', 1), (''planer'', 1)]"

definition max_sales :: "((string \<times> string) \<times> real) list" where
  "max_sales =
     [((''Jan'', ''Prod1''), 500), ((''Jan'', ''Prod2''), 1000), ((''Jan'', ''Prod3''), 300),
      ((''Jan'', ''Prod4''), 300), ((''Jan'', ''Prod5''), 800), ((''Jan'', ''Prod6''), 200),
      ((''Jan'', ''Prod7''), 100),
      ((''Feb'', ''Prod1''), 600), ((''Feb'', ''Prod2''), 500), ((''Feb'', ''Prod3''), 200),
      ((''Feb'', ''Prod4''), 0), ((''Feb'', ''Prod5''), 400), ((''Feb'', ''Prod6''), 300),
      ((''Feb'', ''Prod7''), 150),
      ((''Mar'', ''Prod1''), 300), ((''Mar'', ''Prod2''), 600), ((''Mar'', ''Prod3''), 0),
      ((''Mar'', ''Prod4''), 0), ((''Mar'', ''Prod5''), 500), ((''Mar'', ''Prod6''), 400),
      ((''Mar'', ''Prod7''), 100),
      ((''Apr'', ''Prod1''), 200), ((''Apr'', ''Prod2''), 300), ((''Apr'', ''Prod3''), 400),
      ((''Apr'', ''Prod4''), 500), ((''Apr'', ''Prod5''), 200), ((''Apr'', ''Prod6''), 0),
      ((''Apr'', ''Prod7''), 100),
      ((''May'', ''Prod1''), 0), ((''May'', ''Prod2''), 100), ((''May'', ''Prod3''), 500),
      ((''May'', ''Prod4''), 100), ((''May'', ''Prod5''), 1000), ((''May'', ''Prod6''), 300),
      ((''May'', ''Prod7''), 0),
      ((''Jun'', ''Prod1''), 500), ((''Jun'', ''Prod2''), 500), ((''Jun'', ''Prod3''), 100),
      ((''Jun'', ''Prod4''), 300), ((''Jun'', ''Prod5''), 1100), ((''Jun'', ''Prod6''), 500),
      ((''Jun'', ''Prod7''), 60)]"

definition inventory_holding_cost :: real where
  "inventory_holding_cost = 5/10"

definition maximum_inventory :: real where
  "maximum_inventory = 100"

definition inventory_target :: real where
  "inventory_target = 50"

definition hours_per_month :: real where
  "hours_per_month = 2 * 8 * 24"

definition month_product :: "(string \<times> string) list" where
  "month_product = List.product months products"

record factory =
  dv_manufacture :: "((string \<times> string) \<times> handle) list"
  dv_inventory :: "((string \<times> string) \<times> handle) list"
  dv_sold :: "((string \<times> string) \<times> handle) list"
  dv_repair :: "((string \<times> string) \<times> handle) list"
  factory_model :: solver

text \<open>The four variable families, registered in the order of the script.\<close>

definition factory_variables :: "error + factory" where
  "factory_variables =
     bind (dict_comp (\<lambda>i s. Inr (NumVar 0 1000000 (''manuf_'' @ str_pair i) s))
             month_product [] Solver) (\<lambda>manufacture.
     bind (dict_comp (\<lambda>i s. Inr (NumVar 0 maximum_inventory (''invt_'' @ str_pair i) s))
             month_product [] (snd manufacture)) (\<lambda>inventory.
     bind (dict_comp (\<lambda>i s. bind (getitem max_sales i)
                                (\<lambda>cap. Inr (NumVar 0 cap (''sold_'' @ str_pair i) s)))
             month_product [] (snd inventory)) (\<lambda>sold.
     bind (dict_comp (\<lambda>i s. bind (getitem machines_down (snd i))
                                (\<lambda>down. Inr (IntVar 0 down (''down_'' @ fst i @ ''_'' @ snd i) s)))
             (List.product months machines) [] (snd sold)) (\<lambda>repair.
     Inr \<lparr>dv_manufacture = fst manufacture, dv_inventory = fst inventory,
          dv_sold = fst sold, dv_repair = fst repair, factory_model = snd repair\<rparr>))))"

text \<open>Constraint 1, the initial balance of January.\<close>

definition factory_initial_balance :: "factory \<Rightarrow> solver \<Rightarrow> error + solver" where
  "factory_initial_balance f =
     for_each (\<lambda>prd.
       add (py_eq (var (dv_manufacture f) (''Jan'', prd))
               (py_add (var (dv_sold f) (''Jan'', prd)) (var (dv_inventory f) (''Jan'', prd)))))
       products"

text \<open>Constraint 2, the balance of the months after January.\<close>

definition factory_balance :: "factory \<Rightarrow> solver \<Rightarrow> error + solver" where
  "factory_balance f =
     for_each (\<lambda>mth.
       for_each (\<lambda>prd s.
         bind (index months mth) (\<lambda>mth_index.
         bind (list_get months (mth_index - 1)) (\<lambda>prev_mth.
           add (py_eq (py_add (var (dv_inventory f) (prev_mth, prd))
                         (var (dv_manufacture f) (mth, prd)))
                   (py_add (var (dv_sold f) (mth, prd)) (var (dv_inventory f) (mth, prd))))
               s)))
         products)
       (drop 1 months)"

text \<open>Constraint 3, the inventory target at the end of the horizon.\<close>

definition factory_target :: "factory \<Rightarrow> solver \<Rightarrow> error + solver" where
  "factory_target f =
     for_each (\<lambda>prd.
       add (py_eq (var (dv_inventory f) (''Jun'', prd)) (num inventory_target)))
       products"

text \<open>Constraint 4, the capacity of every machine type in every month.\<close>

definition factory_capacity :: "factory \<Rightarrow> solver \<Rightarrow> error + solver" where
  "factory_capacity f =
     for_each (\<lambda>mth.
       for_each (\<lambda>mach.
         add (py_le (Sum (bind (getitem time_required mach) (\<lambda>row.
                         gen (\<lambda>prd. py_mul (bind (getitem time_required mach)
                                                  (\<lambda>row'. getitem row' prd))
                                           (var (dv_manufacture f) (mth, prd)))
                             (map fst row))))
                 (py_mul (Inr hours_per_month)
                        (py_sub (bind (getitem machines_installed mach) num)
                               (var (dv_repair f) (mth, mach))))))
         machines)
       months"

text \<open>Constraint 5, the downtime requirement of every machine type.\<close>

definition factory_downtime :: "factory \<Rightarrow> solver \<Rightarrow> error + solver" where
  "factory_downtime f =
     for_each (\<lambda>mach.
       add (py_eq (Sum (gen (\<lambda>mth. var (dv_repair f) (mth, mach)) months))
               (bind (getitem machines_down mach) num)))
       machines"

definition factory_obj_func :: "factory \<Rightarrow> error + linexpr" where
  "factory_obj_func f =
     py_sub
       (Sum (gen (\<lambda>i. py_mul (getitem profit (snd i)) (var (dv_sold f) i))
                 (List.product months products)))
       (Sum (gen (\<lambda>i. py_mul (Inr inventory_holding_cost) (var (dv_inventory f) i))
                 (List.product months products)))"

text \<open>The whole script up to the call of the solver.\<close>

definition build_factory :: "error + factory" where
  "build_factory =
     bind factory_variables (\<lambda>f.
     bind (factory_initial_balance f (factory_model f)) (\<lambda>s1.
     bind (factory_balance f s1) (\<lambda>s2.
     bind (factory_target f s2) (\<lambda>s3.
     bind (factory_capacity f s3) (\<lambda>s4.
     bind (factory_downtime f s4) (\<lambda>s5.
     bind (factory_obj_func f) (\<lambda>obj_func.
     Inr (f\<lparr>factory_model := Maximize obj_func s5\<rparr>))))))))"

section \<open>Food manufacture 1\<close>

definition oils :: "string list" where
  "oils = [''VEG1'', ''VEG2'', ''OIL1'', ''OIL2'', ''OIL3'']"

definition cost :: "((string \<times> string) \<times> real) list" where
  "cost =
     [((''Jan'', ''VEG1''), 110), ((''Jan'', ''VEG2''), 120), ((''Jan'', ''OIL1''), 130),
      ((''Jan'', ''OIL2''), 110), ((''Jan'', ''OIL3''), 115),
      ((''Feb'', ''VEG1''), 130), ((''Feb'', ''VEG2''), 130), ((''Feb'', ''OIL1''), 110),
      ((''Feb'', ''OIL2''), 90), ((''Feb'', ''OIL3''), 115),
      ((''Mar'', ''VEG1''), 110), ((''Mar'', ''VEG2''), 140), ((''Mar'', ''OIL1''), 130),
      ((''Mar'', ''OIL2''), 100), ((''Mar'', ''OIL3''), 95),
      ((''Apr'', ''VEG1''), 120), ((''Apr'', ''VEG2''), 110), ((''Apr'', ''OIL1''), 120),
      ((''Apr'', ''OIL2''), 120), ((''Apr'', ''OIL3''), 125),
      ((''May'', ''VEG1''), 100), ((''May'', ''VEG2''), 120), ((''May'', ''OIL1''), 150),
      ((''May'', ''OIL2''), 110), ((''May'', ''OIL3''), 105),
      ((''Jun'', ''VEG1''), 90), ((''Jun'', ''VEG2''), 100), ((''Jun'', ''OIL1''), 140),
      ((''Jun'', ''OIL2''), 80), ((''Jun'', ''OIL3''), 135)]"

definition hardness :: "(string \<times> real) list" where
  "hardness = [(''VEG1'', 88/10), (''VEG2'', 61/10), (''OIL1'', 2), (''OIL2'', 42/10),
               (''OIL3'', 5)]"

definition price :: real where
  "price = 150"

definition init_store_inventory :: real where
  "init_store_inventory = 500"

definition target_store_inventory :: real where
  "target_store_inventory = 500"

definition veg_upper_cap :: real where
  "veg_upper_cap = 200"

definition oil_upper_cap :: real where
  "oil_upper_cap = 250"

definition min_hardness :: real where
  "min_hardness = 3"

definition max_hardness :: real where
  "max_hardness = 6"

text \<open>The food script's \<open>inventory_holding_cost\<close>, renamed apart from the factory's.\<close>

definition food_inventory_holding_cost :: real where
  "food_inventory_holding_cost = 5"

definition month_oil :: "(string \<times> string) list" where
  "month_oil = List.product months oils"

definition veg_oils :: "string list" where
  "veg_oils = [''VEG1'', ''VEG2'']"

definition non_veg_oils :: "string list" where
  "non_veg_oils = [''OIL1'', ''OIL2'', ''OIL3'']"

record food =
  dv_prod :: "(string \<times> handle) list"
  dv_oil_buy :: "((string \<times> string) \<times> handle) list"
  dv_oil_consume :: "((string \<times> string) \<times> handle) list"
  dv_oil_inventory :: "((string \<times> string) \<times> handle) list"
  food_model :: solver

definition food_variables :: "error + food" where
  "food_variables =
     bind (dict_comp (\<lambda>i s. Inr (NumVar 0 1000000 (''prod_month_'' @ i) s))
             months [] Solver) (\<lambda>prod.
     bind (dict_comp (\<lambda>i s. Inr (NumVar 0 1000000 (''buy_oil_'' @ str_pair i) s))
             month_oil [] (snd prod)) (\<lambda>buy.
     bind (dict_comp (\<lambda>i s. Inr (NumVar 0 1000000 (''consume_oil_'' @ str_pair i) s))
             month_oil [] (snd buy)) (\<lambda>consume.
     bind (dict_comp (\<lambda>i s. Inr (NumVar 0 1000000 (''invt_oil_'' @ str_pair i) s))
             month_oil [] (snd consume)) (\<lambda>inventory.
     Inr \<lparr>dv_prod = fst prod, dv_oil_buy = fst buy, dv_oil_consume = fst consume,
          dv_oil_inventory = fst inventory, food_model = snd inventory\<rparr>))))"

text \<open>Constraint 1, the balance of January.\<close>

definition food_initial_balance :: "food \<Rightarrow> solver \<Rightarrow> error + solver" where
  "food_initial_balance f =
     for_each (\<lambda>ol.
       add (py_eq (py_add (num init_store_inventory) (var (dv_oil_buy f) (''Jan'', ol)))
               (py_add (var (dv_oil_consume f) (''Jan'', ol))
                     (var (dv_oil_inventory f) (''Jan'', ol)))))
       oils"

text \<open>Constraint 2, the balance of the later months.\<close>

definition food_balance :: "food \<Rightarrow> solver \<Rightarrow> error + solver" where
  "food_balance f =
     for_each (\<lambda>mth s.
       bind (index months mth) (\<lambda>mth_index.
       bind (list_get months (mth_index - 1)) (\<lambda>prev_mth.
         for_each (\<lambda>ol.
           add (py_eq (py_add (var (dv_oil_inventory f) (prev_mth, ol))
                         (var (dv_oil_buy f) (mth, ol)))
                   (py_add (var (dv_oil_consume f) (mth, ol))
                         (var (dv_oil_inventory f) (mth, ol)))))
           oils s)))
       (drop 1 months)"

text \<open>Constraint 3, the inventory target at the end of the horizon.\<close>

definition food_target :: "food \<Rightarrow> solver \<Rightarrow> error + solver" where
  "food_target f =
     for_each (\<lambda>ol.
       add (py_eq (var (dv_oil_inventory f) (''Jun'', ol)) (num target_store_inventory)))
       oils"

text \<open>Constraint 4, the refinement capacities.\<close>

definition food_refinement :: "food \<Rightarrow> solver \<Rightarrow> error + solver" where
  "food_refinement f =
     for_each (\<lambda>mth s.
       bind (add (py_le (Sum (gen (\<lambda>ol. var (dv_oil_consume f) (mth, ol)) veg_oils))
                     (num veg_upper_cap)) s)
            (add (py_le (Sum (gen (\<lambda>ol. var (dv_oil_consume f) (mth, ol)) non_veg_oils))
                     (num oil_upper_cap))))
       months"

text \<open>Constraint 5, the hardness tolerances.\<close>

definition food_hardness :: "food \<Rightarrow> solver \<Rightarrow> error + solver" where
  "food_hardness f =
     for_each (\<lambda>mth s.
       bind (add (py_ge (Sum (gen (\<lambda>ol. py_mul (getitem hardness ol)
                                             (var (dv_oil_consume f) (mth, ol))) oils))
                     (py_mul (Inr min_hardness) (var (dv_prod f) mth))) s)
            (add (py_le (Sum (gen (\<lambda>ol. py_mul (getitem hardness ol)
                                             (var (dv_oil_consume f) (mth, ol))) oils))
                     (py_mul (Inr max_hardness) (var (dv_prod f) mth)))))
       months"

text \<open>Constraint 6, consumption equals production.\<close>

definition food_production :: "food \<Rightarrow> solver \<Rightarrow> error + solver" where
  "food_production f =
     for_each (\<lambda>mth.
       add (py_eq (Sum (gen (\<lambda>ol. var (dv_oil_consume f) (mth, ol)) oils))
               (var (dv_prod f) mth)))
       months"

definition food_obj_func :: "food \<Rightarrow> error + linexpr" where
  "food_obj_func f =
     py_sub
       (py_sub
          (Sum (gen (\<lambda>mth. py_mul (Inr price) (var (dv_prod f) mth)) months))
          (Sum (gen (\<lambda>mth_ol. py_mul (getitem cost mth_ol) (var (dv_oil_buy f) mth_ol))
                    month_oil)))
       (Sum (gen (\<lambda>mth_ol. py_mul (Inr food_inventory_holding_cost)
                                  (var (dv_oil_inventory f) mth_ol))
                 month_oil))"

definition build_food :: "error + food" where
  "build_food =
     bind food_variables (\<lambda>f.
     bind (food_initial_balance f (food_model f)) (\<lambda>s1.
     bind (food_balance f s1) (\<lambda>s2.
     bind (food_target f s2) (\<lambda>s3.
     bind (food_refinement f s3) (\<lambda>s4.
     bind (food_hardness f s4) (\<lambda>s5.
     bind (food_production f s5) (\<lambda>s6.
     bind (food_obj_func f) (\<lambda>obj_func.
     Inr (f\<lparr>food_model := Maximize obj_func s6\<rparr>)))))))))"

section \<open>Manpower planning\<close>

definition years :: "int list" where
  "years = [1, 2, 3]"

definition skills :: "string list" where
  "skills = [''s1'', ''s2'', ''s3'']"

definition current_workforce :: "(string \<times> real) list" where
  "current_workforce = [(''s1'', 2000), (''s2'', 1500), (''s3'', 1000)]"

definition demand :: "((int \<times> string) \<times> real) list" where
  "demand =
     [((1, ''s1''), 1000), ((1, ''s2''), 1400), ((1, ''s3''), 1000),
      ((2, ''s1''), 500), ((2, ''s2''), 2000), ((2, ''s3''), 1500),
      ((3, ''s1''), 0), ((3, ''s2''), 2500), ((3, ''s3''), 2000)]"

definition new_hire_attrition :: "(string \<times> real) list" where
  "new_hire_attrition = [(''s1'', 25/100), (''s2'', 20/100), (''s3'', 10/100)]"

definition experienced_attrition :: "(string \<times> real) list" where
  "experienced_attrition = [(''s1'', 10/100), (''s2'', 5/100), (''s3'', 5/100)]"

definition downgrade_skill_attrition :: real where
  "downgrade_skill_attrition = 50/100"

definition max_hiring :: "((int \<times> string) \<times> real) list" where
  "max_hiring =
     [((1, ''s1''), 500), ((1, ''s2''), 800), ((1, ''s3''), 500),
      ((2, ''s1''), 500), ((2, ''s2''), 800), ((2, ''s3''), 500),
      ((3, ''s1''), 500), ((3, ''s2''), 800), ((3, ''s3''), 500)]"

definition max_overmanning :: real where
  "max_overmanning = 150"

definition max_parttime :: real where
  "max_parttime = 50"

definition parttime_cap :: real where
  "parttime_cap = 50/100"

definition max_train_unskilled :: real where
  "max_train_unskilled = 200"

definition max_train_semiskilled :: real where
  "max_train_semiskilled = 25/100"

text \<open>\<open>str\<close> of an integer, and of the tuples that key the manpower variables.\<close>

function str_nat :: "nat \<Rightarrow> string" where
  "str_nat n =
     (if n < 10 then [char_of (48 + n)] else str_nat (n div 10) @ [char_of (48 + n mod 10)])"
  by pat_completeness auto
termination
  by (relation "measure (\<lambda>n. n)") auto

definition str_int :: "int \<Rightarrow> string" where
  "str_int i = (if i < 0 then ''-'' @ str_nat (nat (- i)) else str_nat (nat i))"

definition str_year_skill :: "int \<times> string \<Rightarrow> string" where
  "str_year_skill i = ''('' @ str_int (fst i) @ '', '' @ quoted (snd i) @ '')''"

definition str_year_skill_skill :: "int \<times> string \<times> string \<Rightarrow> string" where
  "str_year_skill_skill i =
     ''('' @ str_int (fst i) @ '', '' @ quoted (fst (snd i)) @ '', '' @ quoted (snd (snd i)) @ '')''"

definition year_skill :: "(int \<times> string) list" where
  "year_skill = List.product years skills"

definition year_skill_skill :: "(int \<times> string \<times> string) list" where
  "year_skill_skill = List.product years (List.product skills skills)"

record manpower =
  dv_hire :: "((int \<times> string) \<times> handle) list"
  dv_part_time :: "((int \<times> string) \<times> handle) list"
  dv_workforce :: "((int \<times> string) \<times> handle) list"
  dv_layoff :: "((int \<times> string) \<times> handle) list"
  dv_excess :: "((int \<times> string) \<times> handle) list"
  dv_train :: "((int \<times> string \<times> string) \<times> handle) list"
  manpower_model :: solver

definition manpower_variables :: "error + manpower" where
  "manpower_variables =
     bind (dict_comp (\<lambda>i s. bind (getitem max_hiring i)
                                (\<lambda>cap. Inr (NumVar 0 cap (''hire_'' @ str_year_skill i) s)))
             year_skill [] Solver) (\<lambda>hire.
     bind (dict_comp (\<lambda>i s. Inr (NumVar 0 max_parttime (''part_time_'' @ str_year_skill i) s))
             year_skill [] (snd hire)) (\<lambda>part_time.
     bind (dict_comp (\<lambda>i s. Inr (NumVar 0 1000000 (''workforce_'' @ str_year_skill i) s))
             year_skill [] (snd part_time)) (\<lambda>workforce.
     bind (dict_comp (\<lambda>i s. Inr (NumVar 0 1000000 (''layoff_'' @ str_year_skill i) s))
             year_skill [] (snd workforce)) (\<lambda>layoff.
     bind (dict_comp (\<lambda>i s. Inr (NumVar 0 1000000 (''excess_'' @ str_year_skill i) s))
             year_skill [] (snd layoff)) (\<lambda>excess.
     bind (dict_comp (\<lambda>i s. Inr (NumVar 0 1000000 (''train_'' @ str_year_skill_skill i) s))
             year_skill_skill [] (snd excess)) (\<lambda>train.
     Inr \<lparr>dv_hire = fst hire, dv_part_time = fst part_time, dv_workforce = fst workforce,
          dv_layoff = fst layoff, dv_excess = fst excess, dv_train = fst train,
          manpower_model = snd train\<rparr>))))))"

text \<open>Constraint 1, the workforce balance of year 1.\<close>

definition manpower_initial_balance :: "manpower \<Rightarrow> solver \<Rightarrow> error + solver" where
  "manpower_initial_balance m =
     for_each (\<lambda>s.
       add (py_eq (var (dv_workforce m) (1, s))
               (py_sub
                 (py_add
                   (py_add
                     (py_add
                       (bind (getitem experienced_attrition s) (\<lambda>e.
                        bind (getitem current_workforce s) (\<lambda>c. num ((1 - e) * c))))
                       (py_mul (bind (getitem new_hire_attrition s) (\<lambda>n. Inr (1 - n)))
                              (var (dv_hire m) (1, s))))
                     (Sum (gen (\<lambda>s2.
                        py_sub (py_mul (bind (getitem experienced_attrition s) (\<lambda>e. Inr (1 - e)))
                                     (var (dv_train m) (1, s2, s)))
                              (var (dv_train m) (1, s, s2)))
                        (filter (\<lambda>s2. s2 < s) skills))))
                   (Sum (gen (\<lambda>s2.
                      py_sub (py_mul (Inr (1 - downgrade_skill_attrition))
                                   (var (dv_train m) (1, s2, s)))
                            (var (dv_train m) (1, s, s2)))
                      (filter (\<lambda>s2. s2 > s) skills))))
                 (var (dv_layoff m) (1, s)))))
       skills"

text \<open>Constraint 2, the workforce balance of the later years.\<close>

definition manpower_balance :: "manpower \<Rightarrow> solver \<Rightarrow> error + solver" where
  "manpower_balance m =
     for_each (\<lambda>t.
       for_each (\<lambda>s.
         add (py_eq (var (dv_workforce m) (t, s))
                 (py_sub
                   (py_add
                     (py_add
                       (py_add
                         (py_mul (bind (getitem experienced_attrition s) (\<lambda>e. Inr (1 - e)))
                                (var (dv_workforce m) (t - 1, s)))
                         (py_mul (bind (getitem new_hire_attrition s) (\<lambda>n. Inr (1 - n)))
                                (var (dv_hire m) (t, s))))
                       (Sum (gen (\<lambda>s2.
                          py_sub (py_mul (bind (getitem experienced_attrition s)
                                          (\<lambda>e. Inr (1 - e)))
                                       (var (dv_train m) (t, s2, s)))
                                (var (dv_train m) (t, s, s2)))
                          (filter (\<lambda>s2. s2 < s) skills))))
                     (Sum (gen (\<lambda>s2.
                        py_sub (py_mul (Inr (1 - downgrade_skill_attrition))
                                     (var (dv_train m) (t, s2, s)))
                              (var (dv_train m) (t, s, s2)))
                        (filter (\<lambda>s2. s2 > s) skills))))
                   (var (dv_layoff m) (t, s)))))
         skills)
       (drop 1 years)"

text \<open>Constraint 3, the training of unskilled workers.\<close>

definition manpower_unskilled_training :: "manpower \<Rightarrow> solver \<Rightarrow> error + solver" where
  "manpower_unskilled_training m =
     for_each (\<lambda>t s.
       bind (add (py_le (var (dv_train m) (t, ''s1'', ''s2'')) (num max_train_unskilled)) s)
            (add (py_eq (var (dv_train m) (t, ''s1'', ''s3'')) (num 0))))
       years"

text \<open>Constraint 4, the training of semi-skilled workers.\<close>

definition manpower_semiskilled_training :: "manpower \<Rightarrow> solver \<Rightarrow> error + solver" where
  "manpower_semiskilled_training m =
     for_each (\<lambda>t.
       add (py_le (var (dv_train m) (t, ''s2'', ''s3''))
               (py_mul (Inr max_train_semiskilled) (var (dv_workforce m) (t, ''s3'')))))
       years"

text \<open>Constraint 5, the overmanning allowance.\<close>

definition manpower_overmanning :: "manpower \<Rightarrow> solver \<Rightarrow> error + solver" where
  "manpower_overmanning m =
     for_each (\<lambda>t.
       add (py_le (Sum (gen (\<lambda>s. var (dv_excess m) (t, s)) skills)) (num max_overmanning)))
       years"

text \<open>Constraint 6, the demand.\<close>

definition manpower_demand :: "manpower \<Rightarrow> solver \<Rightarrow> error + solver" where
  "manpower_demand m =
     for_each (\<lambda>t.
       for_each (\<lambda>s.
         add (py_eq (var (dv_workforce m) (t, s))
                 (py_add (py_add (bind (getitem demand (t, s)) num) (var (dv_excess m) (t, s)))
                       (py_mul (Inr parttime_cap) (var (dv_part_time m) (t, s))))))
         skills)
       years"

text \<open>The active objective, the total of the layoffs.\<close>

definition obj_layoffs :: "manpower \<Rightarrow> error + linexpr" where
  "obj_layoffs m = Sum (gen (\<lambda>i. var (dv_layoff m) i) (List.product years skills))"

definition build_manpower :: "error + manpower" where
  "build_manpower =
     bind manpower_variables (\<lambda>m.
     bind (manpower_initial_balance m (manpower_model m)) (\<lambda>s1.
     bind (manpower_balance m s1) (\<lambda>s2.
     bind (manpower_unskilled_training m s2) (\<lambda>s3.
     bind (manpower_semiskilled_training m s3) (\<lambda>s4.
     bind (manpower_overmanning m s4) (\<lambda>s5.
     bind (manpower_demand m s5) (\<lambda>s6.
     bind (obj_layoffs m) (\<lambda>obj.
     Inr (m\<lparr>manpower_model := Minimize obj s6\<rparr>)))))))))"

section \<open>Solve and report\<close>

text \<open>
  Modelled from the spec: the status code that the external solver returns, one of
  optimal, infeasible, unbounded, not solved and other (section 6 of the spec). The
  solver library is not part of the repository; the scripts only compare the code with
  \<open>pywraplp.Solver.OPTIMAL\<close>.
\<close>

datatype status = OPTIMAL | INFEASIBLE | UNBOUNDED | NOT_SOLVED | OTHER

text \<open>What the scripts ask the solver after the call of \<open>Solve\<close>.\<close>

record outcome =
  result_status :: status
  objective_value :: real
  wall_time :: real
  iterations :: int
  nodes :: int

text \<open>
  A call of \<open>print\<close> is kept as the list of its arguments; a call with a format string
  as the format and the values put into it.
\<close>

datatype item = Str string | Num real | Count int

datatype line = Print "item list" | Format string "item list"

text \<open>The lines after \<open>status = model.Solve()\<close> in the factory script.\<close>

definition report_factory :: "solver \<Rightarrow> outcome \<Rightarrow> line list" where
  "report_factory model r =
     (if result_status r = OPTIMAL
      then [Print [Str ''Solution:''],
            Print [Str ''Objective value ='', Num (objective_value r)]]
      else [Print [Str ''The problem does not have an optimal solution.'']]) @
     [Print [Str [CHR 0x0A]],
      Print [Str ''Problem size:''],
      Print [Str ''Number of decision variables ='', Count (int (length (variables model)))],
      Print [Str ''Number of constraints ='', Count (int (length (constraints model)))],
      Print [Str [CHR 0x0A]],
      Print [Str ''Advanced usage:''],
      Format ''Problem solved in %s seconds'' [Num (wall_time r / 1000)],
      Format ''Problem solved in %s iterations'' [Count (iterations r)],
      Format ''Problem solved in %d branch-and-bound nodes'' [Count (nodes r)]]"

text \<open>The same lines in the food script, which does not print the node count.\<close>

definition report_food :: "solver \<Rightarrow> outcome \<Rightarrow> line list" where
  "report_food model r =
     (if result_status r = OPTIMAL
      then [Print [Str ''Solution:''],
            Print [Str ''Objective value ='', Num (objective_value r)]]
      else [Print [Str ''The problem does not have an optimal solution.'']]) @
     [Print [Str [CHR 0x0A]],
      Print [Str ''Problem size:''],
      Print [Str ''Number of decision variables ='', Count (int (length (variables model)))],
      Print [Str ''Number of constraints ='', Count (int (length (constraints model)))],
      Print [Str [CHR 0x0A]],
      Print [Str ''Advanced usage:''],
      Format ''Problem solved in %s seconds'' [Num (wall_time r / 1000)],
      Format ''Problem solved in %s iterations'' [Count (iterations r)]]"

text \<open>
  A whole run: the model is built, the solver, a parameter here, is called once on it,
  and the report is printed. A run that raises while building prints nothing.
\<close>

definition main_factory :: "(solver \<Rightarrow> outcome) \<Rightarrow> error + line list" where
  "main_factory Solve =
     bind build_factory (\<lambda>f. Inr (report_factory (factory_model f) (Solve (factory_model f))))"

definition main_food :: "(solver \<Rightarrow> outcome) \<Rightarrow> error + line list" where
  "main_food Solve =
     bind build_food (\<lambda>f. Inr (report_food (food_model f) (Solve (food_model f))))"

section \<open>Closed forms of the built models and sample plans\<close>

text \<open>
  The definitions of this section are not part of the scripts. They name what the
  scripts are proved to build (the variable dictionaries, the variable list, the
  constraint rows and the objective of each model) and one feasible plan per model,
  on which the theorems are exercised.
\<close>

text \<open>The handle stored under a key of a variable dictionary.\<close>

definition handle_of :: "('k \<times> handle) list \<Rightarrow> 'k \<Rightarrow> handle" where
  "handle_of d k = the (map_of d k)"

text \<open>An assignment given by one value per key of a variable dictionary.\<close>

definition plan_of :: "('k \<times> handle) list \<Rightarrow> ('k \<Rightarrow> real) \<Rightarrow> assignment \<Rightarrow> assignment" where
  "plan_of d f a h = (case find (\<lambda>kh. snd kh = h) d of Some kh \<Rightarrow> f (fst kh) | None \<Rightarrow> a h)"

subsection \<open>Factory planning\<close>

definition factory_vars :: "variable list" where
  "factory_vars =
     map (\<lambda>i. \<lparr>var_lb = 0, var_ub = 1000000, var_integer = False,
                var_name = ''manuf_'' @ str_pair i\<rparr>) month_product @
     map (\<lambda>i. \<lparr>var_lb = 0, var_ub = maximum_inventory, var_integer = False,
                var_name = ''invt_'' @ str_pair i\<rparr>) month_product @
     map (\<lambda>i. \<lparr>var_lb = 0, var_ub = the (map_of max_sales i), var_integer = False,
                var_name = ''sold_'' @ str_pair i\<rparr>) month_product @
     map (\<lambda>i. \<lparr>var_lb = 0, var_ub = the (map_of machines_down (snd i)), var_integer = True,
                var_name = ''down_'' @ fst i @ ''_'' @ snd i\<rparr>) (List.product months machines)"

definition factory_dicts :: factory where
  "factory_dicts =
     \<lparr>dv_manufacture = zip month_product [0..<42],
      dv_inventory = zip month_product [42..<84],
      dv_sold = zip month_product [84..<126],
      dv_repair = zip (List.product months machines) [126..<156],
      factory_model = \<lparr>variables = factory_vars, constraints = [], objective = None\<rparr>\<rparr>"

definition factory_rows :: "constraint list" where
  "factory_rows =
     map (\<lambda>prd. Eq (Var (handle_of (dv_manufacture factory_dicts) (''Jan'', prd)))
                   (Plus (Var (handle_of (dv_sold factory_dicts) (''Jan'', prd)))
                         (Var (handle_of (dv_inventory factory_dicts) (''Jan'', prd)))))
       products @
     concat (map (\<lambda>t. map (\<lambda>prd.
         Eq (Plus (Var (handle_of (dv_inventory factory_dicts) (months ! (t - 1), prd)))
                  (Var (handle_of (dv_manufacture factory_dicts) (months ! t, prd))))
            (Plus (Var (handle_of (dv_sold factory_dicts) (months ! t, prd)))
                  (Var (handle_of (dv_inventory factory_dicts) (months ! t, prd)))))
       products) [1..<6]) @
     map (\<lambda>prd. Eq (Var (handle_of (dv_inventory factory_dicts) (''Jun'', prd)))
                   (Const inventory_target))
       products @
     concat (map (\<lambda>mth. map (\<lambda>mach.
         Le (SumE (map (\<lambda>prd. Times (the (map_of (the (map_of time_required mach)) prd))
                                    (Var (handle_of (dv_manufacture factory_dicts) (mth, prd))))
                       (map fst (the (map_of time_required mach)))))
            (Times hours_per_month
               (Minus (Const (the (map_of machines_installed mach)))
                      (Var (handle_of (dv_repair factory_dicts) (mth, mach))))))
       machines) months) @
     map (\<lambda>mach. Eq (SumE (map (\<lambda>mth. Var (handle_of (dv_repair factory_dicts) (mth, mach)))
                              months))
                    (Const (the (map_of machines_down mach))))
       machines"

definition factory_objective :: linexpr where
  "factory_objective =
     Minus (SumE (map (\<lambda>i. Times (the (map_of profit (snd i)))
                               (Var (handle_of (dv_sold factory_dicts) i)))
                      (List.product months products)))
           (SumE (map (\<lambda>i. Times inventory_holding_cost
                               (Var (handle_of (dv_inventory factory_dicts) i)))
                      (List.product months products)))"

definition factory_built :: factory where
  "factory_built =
     factory_dicts\<lparr>factory_model :=
       \<lparr>variables = factory_vars, constraints = factory_rows,
        objective = Some (Maximise, factory_objective)\<rparr>\<rparr>"

text \<open>
  A plan of the factory: all maintenance in January, 100 units of the first product made
  and sold in February, and the closing stock of 50 made in June.
\<close>

definition factory_plan :: assignment where
  "factory_plan =
     plan_of (dv_manufacture factory_dicts)
       (\<lambda>i. if fst i = ''Jun'' then 50 else if i = (''Feb'', ''Prod1'') then 100 else 0)
    (plan_of (dv_inventory factory_dicts) (\<lambda>i. if fst i = ''Jun'' then 50 else 0)
    (plan_of (dv_sold factory_dicts) (\<lambda>i. if i = (''Feb'', ''Prod1'') then 100 else 0)
    (plan_of (dv_repair factory_dicts)
       (\<lambda>i. if fst i = ''Jan'' then the (map_of machines_down (snd i)) else 0)
       (\<lambda>h. 0))))"

subsection \<open>Food manufacture\<close>

definition food_vars :: "variable list" where
  "food_vars =
     map (\<lambda>i. \<lparr>var_lb = 0, var_ub = 1000000, var_integer = False,
                var_name = ''prod_month_'' @ i\<rparr>) months @
     map (\<lambda>i. \<lparr>var_lb = 0, var_ub = 1000000, var_integer = False,
                var_name = ''buy_oil_'' @ str_pair i\<rparr>) month_oil @
     map (\<lambda>i. \<lparr>var_lb = 0, var_ub = 1000000, var_integer = False,
                var_name = ''consume_oil_'' @ str_pair i\<rparr>) month_oil @
     map (\<lambda>i. \<lparr>var_lb = 0, var_ub = 1000000, var_integer = False,
                var_name = ''invt_oil_'' @ str_pair i\<rparr>) month_oil"

definition food_dicts :: food where
  "food_dicts =
     \<lparr>dv_prod = zip months [0..<6],
      dv_oil_buy = zip month_oil [6..<36],
      dv_oil_consume = zip month_oil [36..<66],
      dv_oil_inventory = zip month_oil [66..<96],
      food_model = \<lparr>variables = food_vars, constraints = [], objective = None\<rparr>\<rparr>"

definition food_rows :: "constraint list" where
  "food_rows =
     map (\<lambda>ol. Eq (Plus (Const init_store_inventory)
                         (Var (handle_of (dv_oil_buy food_dicts) (''Jan'', ol))))
                   (Plus (Var (handle_of (dv_oil_consume food_dicts) (''Jan'', ol)))
                         (Var (handle_of (dv_oil_inventory food_dicts) (''Jan'', ol)))))
       oils @
     concat (map (\<lambda>t. map (\<lambda>ol.
         Eq (Plus (Var (handle_of (dv_oil_inventory food_dicts) (months ! (t - 1), ol)))
                  (Var (handle_of (dv_oil_buy food_dicts) (months ! t, ol))))
            (Plus (Var (handle_of (dv_oil_consume food_dicts) (months ! t, ol)))
                  (Var (handle_of (dv_oil_inventory food_dicts) (months ! t, ol)))))
       oils) [1..<6]) @
     map (\<lambda>ol. Eq (Var (handle_of (dv_oil_inventory food_dicts) (''Jun'', ol)))
                   (Const target_store_inventory))
       oils @
     concat (map (\<lambda>mth.
        [Le (SumE (map (\<lambda>ol. Var (handle_of (dv_oil_consume food_dicts) (mth, ol))) veg_oils))
            (Const veg_upper_cap),
         Le (SumE (map (\<lambda>ol. Var (handle_of (dv_oil_consume food_dicts) (mth, ol)))
                       non_veg_oils))
            (Const oil_upper_cap)])
       months) @
     concat (map (\<lambda>mth.
        [Ge (SumE (map (\<lambda>ol. Times (the (map_of hardness ol))
                                   (Var (handle_of (dv_oil_consume food_dicts) (mth, ol))))
                       oils))
            (Times min_hardness (Var (handle_of (dv_prod food_dicts) mth))),
         Le (SumE (map (\<lambda>ol. Times (the (map_of hardness ol))
                                   (Var (handle_of (dv_oil_consume food_dicts) (mth, ol))))
                       oils))
            (Times max_hardness (Var (handle_of (dv_prod food_dicts) mth)))])
       months) @
     map (\<lambda>mth. Eq (SumE (map (\<lambda>ol. Var (handle_of (dv_oil_consume food_dicts) (mth, ol)))
                               oils))
                    (Var (handle_of (dv_prod food_dicts) mth)))
       months"

definition food_objective :: linexpr where
  "food_objective =
     Minus
       (Minus
          (SumE (map (\<lambda>mth. Times price (Var (handle_of (dv_prod food_dicts) mth))) months))
          (SumE (map (\<lambda>i. Times (the (map_of cost i))
                                 (Var (handle_of (dv_oil_buy food_dicts) i)))
                     month_oil)))
       (SumE (map (\<lambda>i. Times food_inventory_holding_cost
                              (Var (handle_of (dv_oil_inventory food_dicts) i)))
                  month_oil))"

definition food_built :: food where
  "food_built =
     food_dicts\<lparr>food_model :=
       \<lparr>variables = food_vars, constraints = food_rows,
        objective = Some (Maximise, food_objective)\<rparr>\<rparr>"

text \<open>
  A plan of the food factory: every month 100 tons of VEG2 and 100 tons of OIL1 are
  bought and refined into 200 tons of food, and the stock of every oil stays at 500.
\<close>

definition food_plan :: assignment where
  "food_plan =
     plan_of (dv_prod food_dicts) (\<lambda>m. 200)
    (plan_of (dv_oil_buy food_dicts)
       (\<lambda>i. if snd i = ''VEG2'' \<or> snd i = ''OIL1'' then 100 else 0)
    (plan_of (dv_oil_consume food_dicts)
       (\<lambda>i. if snd i = ''VEG2'' \<or> snd i = ''OIL1'' then 100 else 0)
    (plan_of (dv_oil_inventory food_dicts) (\<lambda>i. 500)
       (\<lambda>h. 0))))"

subsection \<open>Manpower planning\<close>

definition manpower_vars :: "variable list" where
  "manpower_vars =
     map (\<lambda>i. \<lparr>var_lb = 0, var_ub = the (map_of max_hiring i), var_integer = False,
                var_name = ''hire_'' @ str_year_skill i\<rparr>) year_skill @
     map (\<lambda>i. \<lparr>var_lb = 0, var_ub = max_parttime, var_integer = False,
                var_name = ''part_time_'' @ str_year_skill i\<rparr>) year_skill @
     map (\<lambda>i. \<lparr>var_lb = 0, var_ub = 1000000, var_integer = False,
                var_name = ''workforce_'' @ str_year_skill i\<rparr>) year_skill @
     map (\<lambda>i. \<lparr>var_lb = 0, var_ub = 1000000, var_integer = False,
                var_name = ''layoff_'' @ str_year_skill i\<rparr>) year_skill @
     map (\<lambda>i. \<lparr>var_lb = 0, var_ub = 1000000, var_integer = False,
                var_name = ''excess_'' @ str_year_skill i\<rparr>) year_skill @
     map (\<lambda>i. \<lparr>var_lb = 0, var_ub = 1000000, var_integer = False,
                var_name = ''train_'' @ str_year_skill_skill i\<rparr>) year_skill_skill"

definition manpower_dicts :: manpower where
  "manpower_dicts =
     \<lparr>dv_hire = zip year_skill [0..<9],
      dv_part_time = zip year_skill [9..<18],
      dv_workforce = zip year_skill [18..<27],
      dv_layoff = zip year_skill [27..<36],
      dv_excess = zip year_skill [36..<45],
      dv_train = zip year_skill_skill [45..<72],
      manpower_model = \<lparr>variables = manpower_vars, constraints = [], objective = None\<rparr>\<rparr>"

text \<open>
  The balance row of year \<open>t\<close> and skill \<open>s\<close>, with \<open>prior\<close> standing for what is
  carried into the year: a constant in year 1, the retained workforce of year \<open>t - 1\<close>
  afterwards.
\<close>

definition manpower_flow_row :: "linexpr \<Rightarrow> int \<Rightarrow> string \<Rightarrow> constraint" where
  "manpower_flow_row prior t s =
     Eq (Var (handle_of (dv_workforce manpower_dicts) (t, s)))
        (Minus
          (Plus
            (Plus
              (Plus prior
                (Times (1 - the (map_of new_hire_attrition s))
                       (Var (handle_of (dv_hire manpower_dicts) (t, s)))))
              (SumE (map (\<lambda>s2.
                 Minus (Times (1 - the (map_of experienced_attrition s))
                              (Var (handle_of (dv_train manpower_dicts) (t, s2, s))))
                       (Var (handle_of (dv_train manpower_dicts) (t, s, s2))))
                 (filter (\<lambda>s2. s2 < s) skills))))
            (SumE (map (\<lambda>s2.
               Minus (Times (1 - downgrade_skill_attrition)
                            (Var (handle_of (dv_train manpower_dicts) (t, s2, s))))
                     (Var (handle_of (dv_train manpower_dicts) (t, s, s2))))
               (filter (\<lambda>s2. s2 > s) skills))))
          (Var (handle_of (dv_layoff manpower_dicts) (t, s))))"

definition manpower_rows :: "constraint list" where
  "manpower_rows =
     map (\<lambda>s. manpower_flow_row
                 (Const ((1 - the (map_of experienced_attrition s)) *
                         the (map_of current_workforce s))) 1 s)
       skills @
     concat (map (\<lambda>t. map (\<lambda>s. manpower_flow_row
                 (Times (1 - the (map_of experienced_attrition s))
                        (Var (handle_of (dv_workforce manpower_dicts) (t - 1, s)))) t s)
       skills) (drop 1 years)) @
     concat (map (\<lambda>t.
        [Le (Var (handle_of (dv_train manpower_dicts) (t, ''s1'', ''s2'')))
            (Const max_train_unskilled),
         Eq (Var (handle_of (dv_train manpower_dicts) (t, ''s1'', ''s3''))) (Const 0)])
       years) @
     map (\<lambda>t. Le (Var (handle_of (dv_train manpower_dicts) (t, ''s2'', ''s3'')))
                  (Times max_train_semiskilled
                         (Var (handle_of (dv_workforce manpower_dicts) (t, ''s3'')))))
       years @
     map (\<lambda>t. Le (SumE (map (\<lambda>s. Var (handle_of (dv_excess manpower_dicts) (t, s))) skills))
                  (Const max_overmanning))
       years @
     concat (map (\<lambda>t. map (\<lambda>s.
         Eq (Var (handle_of (dv_workforce manpower_dicts) (t, s)))
            (Plus (Plus (Const (the (map_of demand (t, s))))
                        (Var (handle_of (dv_excess manpower_dicts) (t, s))))
                  (Times parttime_cap (Var (handle_of (dv_part_time manpower_dicts) (t, s))))))
       skills) years)"

definition manpower_objective :: linexpr where
  "manpower_objective =
     SumE (map (\<lambda>i. Var (handle_of (dv_layoff manpower_dicts) i)) (List.product years skills))"

definition manpower_built :: manpower where
  "manpower_built =
     manpower_dicts\<lparr>manpower_model :=
       \<lparr>variables = manpower_vars, constraints = manpower_rows,
        objective = Some (Minimise, manpower_objective)\<rparr>\<rparr>"

text \<open>
  A plan of the workforce: it meets the demand exactly, except for 20 semi-skilled workers
  in excess and 10 on part time in year 1; 100 skilled workers are hired in year 1, 800
  semi-skilled and 500 skilled ones in years 2 and 3; 200 unskilled workers are retrained
  in each of years 2 and 3, and 120 and then 200 semi-skilled ones; the rest is laid off.
\<close>

definition plan_layoff :: "((int \<times> string) \<times> real) list" where
  "plan_layoff =
     [((1, ''s1''), 800), ((1, ''s2''), 0), ((1, ''s3''), 40),
      ((2, ''s1''), 200), ((2, ''s2''), 255 / 4), ((2, ''s3''), 14),
      ((3, ''s1''), 250), ((3, ''s2''), 30), ((3, ''s3''), 65)]"

definition manpower_plan :: assignment where
  "manpower_plan =
     plan_of (dv_hire manpower_dicts)
       (\<lambda>i. if i = (1, ''s3'') then 100
             else if 2 \<le> fst i \<and> snd i = ''s2'' then 800
             else if 2 \<le> fst i \<and> snd i = ''s3'' then 500 else 0)
    (plan_of (dv_part_time manpower_dicts) (\<lambda>i. if i = (1, ''s2'') then 10 else 0)
    (plan_of (dv_workforce manpower_dicts)
       (\<lambda>i. the (map_of demand i) + (if i = (1, ''s2'') then 25 else 0))
    (plan_of (dv_layoff manpower_dicts) (\<lambda>i. the (map_of plan_layoff i))
    (plan_of (dv_excess manpower_dicts) (\<lambda>i. if i = (1, ''s2'') then 20 else 0)
    (plan_of (dv_train manpower_dicts)
       (\<lambda>i. if 2 \<le> fst i \<and> snd i = (''s1'', ''s2'') then 200
             else if i = (2, ''s2'', ''s3'') then 120
             else if i = (3, ''s2'', ''s3'') then 200 else 0)
       (\<lambda>h. 0))))))"

text \<open>
  The same balance row written over handles: \<open>hW\<close>, \<open>hH\<close> and \<open>hL\<close> are the variables
  of the workforce, the hires and the layoffs of the year and skill, \<open>T s1 s2\<close> is the
  variable of the retraining from \<open>s1\<close> to \<open>s2\<close> in that year, \<open>e\<close> and \<open>n\<close> are the
  attrition rates of experienced workers and of new hires.
\<close>

definition workforce_row ::
  "linexpr \<Rightarrow> handle \<Rightarrow> handle \<Rightarrow> handle \<Rightarrow> (string \<Rightarrow> string \<Rightarrow> handle) \<Rightarrow> real \<Rightarrow> real
     \<Rightarrow> string \<Rightarrow> constraint" where
  "workforce_row prior hW hH hL T e n s =
     Eq (Var hW)
        (Minus
          (Plus
            (Plus
              (Plus prior (Times (1 - n) (Var hH)))
              (SumE (map (\<lambda>s2. Minus (Times (1 - e) (Var (T s2 s))) (Var (T s s2)))
                         (filter (\<lambda>s2. s2 < s) skills))))
            (SumE (map (\<lambda>s2. Minus (Times (1 - downgrade_skill_attrition) (Var (T s2 s)))
                                   (Var (T s s2)))
                       (filter (\<lambda>s2. s2 > s) skills))))
          (Var hL))"

subsection \<open>Two solver answers\<close>

text \<open>A solver that finds no solution, and one that reports an optimum of 1000.\<close>

definition no_solution :: "solver \<Rightarrow> outcome" where
  "no_solution model =
     \<lparr>result_status = INFEASIBLE, objective_value = 0, wall_time = 12, iterations = 0,
      nodes = 0\<rparr>"

definition some_optimum :: "solver \<Rightarrow> outcome" where
  "some_optimum model =
     \<lparr>result_status = OPTIMAL, objective_value = 1000, wall_time = 12, iterations = 30,
      nodes = 1\<rparr>"

section \<open>What the scripts build\<close>

subsection \<open>Iteration and comprehensions in closed form\<close>

lemma update_fresh: "k \<notin> fst ` set d \<Longrightarrow> AList.update k v d = d @ [(k, v)]"
  by (induction d) auto

lemma dict_comp_closed:
  assumes "\<And>k s. k \<in> set ks \<Longrightarrow>
             f k s = Inr (length (variables s), s\<lparr>variables := variables s @ [v k]\<rparr>)"
    and "distinct ks" and "set ks \<inter> fst ` set d = {}"
  shows "dict_comp f ks d s =
           Inr (d @ zip ks [length (variables s)..<length (variables s) + length ks],
                s\<lparr>variables := variables s @ map v ks\<rparr>)"
  using assms
proof (induction ks arbitrary: d s)
  case Nil
  then show ?case by simp
next
  case (Cons k ks)
  let ?n = "length (variables s)"
  let ?s = "s\<lparr>variables := variables s @ [v k]\<rparr>"
  have fk: "f k s = Inr (?n, ?s)" using Cons.prems(1) by simp
  have fresh: "k \<notin> fst ` set d" using Cons.prems(3) by auto
  have disj: "set ks \<inter> fst ` set (d @ [(k, ?n)]) = {}"
    using Cons.prems(2,3) by auto
  have "dict_comp f (k # ks) d s = dict_comp f ks (d @ [(k, ?n)]) ?s"
    by (simp add: fk update_fresh [OF fresh])
  also have "\<dots> = Inr ((d @ [(k, ?n)]) @ zip ks [length (variables ?s)..<length (variables ?s) + length ks],
                         ?s\<lparr>variables := variables ?s @ map v ks\<rparr>)"
    using Cons.prems(1,2) by (intro Cons.IH disj) auto
  finally have step: "dict_comp f (k # ks) d s =
      Inr ((d @ [(k, ?n)]) @ zip ks [length (variables ?s)..<length (variables ?s) + length ks],
           ?s\<lparr>variables := variables ?s @ map v ks\<rparr>)" .
  have upt: "[?n..<?n + length (k # ks)] = ?n # [Suc ?n..<Suc ?n + length ks]"
    by (simp add: upt_conv_Cons del: upt_Suc)
  show ?case unfolding step upt by simp
qed

lemma for_each_map_closed:
  assumes "\<And>t s. t \<in> set ts \<Longrightarrow>
             body (g t) s = Inr (s\<lparr>constraints := constraints s @ cs t\<rparr>)"
  shows "for_each body (map g ts) s =
           Inr (s\<lparr>constraints := constraints s @ concat (map cs ts)\<rparr>)"
  using assms by (induction ts arbitrary: s) auto

lemma for_each_closed:
  assumes "\<And>x s. x \<in> set xs \<Longrightarrow> body x s = Inr (s\<lparr>constraints := constraints s @ [c x]\<rparr>)"
  shows "for_each body xs s = Inr (s\<lparr>constraints := constraints s @ map c xs\<rparr>)"
  using assms by (induction xs arbitrary: s) auto

lemma gen_closed:
  assumes "\<And>x. x \<in> set xs \<Longrightarrow> f x = Inr (g x)"
  shows "gen f xs = Inr (map g xs)"
  using assms by (induction xs) auto

lemma var_closed: "k \<in> fst ` set d \<Longrightarrow> var d k = Inr (Var (handle_of d k))"
  by (auto simp: var_def getitem_def handle_of_def weak_map_of_SomeI split: option.splits
      dest: map_of_eq_None_iff [THEN iffD1])

lemma add_closed: "add (Inr c) s = Inr (s\<lparr>constraints := constraints s @ [c]\<rparr>)"
  by (simp add: add_def Add_def)

lemma getitem_closed: "k \<in> fst ` set d \<Longrightarrow> getitem d k = Inr (the (map_of d k))"
  by (auto simp: getitem_def weak_map_of_SomeI split: option.splits
      dest: map_of_eq_None_iff [THEN iffD1])

lemma keys_zip: "length xs = length ys \<Longrightarrow> fst ` set (zip xs ys) = set xs"
  by (metis map_fst_zip set_map)

lemma handle_of_zip:
  assumes "distinct ks" and "i < length ks"
  shows "handle_of (zip ks [n..<n + length ks]) (ks ! i) = n + i"
  using assms by (simp add: handle_of_def map_of_zip_nth)

lemma handle_of_range:
  assumes "distinct ks" and "k \<in> set ks"
  shows "n \<le> handle_of (zip ks [n..<n + length ks]) k"
    and "handle_of (zip ks [n..<n + length ks]) k < n + length ks"
  using assms handle_of_zip [of ks _ n] by (auto simp: in_set_conv_nth)

lemma val_closed:
  "k \<in> fst ` set d \<Longrightarrow> val a d k = Some (a (handle_of d k))"
proof -
  assume "k \<in> fst ` set d"
  then obtain h where "map_of d k = Some h"
    by (cases "map_of d k") (auto simp: map_of_eq_None_iff)
  then show ?thesis by (simp add: val_def handle_of_def)
qed

lemma bounds_closed:
  assumes "distinct ks"
  shows "list_all (in_bounds a) (enumerate n (map v ks)) \<longleftrightarrow>
           (\<forall>k\<in>set ks. in_bounds a (handle_of (zip ks [n..<n + length ks]) k, v k))"
proof -
  have "list_all (in_bounds a) (enumerate n (map v ks)) \<longleftrightarrow>
          (\<forall>i<length ks. in_bounds a (n + i, v (ks ! i)))"
    by (simp add: list_all_length nth_enumerate_eq)
  also have "\<dots> \<longleftrightarrow> (\<forall>i<length ks.
      in_bounds a (handle_of (zip ks [n..<n + length ks]) (ks ! i), v (ks ! i)))"
    using assms by (simp add: handle_of_zip)
  also have "\<dots> \<longleftrightarrow>
      (\<forall>k\<in>set ks. in_bounds a (handle_of (zip ks [n..<n + length ks]) k, v k))"
    by (metis in_set_conv_nth)
  finally show ?thesis .
qed

lemma find_zip_upt:
  assumes "i < length ks"
  shows "find (\<lambda>kh. snd kh = n + i) (zip ks [n..<n + length ks]) = Some (ks ! i, n + i)"
  using assms
proof (induction ks arbitrary: n i)
  case Nil
  then show ?case by simp
next
  case (Cons k ks)
  have upt: "[n..<n + length (k # ks)] = n # [Suc n..<Suc n + length ks]"
    by (simp add: upt_conv_Cons del: upt_Suc)
  show ?case
  proof (cases i)
    case 0
    then show ?thesis unfolding upt by simp
  next
    case (Suc j)
    then have "j < length ks" using Cons.prems by simp
    from Cons.IH [OF this, of "Suc n"] Suc show ?thesis unfolding upt by simp
  qed
qed

lemma plan_of_hit:
  assumes "distinct ks" and "k \<in> set ks"
  shows "plan_of (zip ks [n..<n + length ks]) f a
           (handle_of (zip ks [n..<n + length ks]) k) = f k"
proof -
  obtain i where i: "i < length ks" "k = ks ! i"
    using assms(2) by (auto simp: in_set_conv_nth)
  show ?thesis
    using i assms(1) by (simp add: plan_of_def handle_of_zip find_zip_upt)
qed

lemma plan_of_miss:
  assumes "h < n \<or> n + length ks \<le> h"
  shows "plan_of (zip ks [n..<n + length ks]) f a h = a h"
proof -
  have "find (\<lambda>kh. snd kh = h) (zip ks [n..<n + length ks]) = None"
    using assms by (auto simp: find_None_iff dest!: set_zip_rightD)
  then show ?thesis by (simp add: plan_of_def)
qed

subsection \<open>The factory model in closed form\<close>

lemma distinct_months: "distinct months" by (simp add: months_def)

lemma distinct_products: "distinct products" by (simp add: products_def)

lemma distinct_machines: "distinct machines" by (simp add: machines_def)

lemma length_months: "length months = 6" by (simp add: months_def)

lemma length_products: "length products = 7" by (simp add: products_def)

lemma length_machines: "length machines = 5" by (simp add: machines_def)

lemma distinct_month_product: "distinct month_product"
  by (simp add: month_product_def distinct_product distinct_months distinct_products)

lemma length_month_product: "length month_product = 42"
  by (simp add: month_product_def length_months length_products)

lemma max_sales_keys: "map fst max_sales = month_product"
  by (simp add: max_sales_def month_product_def months_def products_def)

lemma machines_down_keys: "map fst machines_down = machines"
  by (simp add: machines_down_def machines_def)

lemma machines_installed_keys: "map fst machines_installed = machines"
  by (simp add: machines_installed_def machines_def)

lemma profit_keys: "map fst profit = products"
  by (simp add: profit_def products_def)

lemma time_required_keys: "map fst time_required = machines"
  by (simp add: time_required_def machines_def)

lemma getitem_max_sales:
  "i \<in> set month_product \<Longrightarrow> getitem max_sales i = Inr (the (map_of max_sales i))"
  by (rule getitem_closed) (simp add: max_sales_keys [symmetric])

lemma getitem_machines_down:
  "m \<in> set machines \<Longrightarrow> getitem machines_down m = Inr (the (map_of machines_down m))"
  by (rule getitem_closed) (simp add: machines_down_keys [symmetric])

lemma getitem_machines_installed:
  "m \<in> set machines \<Longrightarrow>
     getitem machines_installed m = Inr (the (map_of machines_installed m))"
  by (rule getitem_closed) (simp add: machines_installed_keys [symmetric])

lemma getitem_profit:
  "p \<in> set products \<Longrightarrow> getitem profit p = Inr (the (map_of profit p))"
  by (rule getitem_closed) (simp add: profit_keys [symmetric])

lemma getitem_time_required:
  "m \<in> set machines \<Longrightarrow> getitem time_required m = Inr (the (map_of time_required m))"
  by (rule getitem_closed) (simp add: time_required_keys [symmetric])

lemma factory_variables_closed: "factory_variables = Inr factory_dicts"
proof -
  let ?v1 = "\<lambda>i. \<lparr>var_lb = 0, var_ub = 1000000, var_integer = False,
                var_name = ''manuf_'' @ str_pair i\<rparr>"
  let ?v2 = "\<lambda>i. \<lparr>var_lb = 0, var_ub = maximum_inventory, var_integer = False,
                var_name = ''invt_'' @ str_pair i\<rparr>"
  let ?v3 = "\<lambda>i. \<lparr>var_lb = 0, var_ub = the (map_of max_sales i), var_integer = False,
                var_name = ''sold_'' @ str_pair i\<rparr>"
  let ?v4 = "\<lambda>i. \<lparr>var_lb = 0, var_ub = the (map_of machines_down (snd i)), var_integer = True,
                var_name = ''down_'' @ fst i @ ''_'' @ snd i\<rparr>"
  let ?mm = "List.product months machines"
  have 1: "dict_comp (\<lambda>i s. Inr (NumVar 0 1000000 (''manuf_'' @ str_pair i) s))
             month_product [] s =
           Inr ([] @ zip month_product [length (variables s)..<length (variables s) + length month_product],
                s\<lparr>variables := variables s @ map ?v1 month_product\<rparr>)" for s
    by (rule dict_comp_closed) (simp_all add: NumVar_def distinct_month_product)
  have 2: "dict_comp (\<lambda>i s. Inr (NumVar 0 maximum_inventory (''invt_'' @ str_pair i) s))
             month_product [] s =
           Inr ([] @ zip month_product [length (variables s)..<length (variables s) + length month_product],
                s\<lparr>variables := variables s @ map ?v2 month_product\<rparr>)" for s
    by (rule dict_comp_closed) (simp_all add: NumVar_def distinct_month_product)
  have 3: "dict_comp (\<lambda>i s. bind (getitem max_sales i)
                                (\<lambda>cap. Inr (NumVar 0 cap (''sold_'' @ str_pair i) s)))
             month_product [] s =
           Inr ([] @ zip month_product [length (variables s)..<length (variables s) + length month_product],
                s\<lparr>variables := variables s @ map ?v3 month_product\<rparr>)" for s
    by (rule dict_comp_closed)
       (simp_all add: NumVar_def distinct_month_product getitem_max_sales)
  have 4: "dict_comp (\<lambda>i s. bind (getitem machines_down (snd i))
                                (\<lambda>down. Inr (IntVar 0 down (''down_'' @ fst i @ ''_'' @ snd i) s)))
             ?mm [] s =
           Inr ([] @ zip ?mm [length (variables s)..<length (variables s) + length ?mm],
                s\<lparr>variables := variables s @ map ?v4 ?mm\<rparr>)" for s
    by (rule dict_comp_closed)
       (auto simp: IntVar_def distinct_product distinct_months distinct_machines
          getitem_machines_down)
  show ?thesis
    unfolding factory_variables_def 1 2 3 4
    by (simp add: Solver_def factory_dicts_def factory_vars_def length_month_product
          length_months length_machines)
qed

lemma set_month_product: "set month_product = set months \<times> set products"
  by (simp add: month_product_def)

lemma factory_keys:
  "fst ` set (dv_manufacture factory_dicts) = set months \<times> set products"
  "fst ` set (dv_inventory factory_dicts) = set months \<times> set products"
  "fst ` set (dv_sold factory_dicts) = set months \<times> set products"
  "fst ` set (dv_repair factory_dicts) = set months \<times> set machines"
  by (simp_all add: factory_dicts_def keys_zip length_month_product length_months
        length_machines set_month_product del: upt_rec_numeral)

lemma Jan_month: "''Jan'' \<in> set months" by (simp add: months_def)

lemma Jun_month: "''Jun'' \<in> set months" by (simp add: months_def)

lemma later_months: "drop 1 months = map ((!) months) [1..<6]"
  by code_simp

lemma prev_month:
  assumes "Suc 0 \<le> t" and "t < 6"
  shows "index months (months ! t) = Inr (int t)"
    and "list_get months (int t - 1) = Inr (months ! (t - Suc 0))"
    and "months ! t \<in> set months" and "months ! (t - Suc 0) \<in> set months"
proof -
  have "t = 1 \<or> t = 2 \<or> t = 3 \<or> t = 4 \<or> t = 5" using assms by auto
  then show "index months (months ! t) = Inr (int t)"
    and "list_get months (int t - 1) = Inr (months ! (t - Suc 0))"
    and "months ! t \<in> set months" and "months ! (t - Suc 0) \<in> set months"
    by (auto simp: months_def list_get_def)
qed

lemma time_required_products:
  "mach \<in> set machines \<Longrightarrow> set (map fst (the (map_of time_required mach))) \<subseteq> set products"
  by (auto simp: machines_def time_required_def products_def)

lemmas lifted_defs = py_eq_def py_le_def py_ge_def py_add_def py_sub_def py_mul_def lift2_def num_def Sum_def

lemma factory_initial_balance_closed:
  "factory_initial_balance factory_dicts s =
     Inr (s\<lparr>constraints := constraints s @
       map (\<lambda>prd. Eq (Var (handle_of (dv_manufacture factory_dicts) (''Jan'', prd)))
                   (Plus (Var (handle_of (dv_sold factory_dicts) (''Jan'', prd)))
                         (Var (handle_of (dv_inventory factory_dicts) (''Jan'', prd)))))
       products\<rparr>)"
  unfolding factory_initial_balance_def
  by (rule for_each_closed)
     (simp add: var_closed factory_keys Jan_month lifted_defs add_closed)

lemma factory_balance_closed:
  "factory_balance factory_dicts s =
     Inr (s\<lparr>constraints := constraints s @
       concat (map (\<lambda>t. map (\<lambda>prd.
         Eq (Plus (Var (handle_of (dv_inventory factory_dicts) (months ! (t - 1), prd)))
                  (Var (handle_of (dv_manufacture factory_dicts) (months ! t, prd))))
            (Plus (Var (handle_of (dv_sold factory_dicts) (months ! t, prd)))
                  (Var (handle_of (dv_inventory factory_dicts) (months ! t, prd)))))
       products) [1..<6])\<rparr>)"
  unfolding factory_balance_def later_months
  by (rule for_each_map_closed, rule for_each_closed)
     (simp add: var_closed factory_keys prev_month lifted_defs add_closed)

lemma factory_target_closed:
  "factory_target factory_dicts s =
     Inr (s\<lparr>constraints := constraints s @
       map (\<lambda>prd. Eq (Var (handle_of (dv_inventory factory_dicts) (''Jun'', prd)))
                     (Const inventory_target))
       products\<rparr>)"
  unfolding factory_target_def
  by (rule for_each_closed)
     (simp add: var_closed factory_keys Jun_month lifted_defs add_closed)

lemma factory_capacity_closed:
  "factory_capacity factory_dicts s =
     Inr (s\<lparr>constraints := constraints s @
       concat (map (\<lambda>mth. map (\<lambda>mach.
         Le (SumE (map (\<lambda>prd. Times (the (map_of (the (map_of time_required mach)) prd))
                                    (Var (handle_of (dv_manufacture factory_dicts) (mth, prd))))
                       (map fst (the (map_of time_required mach)))))
            (Times hours_per_month
               (Minus (Const (the (map_of machines_installed mach)))
                      (Var (handle_of (dv_repair factory_dicts) (mth, mach))))))
       machines) months)\<rparr>)"
proof -
  have row: "gen (\<lambda>prd. py_mul (getitem (the (map_of time_required mach)) prd)
                                (var (dv_manufacture factory_dicts) (mth, prd)))
                 (map fst (the (map_of time_required mach))) =
             Inr (map (\<lambda>prd. Times (the (map_of (the (map_of time_required mach)) prd))
                                    (Var (handle_of (dv_manufacture factory_dicts) (mth, prd))))
                       (map fst (the (map_of time_required mach))))"
    if "mth \<in> set months" "mach \<in> set machines" for mth mach
  proof (rule gen_closed)
    fix prd assume prd: "prd \<in> set (map fst (the (map_of time_required mach)))"
    then have "prd \<in> set products" using time_required_products [OF that(2)] by blast
    moreover have "getitem (the (map_of time_required mach)) prd =
        Inr (the (map_of (the (map_of time_required mach)) prd))"
      using prd by (intro getitem_closed) simp
    ultimately show "py_mul (getitem (the (map_of time_required mach)) prd)
            (var (dv_manufacture factory_dicts) (mth, prd)) =
          Inr (Times (the (map_of (the (map_of time_required mach)) prd))
                 (Var (handle_of (dv_manufacture factory_dicts) (mth, prd))))"
      using that by (simp add: var_closed factory_keys lifted_defs)
  qed
  show ?thesis
    unfolding factory_capacity_def
    apply (rule for_each_map_closed [where g = "\<lambda>x. x", simplified])
    apply (rule for_each_closed)
    apply (simp only: getitem_time_required bind.simps)
    apply (simp only: row)
    apply (simp add: getitem_machines_installed var_closed
        factory_keys lifted_defs add_closed)
    done
qed

lemma factory_downtime_closed:
  "factory_downtime factory_dicts s =
     Inr (s\<lparr>constraints := constraints s @
       map (\<lambda>mach. Eq (SumE (map (\<lambda>mth. Var (handle_of (dv_repair factory_dicts) (mth, mach)))
                              months))
                    (Const (the (map_of machines_down mach))))
       machines\<rparr>)"
proof -
  have row: "gen (\<lambda>mth. var (dv_repair factory_dicts) (mth, mach)) months =
      Inr (map (\<lambda>mth. Var (handle_of (dv_repair factory_dicts) (mth, mach))) months)"
    if "mach \<in> set machines" for mach
    by (rule gen_closed) (simp add: var_closed factory_keys that)
  show ?thesis
    unfolding factory_downtime_def
    by (rule for_each_closed)
       (simp add: row getitem_machines_down lifted_defs add_closed)
qed

lemma factory_obj_func_closed: "factory_obj_func factory_dicts = Inr factory_objective"
proof -
  have 1: "gen (\<lambda>i. py_mul (getitem profit (snd i)) (var (dv_sold factory_dicts) i))
             (List.product months products) =
           Inr (map (\<lambda>i. Times (the (map_of profit (snd i)))
                               (Var (handle_of (dv_sold factory_dicts) i)))
                      (List.product months products))"
    by (rule gen_closed) (auto simp: getitem_profit var_closed factory_keys lifted_defs)
  have 2: "gen (\<lambda>i. py_mul (Inr inventory_holding_cost) (var (dv_inventory factory_dicts) i))
             (List.product months products) =
           Inr (map (\<lambda>i. Times inventory_holding_cost
                               (Var (handle_of (dv_inventory factory_dicts) i)))
                      (List.product months products))"
    by (rule gen_closed) (auto simp: var_closed factory_keys lifted_defs)
  show ?thesis
    unfolding factory_obj_func_def 1 2 by (simp add: lifted_defs factory_objective_def)
qed

lemma build_factory_closed: "build_factory = Inr factory_built"
  unfolding build_factory_def factory_variables_closed factory_built_def
  by (simp add: factory_initial_balance_closed factory_balance_closed factory_target_closed
        factory_capacity_closed factory_downtime_closed factory_obj_func_closed
        Maximize_def factory_rows_def)
     (simp add: factory_dicts_def)

lemma distinct_month_machine: "distinct (List.product months machines)"
  by (simp add: distinct_product distinct_months distinct_machines)

lemma length_month_machine: "length (List.product months machines) = 30"
  by (simp add: length_months length_machines)

lemma factory_feasible_iff:
  "feasible \<lparr>variables = factory_vars, constraints = factory_rows, objective = obj\<rparr> a \<longleftrightarrow>
     (\<forall>i\<in>set month_product.
        0 \<le> a (handle_of (dv_manufacture factory_dicts) i) \<and>
        a (handle_of (dv_manufacture factory_dicts) i) \<le> 1000000) \<and>
     (\<forall>i\<in>set month_product.
        0 \<le> a (handle_of (dv_inventory factory_dicts) i) \<and>
        a (handle_of (dv_inventory factory_dicts) i) \<le> maximum_inventory) \<and>
     (\<forall>i\<in>set month_product.
        0 \<le> a (handle_of (dv_sold factory_dicts) i) \<and>
        a (handle_of (dv_sold factory_dicts) i) \<le> the (map_of max_sales i)) \<and>
     (\<forall>i\<in>set (List.product months machines).
        0 \<le> a (handle_of (dv_repair factory_dicts) i) \<and>
        a (handle_of (dv_repair factory_dicts) i) \<le> the (map_of machines_down (snd i)) \<and>
        whole (a (handle_of (dv_repair factory_dicts) i))) \<and>
     list_all (holds a) factory_rows"
proof -
  note [simp del] = upt_rec_numeral
  note b = bounds_closed [OF distinct_month_product, unfolded length_month_product]
  note r = bounds_closed [OF distinct_month_machine, unfolded length_month_machine]
  show ?thesis
    unfolding feasible_def factory_vars_def
    by (simp add: enumerate_append_eq length_month_product b [of _ 0, simplified]
          b [of _ 42, simplified] b [of _ 84, simplified] r [of _ 126, simplified]
          in_bounds_def factory_dicts_def del: upt_rec_numeral)
qed

lemma factory_plan_values:
  "i \<in> set month_product \<Longrightarrow>
     factory_plan (handle_of (dv_manufacture factory_dicts) i) =
       (if fst i = ''Jun'' then 50 else if i = (''Feb'', ''Prod1'') then 100 else 0)"
  "i \<in> set month_product \<Longrightarrow>
     factory_plan (handle_of (dv_inventory factory_dicts) i) =
       (if fst i = ''Jun'' then 50 else 0)"
  "i \<in> set month_product \<Longrightarrow>
     factory_plan (handle_of (dv_sold factory_dicts) i) =
       (if i = (''Feb'', ''Prod1'') then 100 else 0)"
  "j \<in> set (List.product months machines) \<Longrightarrow>
     factory_plan (handle_of (dv_repair factory_dicts) j) =
       (if fst j = ''Jan'' then the (map_of machines_down (snd j)) else 0)"
proof -
  note [simp del] = upt_rec_numeral
  note h = plan_of_hit [OF distinct_month_product, unfolded length_month_product]
  note hr = plan_of_hit [OF distinct_month_machine, unfolded length_month_machine]
  note m = plan_of_miss [of _ _ month_product, unfolded length_month_product]
  note g = handle_of_range [OF distinct_month_product, unfolded length_month_product]
  note gr = handle_of_range [OF distinct_month_machine, unfolded length_month_machine]
  show "i \<in> set month_product \<Longrightarrow>
     factory_plan (handle_of (dv_manufacture factory_dicts) i) =
       (if fst i = ''Jun'' then 50 else if i = (''Feb'', ''Prod1'') then 100 else 0)"
    unfolding factory_plan_def factory_dicts_def
    using h [of i 0] by (simp del: upt_rec_numeral)
  show "i \<in> set month_product \<Longrightarrow>
     factory_plan (handle_of (dv_inventory factory_dicts) i) =
       (if fst i = ''Jun'' then 50 else 0)"
    unfolding factory_plan_def factory_dicts_def
    using h [of i 42] g [of i 42] m [of _ 0] by (simp del: upt_rec_numeral)
  show "i \<in> set month_product \<Longrightarrow>
     factory_plan (handle_of (dv_sold factory_dicts) i) =
       (if i = (''Feb'', ''Prod1'') then 100 else 0)"
    unfolding factory_plan_def factory_dicts_def
    using h [of i 84] g [of i 84] m [of _ 0] m [of _ 42] by (simp del: upt_rec_numeral)
  show "j \<in> set (List.product months machines) \<Longrightarrow>
     factory_plan (handle_of (dv_repair factory_dicts) j) =
       (if fst j = ''Jan'' then the (map_of machines_down (snd j)) else 0)"
    unfolding factory_plan_def factory_dicts_def
    using hr [of j 126] gr [of j 126] m [of _ 0] m [of _ 42] m [of _ 84]
    by (simp del: upt_rec_numeral)
qed

lemma factory_plan_feasible:
  "feasible \<lparr>variables = factory_vars, constraints = factory_rows, objective = obj\<rparr> factory_plan"
  unfolding factory_feasible_iff
proof (intro conjI)
  show "\<forall>i\<in>set month_product.
        0 \<le> factory_plan (handle_of (dv_manufacture factory_dicts) i) \<and>
        factory_plan (handle_of (dv_manufacture factory_dicts) i) \<le> 1000000"
    by (simp add: factory_plan_values)
  show "\<forall>i\<in>set month_product.
        0 \<le> factory_plan (handle_of (dv_inventory factory_dicts) i) \<and>
        factory_plan (handle_of (dv_inventory factory_dicts) i) \<le> maximum_inventory"
    by (simp add: factory_plan_values maximum_inventory_def)
  show "\<forall>i\<in>set month_product.
        0 \<le> factory_plan (handle_of (dv_sold factory_dicts) i) \<and>
        factory_plan (handle_of (dv_sold factory_dicts) i) \<le> the (map_of max_sales i)"
    by (simp add: factory_plan_values)
       (simp add: month_product_def months_def products_def max_sales_def)
  show "\<forall>i\<in>set (List.product months machines).
        0 \<le> factory_plan (handle_of (dv_repair factory_dicts) i) \<and>
        factory_plan (handle_of (dv_repair factory_dicts) i) \<le> the (map_of machines_down (snd i)) \<and>
        whole (factory_plan (handle_of (dv_repair factory_dicts) i))"
    by (simp add: factory_plan_values)
       (simp add: months_def machines_def machines_down_def whole_def)
  have initial: "\<forall>prd\<in>set products. holds factory_plan
      (Eq (Var (handle_of (dv_manufacture factory_dicts) (''Jan'', prd)))
          (Plus (Var (handle_of (dv_sold factory_dicts) (''Jan'', prd)))
                (Var (handle_of (dv_inventory factory_dicts) (''Jan'', prd)))))"
    by (simp add: factory_plan_values set_month_product Jan_month)
  have balance: "\<forall>t\<in>set [1..<6]. \<forall>prd\<in>set products. holds factory_plan
      (Eq (Plus (Var (handle_of (dv_inventory factory_dicts) (months ! (t - 1), prd)))
                (Var (handle_of (dv_manufacture factory_dicts) (months ! t, prd))))
          (Plus (Var (handle_of (dv_sold factory_dicts) (months ! t, prd)))
                (Var (handle_of (dv_inventory factory_dicts) (months ! t, prd)))))"
  proof (intro ballI)
    fix t prd assume "t \<in> set [1..<6]" and prd: "prd \<in> set products"
    then have "t = 1 \<or> t = 2 \<or> t = 3 \<or> t = 4 \<or> t = 5" by auto
    then show "holds factory_plan
      (Eq (Plus (Var (handle_of (dv_inventory factory_dicts) (months ! (t - 1), prd)))
                (Var (handle_of (dv_manufacture factory_dicts) (months ! t, prd))))
          (Plus (Var (handle_of (dv_sold factory_dicts) (months ! t, prd)))
                (Var (handle_of (dv_inventory factory_dicts) (months ! t, prd)))))"
      using prd
      by (elim disjE) (simp_all add: factory_plan_values set_month_product months_def)
  qed
  have target: "\<forall>prd\<in>set products. holds factory_plan
      (Eq (Var (handle_of (dv_inventory factory_dicts) (''Jun'', prd))) (Const inventory_target))"
    by (simp add: factory_plan_values set_month_product Jun_month inventory_target_def)
  have capacity: "\<forall>mth\<in>set months. \<forall>mach\<in>set machines. holds factory_plan
      (Le (SumE (map (\<lambda>prd. Times (the (map_of (the (map_of time_required mach)) prd))
                                    (Var (handle_of (dv_manufacture factory_dicts) (mth, prd))))
                       (map fst (the (map_of time_required mach)))))
            (Times hours_per_month
               (Minus (Const (the (map_of machines_installed mach)))
                      (Var (handle_of (dv_repair factory_dicts) (mth, mach))))))"
    by (simp add: months_def machines_def time_required_def)
       (simp add: factory_plan_values set_month_product months_def machines_def products_def
          machines_installed_def machines_down_def hours_per_month_def)
  have downtime: "\<forall>mach\<in>set machines. holds factory_plan
      (Eq (SumE (map (\<lambda>mth. Var (handle_of (dv_repair factory_dicts) (mth, mach))) months))
          (Const (the (map_of machines_down mach))))"
    by (simp add: months_def machines_def)
       (simp add: factory_plan_values months_def machines_def machines_down_def)
  show "list_all (holds factory_plan) factory_rows"
    unfolding factory_rows_def list_all_iff
    using initial balance target capacity downtime by auto
qed

subsection \<open>Reading the built factory model\<close>

lemma nth_registered:
  assumes "distinct ks" and "k \<in> set ks" and "length A = n"
  shows "(A @ map v ks @ B) ! handle_of (zip ks [n..<n + length ks]) k = v k"
proof -
  obtain i where i: "i < length ks" "k = ks ! i"
    using assms(2) by (auto simp: in_set_conv_nth)
  show ?thesis
    using i assms(1,3) by (simp add: handle_of_zip nth_append)
qed

lemma map_of_closed: "k \<in> fst ` set d \<Longrightarrow> map_of d k = Some (handle_of d k)"
  using val_closed [of k d id] by (simp add: val_def)

lemma factory_built_fields:
  "dv_manufacture factory_built = dv_manufacture factory_dicts"
  "dv_inventory factory_built = dv_inventory factory_dicts"
  "dv_sold factory_built = dv_sold factory_dicts"
  "dv_repair factory_built = dv_repair factory_dicts"
  "variables (factory_model factory_built) = factory_vars"
  "constraints (factory_model factory_built) = factory_rows"
  "objective (factory_model factory_built) = Some (Maximise, factory_objective)"
  by (simp_all add: factory_built_def)

lemma factory_feasible:
  "feasible (factory_model factory_built) a \<longleftrightarrow>
     feasible \<lparr>variables = factory_vars, constraints = factory_rows,
               objective = Some (Maximise, factory_objective)\<rparr> a"
  by (simp add: factory_built_def)

lemma factory_plan_ok: "feasible (factory_model factory_built) factory_plan"
  unfolding factory_feasible by (rule factory_plan_feasible)

lemma factory_row_holds:
  assumes "feasible (factory_model factory_built) a" and "c \<in> set factory_rows"
  shows "holds a c"
  using assms unfolding factory_feasible factory_feasible_iff list_all_iff by blast

lemma factory_rows_member:
  "prd \<in> set products \<Longrightarrow>
     Eq (Var (handle_of (dv_manufacture factory_dicts) (''Jan'', prd)))
        (Plus (Var (handle_of (dv_sold factory_dicts) (''Jan'', prd)))
              (Var (handle_of (dv_inventory factory_dicts) (''Jan'', prd))))
       \<in> set factory_rows"
  "Suc 0 \<le> t \<Longrightarrow> t < 6 \<Longrightarrow> prd \<in> set products \<Longrightarrow>
     Eq (Plus (Var (handle_of (dv_inventory factory_dicts) (months ! (t - 1), prd)))
              (Var (handle_of (dv_manufacture factory_dicts) (months ! t, prd))))
        (Plus (Var (handle_of (dv_sold factory_dicts) (months ! t, prd)))
              (Var (handle_of (dv_inventory factory_dicts) (months ! t, prd))))
       \<in> set factory_rows"
  "prd \<in> set products \<Longrightarrow>
     Eq (Var (handle_of (dv_inventory factory_dicts) (''Jun'', prd))) (Const inventory_target)
       \<in> set factory_rows"
  "mach \<in> set machines \<Longrightarrow>
     Eq (SumE (map (\<lambda>mth. Var (handle_of (dv_repair factory_dicts) (mth, mach))) months))
        (Const (the (map_of machines_down mach)))
       \<in> set factory_rows"
  unfolding factory_rows_def by auto

lemma factory_val:
  "i \<in> set month_product \<Longrightarrow>
     val a (dv_manufacture factory_built) i =
       Some (a (handle_of (dv_manufacture factory_dicts) i))"
  "i \<in> set month_product \<Longrightarrow>
     val a (dv_inventory factory_built) i = Some (a (handle_of (dv_inventory factory_dicts) i))"
  "i \<in> set month_product \<Longrightarrow>
     val a (dv_sold factory_built) i = Some (a (handle_of (dv_sold factory_dicts) i))"
  "j \<in> set months \<times> set machines \<Longrightarrow>
     val a (dv_repair factory_built) j = Some (a (handle_of (dv_repair factory_dicts) j))"
  by (simp_all add: factory_built_fields val_closed factory_keys set_month_product)

subsection \<open>The food model in closed form\<close>

lemma distinct_oils: "distinct oils" by (simp add: oils_def)
lemma length_oils: "length oils = 5" by (simp add: oils_def)

lemma distinct_month_oil: "distinct month_oil"
  by (simp add: month_oil_def distinct_product distinct_months distinct_oils)

lemma length_month_oil: "length month_oil = 30"
  by (simp add: month_oil_def length_months length_oils)

lemma set_month_oil: "set month_oil = set months \<times> set oils"
  by (simp add: month_oil_def)

lemma cost_keys: "map fst cost = month_oil"
  by (simp add: cost_def month_oil_def months_def oils_def)

lemma hardness_keys: "map fst hardness = oils"
  by (simp add: hardness_def oils_def)

lemma getitem_cost: "i \<in> set month_oil \<Longrightarrow> getitem cost i = Inr (the (map_of cost i))"
  by (rule getitem_closed) (simp add: cost_keys [symmetric])

lemma getitem_hardness:
  "ol \<in> set oils \<Longrightarrow> getitem hardness ol = Inr (the (map_of hardness ol))"
  by (rule getitem_closed) (simp add: hardness_keys [symmetric])

lemma veg_oils_sub: "set veg_oils \<subseteq> set oils" "set non_veg_oils \<subseteq> set oils"
  by (simp_all add: veg_oils_def non_veg_oils_def oils_def)

lemma food_variables_closed: "food_variables = Inr food_dicts"
proof -
  note [simp del] = upt_rec_numeral
  let ?v0 = "\<lambda>i. \<lparr>var_lb = 0, var_ub = 1000000, var_integer = False,
                var_name = ''prod_month_'' @ i\<rparr>"
  have 0: "dict_comp (\<lambda>i s. Inr (NumVar 0 1000000 (''prod_month_'' @ i) s)) months [] s =
           Inr ([] @ zip months [length (variables s)..<length (variables s) + length months],
                s\<lparr>variables := variables s @ map ?v0 months\<rparr>)" for s
    by (rule dict_comp_closed) (simp_all add: NumVar_def distinct_months)
  have 1: "dict_comp (\<lambda>i s. Inr (NumVar 0 1000000 (pre @ str_pair i) s)) month_oil [] s =
           Inr ([] @ zip month_oil [length (variables s)..<length (variables s) + length month_oil],
                s\<lparr>variables := variables s @
                  map (\<lambda>i. \<lparr>var_lb = 0, var_ub = 1000000, var_integer = False,
                             var_name = pre @ str_pair i\<rparr>) month_oil\<rparr>)" for s pre
    by (rule dict_comp_closed) (simp_all add: NumVar_def distinct_month_oil)
  show ?thesis
    unfolding food_variables_def 0 1
    by (simp add: Solver_def food_dicts_def food_vars_def length_month_oil length_months)
qed

lemma food_keys:
  "fst ` set (dv_prod food_dicts) = set months"
  "fst ` set (dv_oil_buy food_dicts) = set months \<times> set oils"
  "fst ` set (dv_oil_consume food_dicts) = set months \<times> set oils"
  "fst ` set (dv_oil_inventory food_dicts) = set months \<times> set oils"
  by (simp_all add: food_dicts_def keys_zip length_month_oil length_months set_month_oil
        del: upt_rec_numeral)

lemma food_initial_balance_closed:
  "food_initial_balance food_dicts s =
     Inr (s\<lparr>constraints := constraints s @
       map (\<lambda>ol. Eq (Plus (Const init_store_inventory)
                         (Var (handle_of (dv_oil_buy food_dicts) (''Jan'', ol))))
                   (Plus (Var (handle_of (dv_oil_consume food_dicts) (''Jan'', ol)))
                         (Var (handle_of (dv_oil_inventory food_dicts) (''Jan'', ol)))))
       oils\<rparr>)"
  unfolding food_initial_balance_def
  by (rule for_each_closed)
     (simp add: var_closed food_keys Jan_month lifted_defs add_closed)

lemma food_balance_closed:
  "food_balance food_dicts s =
     Inr (s\<lparr>constraints := constraints s @
       concat (map (\<lambda>t. map (\<lambda>ol.
         Eq (Plus (Var (handle_of (dv_oil_inventory food_dicts) (months ! (t - 1), ol)))
                  (Var (handle_of (dv_oil_buy food_dicts) (months ! t, ol))))
            (Plus (Var (handle_of (dv_oil_consume food_dicts) (months ! t, ol)))
                  (Var (handle_of (dv_oil_inventory food_dicts) (months ! t, ol)))))
       oils) [1..<6])\<rparr>)"
proof -
  have inner: "for_each (\<lambda>ol.
           add (py_eq (py_add (var (dv_oil_inventory food_dicts) (prev_mth, ol))
                         (var (dv_oil_buy food_dicts) (mth, ol)))
                   (py_add (var (dv_oil_consume food_dicts) (mth, ol))
                         (var (dv_oil_inventory food_dicts) (mth, ol)))))
           oils s =
         Inr (s\<lparr>constraints := constraints s @ map (\<lambda>ol.
           Eq (Plus (Var (handle_of (dv_oil_inventory food_dicts) (prev_mth, ol)))
                    (Var (handle_of (dv_oil_buy food_dicts) (mth, ol))))
              (Plus (Var (handle_of (dv_oil_consume food_dicts) (mth, ol)))
                    (Var (handle_of (dv_oil_inventory food_dicts) (mth, ol))))) oils\<rparr>)"
    if "mth \<in> set months" "prev_mth \<in> set months" for mth prev_mth s
    by (rule for_each_closed)
       (simp add: var_closed food_keys that lifted_defs add_closed)
  show ?thesis
    unfolding food_balance_def later_months
    by (rule for_each_map_closed) (simp add: prev_month inner)
qed

lemma food_target_closed:
  "food_target food_dicts s =
     Inr (s\<lparr>constraints := constraints s @
       map (\<lambda>ol. Eq (Var (handle_of (dv_oil_inventory food_dicts) (''Jun'', ol)))
                   (Const target_store_inventory))
       oils\<rparr>)"
  unfolding food_target_def
  by (rule for_each_closed)
     (simp add: var_closed food_keys Jun_month lifted_defs add_closed)

lemma food_consume_sum:
  assumes "mth \<in> set months" and "set ols \<subseteq> set oils"
  shows "gen (\<lambda>ol. var (dv_oil_consume food_dicts) (mth, ol)) ols =
         Inr (map (\<lambda>ol. Var (handle_of (dv_oil_consume food_dicts) (mth, ol))) ols)"
  using assms by (intro gen_closed) (auto simp: var_closed food_keys)

lemma food_hardness_sum:
  assumes "mth \<in> set months"
  shows "gen (\<lambda>ol. py_mul (getitem hardness ol) (var (dv_oil_consume food_dicts) (mth, ol))) oils =
         Inr (map (\<lambda>ol. Times (the (map_of hardness ol))
                     (Var (handle_of (dv_oil_consume food_dicts) (mth, ol)))) oils)"
  using assms
  by (intro gen_closed) (simp add: var_closed food_keys getitem_hardness lifted_defs)

lemma food_refinement_closed:
  "food_refinement food_dicts s =
     Inr (s\<lparr>constraints := constraints s @
       concat (map (\<lambda>mth.
        [Le (SumE (map (\<lambda>ol. Var (handle_of (dv_oil_consume food_dicts) (mth, ol))) veg_oils))
            (Const veg_upper_cap),
         Le (SumE (map (\<lambda>ol. Var (handle_of (dv_oil_consume food_dicts) (mth, ol)))
                       non_veg_oils))
            (Const oil_upper_cap)])
       months)\<rparr>)"
  unfolding food_refinement_def
  by (rule for_each_map_closed [where g = "\<lambda>x. x", simplified])
     (simp add: food_consume_sum veg_oils_sub lifted_defs add_closed)

lemma food_hardness_closed:
  "food_hardness food_dicts s =
     Inr (s\<lparr>constraints := constraints s @
       concat (map (\<lambda>mth.
        [Ge (SumE (map (\<lambda>ol. Times (the (map_of hardness ol))
                                   (Var (handle_of (dv_oil_consume food_dicts) (mth, ol))))
                       oils))
            (Times min_hardness (Var (handle_of (dv_prod food_dicts) mth))),
         Le (SumE (map (\<lambda>ol. Times (the (map_of hardness ol))
                                   (Var (handle_of (dv_oil_consume food_dicts) (mth, ol))))
                       oils))
            (Times max_hardness (Var (handle_of (dv_prod food_dicts) mth)))])
       months)\<rparr>)"
  unfolding food_hardness_def
  apply (rule for_each_map_closed [where g = "\<lambda>x. x", simplified])
  apply (simp only: food_hardness_sum)
  apply (simp add: var_closed food_keys lifted_defs add_closed)
  done

lemma food_production_closed:
  "food_production food_dicts s =
     Inr (s\<lparr>constraints := constraints s @
       map (\<lambda>mth. Eq (SumE (map (\<lambda>ol. Var (handle_of (dv_oil_consume food_dicts) (mth, ol)))
                               oils))
                    (Var (handle_of (dv_prod food_dicts) mth)))
       months\<rparr>)"
  unfolding food_production_def
  by (rule for_each_closed)
     (simp add: food_consume_sum var_closed food_keys lifted_defs add_closed)

lemma food_obj_func_closed: "food_obj_func food_dicts = Inr food_objective"
proof -
  have 1: "gen (\<lambda>mth. py_mul (Inr price) (var (dv_prod food_dicts) mth)) months =
           Inr (map (\<lambda>mth. Times price (Var (handle_of (dv_prod food_dicts) mth))) months)"
    by (rule gen_closed) (simp add: var_closed food_keys lifted_defs)
  have 2: "gen (\<lambda>mth_ol. py_mul (getitem cost mth_ol) (var (dv_oil_buy food_dicts) mth_ol))
             month_oil =
           Inr (map (\<lambda>i. Times (the (map_of cost i))
                                 (Var (handle_of (dv_oil_buy food_dicts) i))) month_oil)"
    by (rule gen_closed)
       (simp add: getitem_cost var_closed food_keys set_month_oil [symmetric] lifted_defs)
  have 3: "gen (\<lambda>mth_ol. py_mul (Inr food_inventory_holding_cost)
                                  (var (dv_oil_inventory food_dicts) mth_ol)) month_oil =
           Inr (map (\<lambda>i. Times food_inventory_holding_cost
                              (Var (handle_of (dv_oil_inventory food_dicts) i))) month_oil)"
    by (rule gen_closed) (simp add: var_closed food_keys set_month_oil [symmetric] lifted_defs)
  show ?thesis
    unfolding food_obj_func_def 1 2 3 by (simp add: lifted_defs food_objective_def)
qed

lemma build_food_closed: "build_food = Inr food_built"
  unfolding build_food_def food_variables_closed food_built_def
  by (simp add: food_initial_balance_closed food_balance_closed food_target_closed
        food_refinement_closed food_hardness_closed food_production_closed
        food_obj_func_closed Maximize_def food_rows_def)
     (simp add: food_dicts_def)

lemma food_feasible_iff:
  "feasible \<lparr>variables = food_vars, constraints = food_rows, objective = obj\<rparr> a \<longleftrightarrow>
     (\<forall>i\<in>set months.
        0 \<le> a (handle_of (dv_prod food_dicts) i) \<and>
        a (handle_of (dv_prod food_dicts) i) \<le> 1000000) \<and>
     (\<forall>i\<in>set month_oil.
        0 \<le> a (handle_of (dv_oil_buy food_dicts) i) \<and>
        a (handle_of (dv_oil_buy food_dicts) i) \<le> 1000000) \<and>
     (\<forall>i\<in>set month_oil.
        0 \<le> a (handle_of (dv_oil_consume food_dicts) i) \<and>
        a (handle_of (dv_oil_consume food_dicts) i) \<le> 1000000) \<and>
     (\<forall>i\<in>set month_oil.
        0 \<le> a (handle_of (dv_oil_inventory food_dicts) i) \<and>
        a (handle_of (dv_oil_inventory food_dicts) i) \<le> 1000000) \<and>
     list_all (holds a) food_rows"
proof -
  note [simp del] = upt_rec_numeral
  note m = bounds_closed [OF distinct_months, unfolded length_months]
  note b = bounds_closed [OF distinct_month_oil, unfolded length_month_oil]
  show ?thesis
    unfolding feasible_def food_vars_def
    by (simp add: enumerate_append_eq length_month_oil length_months m [of _ 0, simplified]
          b [of _ 6, simplified] b [of _ 36, simplified] b [of _ 66, simplified]
          in_bounds_def food_dicts_def)
qed

lemma food_plan_values:
  "m \<in> set months \<Longrightarrow> food_plan (handle_of (dv_prod food_dicts) m) = 200"
  "i \<in> set month_oil \<Longrightarrow>
     food_plan (handle_of (dv_oil_buy food_dicts) i) =
       (if snd i = ''VEG2'' \<or> snd i = ''OIL1'' then 100 else 0)"
  "i \<in> set month_oil \<Longrightarrow>
     food_plan (handle_of (dv_oil_consume food_dicts) i) =
       (if snd i = ''VEG2'' \<or> snd i = ''OIL1'' then 100 else 0)"
  "i \<in> set month_oil \<Longrightarrow> food_plan (handle_of (dv_oil_inventory food_dicts) i) = 500"
proof -
  note [simp del] = upt_rec_numeral
  note h0 = plan_of_hit [OF distinct_months, unfolded length_months]
  note h = plan_of_hit [OF distinct_month_oil, unfolded length_month_oil]
  note m0 = plan_of_miss [of _ _ months, unfolded length_months]
  note m = plan_of_miss [of _ _ month_oil, unfolded length_month_oil]
  note g = handle_of_range [OF distinct_month_oil, unfolded length_month_oil]
  show "m \<in> set months \<Longrightarrow> food_plan (handle_of (dv_prod food_dicts) m) = 200"
    unfolding food_plan_def food_dicts_def
    using h0 [of m 0] by simp
  show "i \<in> set month_oil \<Longrightarrow>
     food_plan (handle_of (dv_oil_buy food_dicts) i) =
       (if snd i = ''VEG2'' \<or> snd i = ''OIL1'' then 100 else 0)"
    unfolding food_plan_def food_dicts_def
    using h [of i 6] g [of i 6] m0 [of _ 0] by simp
  show "i \<in> set month_oil \<Longrightarrow>
     food_plan (handle_of (dv_oil_consume food_dicts) i) =
       (if snd i = ''VEG2'' \<or> snd i = ''OIL1'' then 100 else 0)"
    unfolding food_plan_def food_dicts_def
    using h [of i 36] g [of i 36] m0 [of _ 0] m [of _ 6] by simp
  show "i \<in> set month_oil \<Longrightarrow> food_plan (handle_of (dv_oil_inventory food_dicts) i) = 500"
    unfolding food_plan_def food_dicts_def
    using h [of i 66] g [of i 66] m0 [of _ 0] m [of _ 6] m [of _ 36] by simp
qed

lemma food_plan_feasible:
  "feasible \<lparr>variables = food_vars, constraints = food_rows, objective = obj\<rparr> food_plan"
  unfolding food_feasible_iff
proof (intro conjI)
  show "\<forall>i\<in>set months.
        0 \<le> food_plan (handle_of (dv_prod food_dicts) i) \<and>
        food_plan (handle_of (dv_prod food_dicts) i) \<le> 1000000"
    by (simp add: food_plan_values)
  show "\<forall>i\<in>set month_oil.
        0 \<le> food_plan (handle_of (dv_oil_buy food_dicts) i) \<and>
        food_plan (handle_of (dv_oil_buy food_dicts) i) \<le> 1000000"
    by (simp add: food_plan_values)
  show "\<forall>i\<in>set month_oil.
        0 \<le> food_plan (handle_of (dv_oil_consume food_dicts) i) \<and>
        food_plan (handle_of (dv_oil_consume food_dicts) i) \<le> 1000000"
    by (simp add: food_plan_values)
  show "\<forall>i\<in>set month_oil.
        0 \<le> food_plan (handle_of (dv_oil_inventory food_dicts) i) \<and>
        food_plan (handle_of (dv_oil_inventory food_dicts) i) \<le> 1000000"
    by (simp add: food_plan_values)
  have v: "(mth, ol) \<in> set month_oil" if "mth \<in> set months" "ol \<in> set oils" for mth ol
    using that by (simp add: set_month_oil)
  have initial: "\<forall>ol\<in>set oils. holds food_plan
      (Eq (Plus (Const init_store_inventory)
                (Var (handle_of (dv_oil_buy food_dicts) (''Jan'', ol))))
          (Plus (Var (handle_of (dv_oil_consume food_dicts) (''Jan'', ol)))
                (Var (handle_of (dv_oil_inventory food_dicts) (''Jan'', ol)))))"
    by (simp add: food_plan_values v Jan_month init_store_inventory_def)
  have balance: "\<forall>t\<in>set [1..<6]. \<forall>ol\<in>set oils. holds food_plan
      (Eq (Plus (Var (handle_of (dv_oil_inventory food_dicts) (months ! (t - 1), ol)))
                (Var (handle_of (dv_oil_buy food_dicts) (months ! t, ol))))
          (Plus (Var (handle_of (dv_oil_consume food_dicts) (months ! t, ol)))
                (Var (handle_of (dv_oil_inventory food_dicts) (months ! t, ol)))))"
    by (simp add: food_plan_values v prev_month)
  have target: "\<forall>ol\<in>set oils. holds food_plan
      (Eq (Var (handle_of (dv_oil_inventory food_dicts) (''Jun'', ol)))
          (Const target_store_inventory))"
    by (simp add: food_plan_values v Jun_month target_store_inventory_def)
  have sums: "sum_list (map (\<lambda>ol. food_plan (handle_of (dv_oil_consume food_dicts) (mth, ol)))
                 veg_oils) = 100"
     "sum_list (map (\<lambda>ol. food_plan (handle_of (dv_oil_consume food_dicts) (mth, ol)))
                 non_veg_oils) = 100"
     "sum_list (map (\<lambda>ol. food_plan (handle_of (dv_oil_consume food_dicts) (mth, ol)))
                 oils) = 200"
     "sum_list (map (\<lambda>ol. the (map_of hardness ol) *
                   food_plan (handle_of (dv_oil_consume food_dicts) (mth, ol))) oils) = 810"
    if "mth \<in> set months" for mth
    using that
    by (simp_all add: veg_oils_def non_veg_oils_def oils_def hardness_def food_plan_values
          set_month_oil)
  have refinement: "\<forall>mth\<in>set months. \<forall>c\<in>set
        [Le (SumE (map (\<lambda>ol. Var (handle_of (dv_oil_consume food_dicts) (mth, ol))) veg_oils))
            (Const veg_upper_cap),
         Le (SumE (map (\<lambda>ol. Var (handle_of (dv_oil_consume food_dicts) (mth, ol)))
                       non_veg_oils))
            (Const oil_upper_cap)]. holds food_plan c"
    by (simp add: comp_def sums veg_upper_cap_def oil_upper_cap_def)
  have hard: "\<forall>mth\<in>set months. \<forall>c\<in>set
        [Ge (SumE (map (\<lambda>ol. Times (the (map_of hardness ol))
                                   (Var (handle_of (dv_oil_consume food_dicts) (mth, ol))))
                       oils))
            (Times min_hardness (Var (handle_of (dv_prod food_dicts) mth))),
         Le (SumE (map (\<lambda>ol. Times (the (map_of hardness ol))
                                   (Var (handle_of (dv_oil_consume food_dicts) (mth, ol))))
                       oils))
            (Times max_hardness (Var (handle_of (dv_prod food_dicts) mth)))]. holds food_plan c"
    by (simp add: comp_def sums food_plan_values min_hardness_def max_hardness_def)
  have production: "\<forall>mth\<in>set months. holds food_plan
      (Eq (SumE (map (\<lambda>ol. Var (handle_of (dv_oil_consume food_dicts) (mth, ol))) oils))
          (Var (handle_of (dv_prod food_dicts) mth)))"
    by (simp add: comp_def sums food_plan_values)
  show "list_all (holds food_plan) food_rows"
    unfolding food_rows_def list_all_iff
    using initial balance target refinement hard production by auto
qed

lemma food_built_fields:
  "dv_prod food_built = dv_prod food_dicts"
  "dv_oil_buy food_built = dv_oil_buy food_dicts"
  "dv_oil_consume food_built = dv_oil_consume food_dicts"
  "dv_oil_inventory food_built = dv_oil_inventory food_dicts"
  "variables (food_model food_built) = food_vars"
  "constraints (food_model food_built) = food_rows"
  "objective (food_model food_built) = Some (Maximise, food_objective)"
  by (simp_all add: food_built_def)

lemma food_feasible:
  "feasible (food_model food_built) a \<longleftrightarrow>
     feasible \<lparr>variables = food_vars, constraints = food_rows,
               objective = Some (Maximise, food_objective)\<rparr> a"
  by (simp add: food_built_def)

lemma food_plan_ok: "feasible (food_model food_built) food_plan"
  unfolding food_feasible by (rule food_plan_feasible)

lemma food_row_holds:
  assumes "feasible (food_model food_built) a" and "c \<in> set food_rows"
  shows "holds a c"
  using assms unfolding food_feasible food_feasible_iff list_all_iff by blast

lemma food_rows_member:
  "ol \<in> set oils \<Longrightarrow>
     Eq (Plus (Const init_store_inventory)
              (Var (handle_of (dv_oil_buy food_dicts) (''Jan'', ol))))
        (Plus (Var (handle_of (dv_oil_consume food_dicts) (''Jan'', ol)))
              (Var (handle_of (dv_oil_inventory food_dicts) (''Jan'', ol))))
       \<in> set food_rows"
  "Suc 0 \<le> t \<Longrightarrow> t < 6 \<Longrightarrow> ol \<in> set oils \<Longrightarrow>
     Eq (Plus (Var (handle_of (dv_oil_inventory food_dicts) (months ! (t - 1), ol)))
              (Var (handle_of (dv_oil_buy food_dicts) (months ! t, ol))))
        (Plus (Var (handle_of (dv_oil_consume food_dicts) (months ! t, ol)))
              (Var (handle_of (dv_oil_inventory food_dicts) (months ! t, ol))))
       \<in> set food_rows"
  "ol \<in> set oils \<Longrightarrow>
     Eq (Var (handle_of (dv_oil_inventory food_dicts) (''Jun'', ol)))
        (Const target_store_inventory)
       \<in> set food_rows"
  "mth \<in> set months \<Longrightarrow>
     Ge (SumE (map (\<lambda>ol. Times (the (map_of hardness ol))
                                (Var (handle_of (dv_oil_consume food_dicts) (mth, ol))))
                   oils))
        (Times min_hardness (Var (handle_of (dv_prod food_dicts) mth)))
       \<in> set food_rows"
  "mth \<in> set months \<Longrightarrow>
     Le (SumE (map (\<lambda>ol. Times (the (map_of hardness ol))
                                (Var (handle_of (dv_oil_consume food_dicts) (mth, ol))))
                   oils))
        (Times max_hardness (Var (handle_of (dv_prod food_dicts) mth)))
       \<in> set food_rows"
  "mth \<in> set months \<Longrightarrow>
     Eq (SumE (map (\<lambda>ol. Var (handle_of (dv_oil_consume food_dicts) (mth, ol))) oils))
        (Var (handle_of (dv_prod food_dicts) mth))
       \<in> set food_rows"
  unfolding food_rows_def by auto

lemma food_val:
  "m \<in> set months \<Longrightarrow> val a (dv_prod food_built) m = Some (a (handle_of (dv_prod food_dicts) m))"
  "i \<in> set months \<times> set oils \<Longrightarrow>
     val a (dv_oil_buy food_built) i = Some (a (handle_of (dv_oil_buy food_dicts) i))"
  "i \<in> set months \<times> set oils \<Longrightarrow>
     val a (dv_oil_consume food_built) i = Some (a (handle_of (dv_oil_consume food_dicts) i))"
  "i \<in> set months \<times> set oils \<Longrightarrow>
     val a (dv_oil_inventory food_built) i =
       Some (a (handle_of (dv_oil_inventory food_dicts) i))"
  by (simp_all add: food_built_fields val_closed food_keys)

subsection \<open>The manpower model in closed form\<close>

lemma distinct_years: "distinct years" by (simp add: years_def)
lemma distinct_skills: "distinct skills" by (simp add: skills_def)
lemma length_years: "length years = 3" by (simp add: years_def)
lemma length_skills: "length skills = 3" by (simp add: skills_def)

lemma distinct_year_skill: "distinct year_skill"
  by (simp add: year_skill_def distinct_product distinct_years distinct_skills)

lemma distinct_year_skill_skill: "distinct year_skill_skill"
  by (simp add: year_skill_skill_def distinct_product distinct_years distinct_skills)

lemma length_year_skill: "length year_skill = 9"
  by (simp add: year_skill_def length_years length_skills)

lemma length_year_skill_skill: "length year_skill_skill = 27"
  by (simp add: year_skill_skill_def length_years length_skills)

lemma set_year_skill: "set year_skill = set years \<times> set skills"
  by (simp add: year_skill_def)

lemma set_year_skill_skill: "set year_skill_skill = set years \<times> set skills \<times> set skills"
  by (simp add: year_skill_skill_def)

lemma max_hiring_keys: "map fst max_hiring = year_skill"
  by (simp add: max_hiring_def year_skill_def years_def skills_def)

lemma demand_keys: "map fst demand = year_skill"
  by (simp add: demand_def year_skill_def years_def skills_def)

lemma skill_table_keys:
  "map fst current_workforce = skills"
  "map fst new_hire_attrition = skills"
  "map fst experienced_attrition = skills"
  by (simp_all add: current_workforce_def new_hire_attrition_def experienced_attrition_def
        skills_def)

lemma getitem_max_hiring:
  "i \<in> set year_skill \<Longrightarrow> getitem max_hiring i = Inr (the (map_of max_hiring i))"
  by (rule getitem_closed) (simp add: max_hiring_keys [symmetric])

lemma getitem_demand:
  "t \<in> set years \<Longrightarrow> s \<in> set skills \<Longrightarrow>
     getitem demand (t, s) = Inr (the (map_of demand (t, s)))"
proof -
  assume "t \<in> set years" and "s \<in> set skills"
  then have "(t, s) \<in> set (map fst demand)"
    unfolding demand_keys by (simp add: set_year_skill)
  then show ?thesis by (intro getitem_closed) simp
qed

lemma getitem_skill_tables:
  "s \<in> set skills \<Longrightarrow>
     getitem current_workforce s = Inr (the (map_of current_workforce s))"
  "s \<in> set skills \<Longrightarrow>
     getitem new_hire_attrition s = Inr (the (map_of new_hire_attrition s))"
  "s \<in> set skills \<Longrightarrow>
     getitem experienced_attrition s = Inr (the (map_of experienced_attrition s))"
proof -
  assume s: "s \<in> set skills"
  show "getitem current_workforce s = Inr (the (map_of current_workforce s))"
    using s by (intro getitem_closed) (simp add: skill_table_keys(1) [symmetric])
  show "getitem new_hire_attrition s = Inr (the (map_of new_hire_attrition s))"
    using s by (intro getitem_closed) (simp add: skill_table_keys(2) [symmetric])
  show "getitem experienced_attrition s = Inr (the (map_of experienced_attrition s))"
    using s by (intro getitem_closed) (simp add: skill_table_keys(3) [symmetric])
qed

lemma later_years:
  "t \<in> set (drop 1 years) \<Longrightarrow> t \<in> set years"
  "t \<in> set (drop 1 years) \<Longrightarrow> t - 1 \<in> set years"
  by (auto simp: years_def)

lemma year_one: "1 \<in> set years" by (simp add: years_def)

lemma skill_names: "''s1'' \<in> set skills" "''s2'' \<in> set skills" "''s3'' \<in> set skills"
  by (simp_all add: skills_def)

lemma manpower_variables_closed: "manpower_variables = Inr manpower_dicts"
proof -
  note [simp del] = upt_rec_numeral
  have 0: "dict_comp (\<lambda>i s. bind (getitem max_hiring i)
                                (\<lambda>cap. Inr (NumVar 0 cap (''hire_'' @ str_year_skill i) s)))
             year_skill [] s =
           Inr ([] @ zip year_skill [length (variables s)..<length (variables s) + length year_skill],
                s\<lparr>variables := variables s @
                  map (\<lambda>i. \<lparr>var_lb = 0, var_ub = the (map_of max_hiring i), var_integer = False,
                             var_name = ''hire_'' @ str_year_skill i\<rparr>) year_skill\<rparr>)" for s
    by (rule dict_comp_closed) (simp_all add: NumVar_def distinct_year_skill getitem_max_hiring)
  have 1: "dict_comp (\<lambda>i s. Inr (NumVar 0 hi (pre @ str_year_skill i) s)) year_skill [] s =
           Inr ([] @ zip year_skill [length (variables s)..<length (variables s) + length year_skill],
                s\<lparr>variables := variables s @
                  map (\<lambda>i. \<lparr>var_lb = 0, var_ub = hi, var_integer = False,
                             var_name = pre @ str_year_skill i\<rparr>) year_skill\<rparr>)" for s pre hi
    by (rule dict_comp_closed) (simp_all add: NumVar_def distinct_year_skill)
  have 2: "dict_comp (\<lambda>i s. Inr (NumVar 0 1000000 (''train_'' @ str_year_skill_skill i) s))
             year_skill_skill [] s =
           Inr ([] @ zip year_skill_skill
                       [length (variables s)..<length (variables s) + length year_skill_skill],
                s\<lparr>variables := variables s @
                  map (\<lambda>i. \<lparr>var_lb = 0, var_ub = 1000000, var_integer = False,
                             var_name = ''train_'' @ str_year_skill_skill i\<rparr>)
                      year_skill_skill\<rparr>)" for s
    by (rule dict_comp_closed) (simp_all add: NumVar_def distinct_year_skill_skill)
  show ?thesis
    unfolding manpower_variables_def 0 1 2
    by (simp add: Solver_def manpower_dicts_def manpower_vars_def length_year_skill
          length_year_skill_skill)
qed

lemma manpower_keys:
  "fst ` set (dv_hire manpower_dicts) = set years \<times> set skills"
  "fst ` set (dv_part_time manpower_dicts) = set years \<times> set skills"
  "fst ` set (dv_workforce manpower_dicts) = set years \<times> set skills"
  "fst ` set (dv_layoff manpower_dicts) = set years \<times> set skills"
  "fst ` set (dv_excess manpower_dicts) = set years \<times> set skills"
  "fst ` set (dv_train manpower_dicts) = set years \<times> set skills \<times> set skills"
  by (simp_all add: manpower_dicts_def keys_zip length_year_skill length_year_skill_skill
        set_year_skill set_year_skill_skill del: upt_rec_numeral)

lemma manpower_transfers:
  assumes "t \<in> set years" and "s \<in> set skills"
  shows "gen (\<lambda>s2.
            py_sub (py_mul (bind (getitem experienced_attrition s) (\<lambda>e. Inr (1 - e)))
                         (var (dv_train manpower_dicts) (t, s2, s)))
                  (var (dv_train manpower_dicts) (t, s, s2)))
            (filter (\<lambda>s2. s2 < s) skills) =
         Inr (map (\<lambda>s2.
                 Minus (Times (1 - the (map_of experienced_attrition s))
                              (Var (handle_of (dv_train manpower_dicts) (t, s2, s))))
                       (Var (handle_of (dv_train manpower_dicts) (t, s, s2))))
                 (filter (\<lambda>s2. s2 < s) skills))"
    and "gen (\<lambda>s2.
            py_sub (py_mul (Inr (1 - downgrade_skill_attrition))
                         (var (dv_train manpower_dicts) (t, s2, s)))
                  (var (dv_train manpower_dicts) (t, s, s2)))
            (filter (\<lambda>s2. s2 > s) skills) =
         Inr (map (\<lambda>s2.
               Minus (Times (1 - downgrade_skill_attrition)
                            (Var (handle_of (dv_train manpower_dicts) (t, s2, s))))
                     (Var (handle_of (dv_train manpower_dicts) (t, s, s2))))
               (filter (\<lambda>s2. s2 > s) skills))"
  using assms
  by (intro gen_closed,
      simp add: var_closed manpower_keys getitem_skill_tables lifted_defs)+

lemma manpower_initial_balance_closed:
  "manpower_initial_balance manpower_dicts s =
     Inr (s\<lparr>constraints := constraints s @
       map (\<lambda>s. manpower_flow_row
                 (Const ((1 - the (map_of experienced_attrition s)) *
                         the (map_of current_workforce s))) 1 s)
       skills\<rparr>)"
  unfolding manpower_initial_balance_def
  apply (rule for_each_closed)
  apply (simp only: manpower_transfers year_one)
  apply (simp add: var_closed manpower_keys getitem_skill_tables year_one lifted_defs
      add_closed manpower_flow_row_def)
  done

lemma manpower_balance_closed:
  "manpower_balance manpower_dicts s =
     Inr (s\<lparr>constraints := constraints s @
       concat (map (\<lambda>t. map (\<lambda>s. manpower_flow_row
                 (Times (1 - the (map_of experienced_attrition s))
                        (Var (handle_of (dv_workforce manpower_dicts) (t - 1, s)))) t s)
       skills) (drop 1 years))\<rparr>)"
  unfolding manpower_balance_def
  apply (rule for_each_map_closed [where g = "\<lambda>x. x", simplified])
  apply (rule for_each_closed)
  apply (simp only: manpower_transfers later_years)
  apply (simp add: var_closed manpower_keys getitem_skill_tables later_years lifted_defs
      add_closed manpower_flow_row_def)
  done

lemma manpower_unskilled_training_closed:
  "manpower_unskilled_training manpower_dicts s =
     Inr (s\<lparr>constraints := constraints s @
       concat (map (\<lambda>t.
        [Le (Var (handle_of (dv_train manpower_dicts) (t, ''s1'', ''s2'')))
            (Const max_train_unskilled),
         Eq (Var (handle_of (dv_train manpower_dicts) (t, ''s1'', ''s3''))) (Const 0)])
       years)\<rparr>)"
  unfolding manpower_unskilled_training_def
  by (rule for_each_map_closed [where g = "\<lambda>x. x", simplified])
     (simp add: var_closed manpower_keys skill_names lifted_defs add_closed)

lemma manpower_semiskilled_training_closed:
  "manpower_semiskilled_training manpower_dicts s =
     Inr (s\<lparr>constraints := constraints s @
       map (\<lambda>t. Le (Var (handle_of (dv_train manpower_dicts) (t, ''s2'', ''s3'')))
                  (Times max_train_semiskilled
                         (Var (handle_of (dv_workforce manpower_dicts) (t, ''s3'')))))
       years\<rparr>)"
  unfolding manpower_semiskilled_training_def
  by (rule for_each_closed)
     (simp add: var_closed manpower_keys skill_names lifted_defs add_closed)

lemma manpower_overmanning_closed:
  "manpower_overmanning manpower_dicts s =
     Inr (s\<lparr>constraints := constraints s @
       map (\<lambda>t. Le (SumE (map (\<lambda>s. Var (handle_of (dv_excess manpower_dicts) (t, s))) skills))
                  (Const max_overmanning))
       years\<rparr>)"
proof -
  have row: "gen (\<lambda>s. var (dv_excess manpower_dicts) (t, s)) skills =
      Inr (map (\<lambda>s. Var (handle_of (dv_excess manpower_dicts) (t, s))) skills)"
    if "t \<in> set years" for t
    by (rule gen_closed) (simp add: var_closed manpower_keys that)
  show ?thesis
    unfolding manpower_overmanning_def
    by (rule for_each_closed) (simp add: row lifted_defs add_closed)
qed

lemma manpower_demand_closed:
  "manpower_demand manpower_dicts s =
     Inr (s\<lparr>constraints := constraints s @
       concat (map (\<lambda>t. map (\<lambda>s.
         Eq (Var (handle_of (dv_workforce manpower_dicts) (t, s)))
            (Plus (Plus (Const (the (map_of demand (t, s))))
                        (Var (handle_of (dv_excess manpower_dicts) (t, s))))
                  (Times parttime_cap (Var (handle_of (dv_part_time manpower_dicts) (t, s))))))
       skills) years)\<rparr>)"
  unfolding manpower_demand_def
  by (rule for_each_map_closed [where g = "\<lambda>x. x", simplified], rule for_each_closed)
     (simp add: var_closed manpower_keys getitem_demand lifted_defs add_closed)

lemma obj_layoffs_closed: "obj_layoffs manpower_dicts = Inr manpower_objective"
proof -
  have "gen (\<lambda>i. var (dv_layoff manpower_dicts) i) (List.product years skills) =
        Inr (map (\<lambda>i. Var (handle_of (dv_layoff manpower_dicts) i)) (List.product years skills))"
    by (rule gen_closed) (auto simp: var_closed manpower_keys)
  then show ?thesis
    by (simp add: obj_layoffs_def manpower_objective_def lifted_defs)
qed

lemma build_manpower_closed: "build_manpower = Inr manpower_built"
  unfolding build_manpower_def manpower_variables_closed manpower_built_def
  by (simp add: manpower_initial_balance_closed manpower_balance_closed
        manpower_unskilled_training_closed manpower_semiskilled_training_closed
        manpower_overmanning_closed manpower_demand_closed obj_layoffs_closed
        Minimize_def manpower_rows_def)
     (simp add: manpower_dicts_def)

lemma manpower_feasible_iff:
  "feasible \<lparr>variables = manpower_vars, constraints = manpower_rows, objective = obj\<rparr> a \<longleftrightarrow>
     (\<forall>i\<in>set year_skill.
        0 \<le> a (handle_of (dv_hire manpower_dicts) i) \<and>
        a (handle_of (dv_hire manpower_dicts) i) \<le> the (map_of max_hiring i)) \<and>
     (\<forall>i\<in>set year_skill.
        0 \<le> a (handle_of (dv_part_time manpower_dicts) i) \<and>
        a (handle_of (dv_part_time manpower_dicts) i) \<le> max_parttime) \<and>
     (\<forall>i\<in>set year_skill.
        0 \<le> a (handle_of (dv_workforce manpower_dicts) i) \<and>
        a (handle_of (dv_workforce manpower_dicts) i) \<le> 1000000) \<and>
     (\<forall>i\<in>set year_skill.
        0 \<le> a (handle_of (dv_layoff manpower_dicts) i) \<and>
        a (handle_of (dv_layoff manpower_dicts) i) \<le> 1000000) \<and>
     (\<forall>i\<in>set year_skill.
        0 \<le> a (handle_of (dv_excess manpower_dicts) i) \<and>
        a (handle_of (dv_excess manpower_dicts) i) \<le> 1000000) \<and>
     (\<forall>i\<in>set year_skill_skill.
        0 \<le> a (handle_of (dv_train manpower_dicts) i) \<and>
        a (handle_of (dv_train manpower_dicts) i) \<le> 1000000) \<and>
     list_all (holds a) manpower_rows"
proof -
  note [simp del] = upt_rec_numeral
  note b = bounds_closed [OF distinct_year_skill, unfolded length_year_skill]
  note c = bounds_closed [OF distinct_year_skill_skill, unfolded length_year_skill_skill]
  show ?thesis
    unfolding feasible_def manpower_vars_def
    by (simp add: enumerate_append_eq length_year_skill b [of _ 0, simplified]
          b [of _ 9, simplified] b [of _ 18, simplified] b [of _ 27, simplified]
          b [of _ 36, simplified] c [of _ 45, simplified]
          in_bounds_def manpower_dicts_def)
qed

subsection \<open>Reading the built manpower model\<close>

lemma manpower_plan_values:
  "i \<in> set year_skill \<Longrightarrow>
     manpower_plan (handle_of (dv_hire manpower_dicts) i) =
       (if i = (1, ''s3'') then 100
        else if 2 \<le> fst i \<and> snd i = ''s2'' then 800
        else if 2 \<le> fst i \<and> snd i = ''s3'' then 500 else 0)"
  "i \<in> set year_skill \<Longrightarrow> manpower_plan (handle_of (dv_part_time manpower_dicts) i) =
       (if i = (1, ''s2'') then 10 else 0)"
  "i \<in> set year_skill \<Longrightarrow>
     manpower_plan (handle_of (dv_workforce manpower_dicts) i) =
       the (map_of demand i) + (if i = (1, ''s2'') then 25 else 0)"
  "i \<in> set year_skill \<Longrightarrow>
     manpower_plan (handle_of (dv_layoff manpower_dicts) i) = the (map_of plan_layoff i)"
  "i \<in> set year_skill \<Longrightarrow> manpower_plan (handle_of (dv_excess manpower_dicts) i) =
       (if i = (1, ''s2'') then 20 else 0)"
  "j \<in> set year_skill_skill \<Longrightarrow>
     manpower_plan (handle_of (dv_train manpower_dicts) j) =
       (if 2 \<le> fst j \<and> snd j = (''s1'', ''s2'') then 200
        else if j = (2, ''s2'', ''s3'') then 120
        else if j = (3, ''s2'', ''s3'') then 200 else 0)"
proof -
  note [simp del] = upt_rec_numeral
  note h = plan_of_hit [OF distinct_year_skill, unfolded length_year_skill]
  note ht = plan_of_hit [OF distinct_year_skill_skill, unfolded length_year_skill_skill]
  note m = plan_of_miss [of _ _ year_skill, unfolded length_year_skill]
  note g = handle_of_range [OF distinct_year_skill, unfolded length_year_skill]
  note gt = handle_of_range [OF distinct_year_skill_skill, unfolded length_year_skill_skill]
  show "i \<in> set year_skill \<Longrightarrow>
     manpower_plan (handle_of (dv_hire manpower_dicts) i) =
       (if i = (1, ''s3'') then 100
        else if 2 \<le> fst i \<and> snd i = ''s2'' then 800
        else if 2 \<le> fst i \<and> snd i = ''s3'' then 500 else 0)"
    unfolding manpower_plan_def manpower_dicts_def
    using h [of i 0] by simp
  show "i \<in> set year_skill \<Longrightarrow> manpower_plan (handle_of (dv_part_time manpower_dicts) i) =
       (if i = (1, ''s2'') then 10 else 0)"
    unfolding manpower_plan_def manpower_dicts_def
    using h [of i 9] g [of i 9] m [of _ 0] by simp
  show "i \<in> set year_skill \<Longrightarrow>
     manpower_plan (handle_of (dv_workforce manpower_dicts) i) =
       the (map_of demand i) + (if i = (1, ''s2'') then 25 else 0)"
    unfolding manpower_plan_def manpower_dicts_def
    using h [of i 18] g [of i 18] m [of _ 0] m [of _ 9] by simp
  show "i \<in> set year_skill \<Longrightarrow>
     manpower_plan (handle_of (dv_layoff manpower_dicts) i) = the (map_of plan_layoff i)"
    unfolding manpower_plan_def manpower_dicts_def
    using h [of i 27] g [of i 27] m [of _ 0] m [of _ 9] m [of _ 18] by simp
  show "i \<in> set year_skill \<Longrightarrow> manpower_plan (handle_of (dv_excess manpower_dicts) i) =
       (if i = (1, ''s2'') then 20 else 0)"
    unfolding manpower_plan_def manpower_dicts_def
    using h [of i 36] g [of i 36] m [of _ 0] m [of _ 9] m [of _ 18] m [of _ 27] by simp
  show "j \<in> set year_skill_skill \<Longrightarrow>
     manpower_plan (handle_of (dv_train manpower_dicts) j) =
       (if 2 \<le> fst j \<and> snd j = (''s1'', ''s2'') then 200
        else if j = (2, ''s2'', ''s3'') then 120
        else if j = (3, ''s2'', ''s3'') then 200 else 0)"
    unfolding manpower_plan_def manpower_dicts_def
    using ht [of j 45] gt [of j 45] m [of _ 0] m [of _ 9] m [of _ 18] m [of _ 27] m [of _ 36]
    by simp
qed

lemmas manpower_tables = years_def skills_def demand_def plan_layoff_def max_hiring_def
  current_workforce_def new_hire_attrition_def experienced_attrition_def
  downgrade_skill_attrition_def max_parttime_def max_overmanning_def parttime_cap_def
  max_train_unskilled_def max_train_semiskilled_def

lemma manpower_plan_feasible:
  "feasible \<lparr>variables = manpower_vars, constraints = manpower_rows, objective = obj\<rparr>
     manpower_plan"
  unfolding manpower_feasible_iff
proof (intro conjI)
  show "\<forall>i\<in>set year_skill.
        0 \<le> manpower_plan (handle_of (dv_hire manpower_dicts) i) \<and>
        manpower_plan (handle_of (dv_hire manpower_dicts) i) \<le> the (map_of max_hiring i)"
    by (simp add: manpower_plan_values) (simp add: year_skill_def manpower_tables)
  show "\<forall>i\<in>set year_skill.
        0 \<le> manpower_plan (handle_of (dv_part_time manpower_dicts) i) \<and>
        manpower_plan (handle_of (dv_part_time manpower_dicts) i) \<le> max_parttime"
    by (simp add: manpower_plan_values max_parttime_def)
  show "\<forall>i\<in>set year_skill.
        0 \<le> manpower_plan (handle_of (dv_workforce manpower_dicts) i) \<and>
        manpower_plan (handle_of (dv_workforce manpower_dicts) i) \<le> 1000000"
    by (simp add: manpower_plan_values) (simp add: year_skill_def manpower_tables)
  show "\<forall>i\<in>set year_skill.
        0 \<le> manpower_plan (handle_of (dv_layoff manpower_dicts) i) \<and>
        manpower_plan (handle_of (dv_layoff manpower_dicts) i) \<le> 1000000"
    by (simp add: manpower_plan_values) (simp add: year_skill_def manpower_tables)
  show "\<forall>i\<in>set year_skill.
        0 \<le> manpower_plan (handle_of (dv_excess manpower_dicts) i) \<and>
        manpower_plan (handle_of (dv_excess manpower_dicts) i) \<le> 1000000"
    by (simp add: manpower_plan_values)
  show "\<forall>i\<in>set year_skill_skill.
        0 \<le> manpower_plan (handle_of (dv_train manpower_dicts) i) \<and>
        manpower_plan (handle_of (dv_train manpower_dicts) i) \<le> 1000000"
    by (simp add: manpower_plan_values)
  have k1: "(t, s) \<in> set year_skill" if "t \<in> set years" "s \<in> set skills" for t s
    using that by (simp add: set_year_skill)
  have k2: "(t, s, s') \<in> set year_skill_skill"
    if "t \<in> set years" "s \<in> set skills" "s' \<in> set skills" for t s s'
    using that by (simp add: set_year_skill_skill)
  note k = k1 k2
  have y: "1 \<in> set years" "2 \<in> set years" "3 \<in> set years" by (simp_all add: years_def)
  note sk = skill_names
  have initial: "\<forall>s\<in>set skills. holds manpower_plan (manpower_flow_row
                 (Const ((1 - the (map_of experienced_attrition s)) *
                         the (map_of current_workforce s))) 1 s)"
    unfolding manpower_flow_row_def
    by (simp add: skills_def)
       (simp add: manpower_plan_values k y sk comp_def manpower_tables)
  have balance: "\<forall>t\<in>set (drop 1 years). \<forall>s\<in>set skills. holds manpower_plan
      (manpower_flow_row
                 (Times (1 - the (map_of experienced_attrition s))
                        (Var (handle_of (dv_workforce manpower_dicts) (t - 1, s)))) t s)"
    unfolding manpower_flow_row_def
    by (simp add: skills_def years_def)
       (simp add: manpower_plan_values k y sk comp_def manpower_tables)
  have training: "\<forall>t\<in>set years. \<forall>c\<in>set
        [Le (Var (handle_of (dv_train manpower_dicts) (t, ''s1'', ''s2'')))
            (Const max_train_unskilled),
         Eq (Var (handle_of (dv_train manpower_dicts) (t, ''s1'', ''s3''))) (Const 0)].
      holds manpower_plan c"
    by (simp add: manpower_plan_values k sk max_train_unskilled_def)
  have semi: "\<forall>t\<in>set years. holds manpower_plan
      (Le (Var (handle_of (dv_train manpower_dicts) (t, ''s2'', ''s3'')))
          (Times max_train_semiskilled
                 (Var (handle_of (dv_workforce manpower_dicts) (t, ''s3'')))))"
    by (simp add: years_def)
       (simp add: manpower_plan_values k y sk manpower_tables)
  have over: "\<forall>t\<in>set years. holds manpower_plan
      (Le (SumE (map (\<lambda>s. Var (handle_of (dv_excess manpower_dicts) (t, s))) skills))
          (Const max_overmanning))"
    by (simp add: skills_def years_def)
       (simp add: manpower_plan_values k y sk max_overmanning_def)
  have dem: "\<forall>t\<in>set years. \<forall>s\<in>set skills. holds manpower_plan
      (Eq (Var (handle_of (dv_workforce manpower_dicts) (t, s)))
          (Plus (Plus (Const (the (map_of demand (t, s))))
                      (Var (handle_of (dv_excess manpower_dicts) (t, s))))
                (Times parttime_cap (Var (handle_of (dv_part_time manpower_dicts) (t, s))))))"
    by (simp add: manpower_plan_values k parttime_cap_def)
  show "list_all (holds manpower_plan) manpower_rows"
    unfolding manpower_rows_def list_all_iff
    using initial balance training semi over dem by auto
qed

lemma manpower_built_fields:
  "dv_hire manpower_built = dv_hire manpower_dicts"
  "dv_part_time manpower_built = dv_part_time manpower_dicts"
  "dv_workforce manpower_built = dv_workforce manpower_dicts"
  "dv_layoff manpower_built = dv_layoff manpower_dicts"
  "dv_excess manpower_built = dv_excess manpower_dicts"
  "dv_train manpower_built = dv_train manpower_dicts"
  "variables (manpower_model manpower_built) = manpower_vars"
  "constraints (manpower_model manpower_built) = manpower_rows"
  "objective (manpower_model manpower_built) = Some (Minimise, manpower_objective)"
  by (simp_all add: manpower_built_def)

lemma manpower_feasible:
  "feasible (manpower_model manpower_built) a \<longleftrightarrow>
     feasible \<lparr>variables = manpower_vars, constraints = manpower_rows,
               objective = Some (Minimise, manpower_objective)\<rparr> a"
  by (simp add: manpower_built_def)

lemma manpower_plan_ok: "feasible (manpower_model manpower_built) manpower_plan"
  unfolding manpower_feasible by (rule manpower_plan_feasible)

lemma manpower_row_holds:
  assumes "feasible (manpower_model manpower_built) a" and "c \<in> set manpower_rows"
  shows "holds a c"
  using assms unfolding manpower_feasible manpower_feasible_iff list_all_iff by blast

lemma manpower_rows_member:
  "s \<in> set skills \<Longrightarrow>
     manpower_flow_row (Const ((1 - the (map_of experienced_attrition s)) *
                               the (map_of current_workforce s))) 1 s
       \<in> set manpower_rows"
  "t \<in> set (drop 1 years) \<Longrightarrow> s \<in> set skills \<Longrightarrow>
     manpower_flow_row (Times (1 - the (map_of experienced_attrition s))
                          (Var (handle_of (dv_workforce manpower_dicts) (t - 1, s)))) t s
       \<in> set manpower_rows"
  "t \<in> set years \<Longrightarrow>
     Eq (Var (handle_of (dv_train manpower_dicts) (t, ''s1'', ''s3''))) (Const 0)
       \<in> set manpower_rows"
  "t \<in> set years \<Longrightarrow> s \<in> set skills \<Longrightarrow>
     Eq (Var (handle_of (dv_workforce manpower_dicts) (t, s)))
        (Plus (Plus (Const (the (map_of demand (t, s))))
                    (Var (handle_of (dv_excess manpower_dicts) (t, s))))
              (Times parttime_cap (Var (handle_of (dv_part_time manpower_dicts) (t, s)))))
       \<in> set manpower_rows"
  unfolding manpower_rows_def by auto

lemma manpower_val:
  "i \<in> set years \<times> set skills \<Longrightarrow>
     val a (dv_hire manpower_built) i = Some (a (handle_of (dv_hire manpower_dicts) i))"
  "i \<in> set years \<times> set skills \<Longrightarrow>
     val a (dv_part_time manpower_built) i =
       Some (a (handle_of (dv_part_time manpower_dicts) i))"
  "i \<in> set years \<times> set skills \<Longrightarrow>
     val a (dv_workforce manpower_built) i =
       Some (a (handle_of (dv_workforce manpower_dicts) i))"
  "i \<in> set years \<times> set skills \<Longrightarrow>
     val a (dv_layoff manpower_built) i = Some (a (handle_of (dv_layoff manpower_dicts) i))"
  "i \<in> set years \<times> set skills \<Longrightarrow>
     val a (dv_excess manpower_built) i = Some (a (handle_of (dv_excess manpower_dicts) i))"
  "j \<in> set years \<times> set skills \<times> set skills \<Longrightarrow>
     val a (dv_train manpower_built) j = Some (a (handle_of (dv_train manpower_dicts) j))"
  by (simp_all add: manpower_built_fields val_closed manpower_keys)

lemma manpower_flow_row_eq:
  "manpower_flow_row prior t s =
     workforce_row prior
       (handle_of (dv_workforce manpower_dicts) (t, s))
       (handle_of (dv_hire manpower_dicts) (t, s))
       (handle_of (dv_layoff manpower_dicts) (t, s))
       (\<lambda>s1 s2. handle_of (dv_train manpower_dicts) (t, s1, s2))
       (the (map_of experienced_attrition s)) (the (map_of new_hire_attrition s)) s"
  by (simp add: manpower_flow_row_def workforce_row_def)

lemma factory_handle:
  "i \<in> set months \<times> set products \<Longrightarrow>
     map_of (dv_manufacture factory_dicts) i = Some (handle_of (dv_manufacture factory_dicts) i)"
  "i \<in> set months \<times> set products \<Longrightarrow>
     map_of (dv_inventory factory_dicts) i = Some (handle_of (dv_inventory factory_dicts) i)"
  "i \<in> set months \<times> set products \<Longrightarrow>
     map_of (dv_sold factory_dicts) i = Some (handle_of (dv_sold factory_dicts) i)"
  by (simp_all add: map_of_closed factory_keys)

lemma food_handle:
  "i \<in> set months \<times> set oils \<Longrightarrow>
     map_of (dv_oil_buy food_dicts) i = Some (handle_of (dv_oil_buy food_dicts) i)"
  "i \<in> set months \<times> set oils \<Longrightarrow>
     map_of (dv_oil_consume food_dicts) i = Some (handle_of (dv_oil_consume food_dicts) i)"
  "i \<in> set months \<times> set oils \<Longrightarrow>
     map_of (dv_oil_inventory food_dicts) i =
       Some (handle_of (dv_oil_inventory food_dicts) i)"
  by (simp_all add: map_of_closed food_keys)

lemma manpower_handle:
  "i \<in> set years \<times> set skills \<Longrightarrow>
     map_of (dv_workforce manpower_dicts) i = Some (handle_of (dv_workforce manpower_dicts) i)"
  "i \<in> set years \<times> set skills \<Longrightarrow>
     map_of (dv_hire manpower_dicts) i = Some (handle_of (dv_hire manpower_dicts) i)"
  "i \<in> set years \<times> set skills \<Longrightarrow>
     map_of (dv_layoff manpower_dicts) i = Some (handle_of (dv_layoff manpower_dicts) i)"
  "j \<in> set years \<times> set skills \<times> set skills \<Longrightarrow>
     map_of (dv_train manpower_dicts) j = Some (handle_of (dv_train manpower_dicts) j)"
  by (simp_all add: map_of_closed manpower_keys)

lemma first_month: "hd months = ''Jan''" by (simp add: months_def)

subsection \<open>The sizes of the built models\<close>

lemma factory_size:
  "length (variables (factory_model factory_built)) = 156"
  "length (constraints (factory_model factory_built)) = 84"
  by (simp_all add: factory_built_fields factory_vars_def factory_rows_def length_month_product
      length_months length_machines length_products length_concat comp_def sum_list_triv)

lemma food_size:
  "length (variables (food_model food_built)) = 96"
  "length (constraints (food_model food_built)) = 65"
  by (simp_all add: food_built_fields food_vars_def food_rows_def length_month_oil
      length_months length_oils length_concat comp_def sum_list_triv)

section \<open>The claims\<close>

text \<open>
  Claim C5. In the factory model, for every machine type, every feasible assignment gives
  the six integer repair variables of that machine (one per month) whole values whose sum
  is exactly the machine's entry in \<open>machines_down\<close>.
\<close>

theorem downtime_requirement:
  assumes "build_factory = Inr f" and "feasible (factory_model f) a"
    and "mach \<in> set machines"
  shows "\<exists>R down.
           (\<forall>mth\<in>set months. val a (dv_repair f) (mth, mach) = Some (R mth) \<and> whole (R mth)) \<and>
           getitem machines_down mach = Inr down \<and> length months = 6 \<and>
           sum_list (map R months) = down"
proof -
  have f: "f = factory_built" using assms(1) by (simp add: build_factory_closed)
  let ?R = "\<lambda>mth. a (handle_of (dv_repair factory_dicts) (mth, mach))"
  have feas: "feasible (factory_model factory_built) a" using assms(2) f by simp
  have row: "Eq (SumE (map (\<lambda>mth. Var (handle_of (dv_repair factory_dicts) (mth, mach))) months))
                (Const (the (map_of machines_down mach))) \<in> set factory_rows"
    using assms(3) by (rule factory_rows_member)
  have total: "sum_list (map ?R months) = the (map_of machines_down mach)"
    using factory_row_holds [OF feas row] by (simp add: comp_def)
  have whole: "whole (?R mth)" if "mth \<in> set months" for mth
    using feas that assms(3) unfolding factory_feasible factory_feasible_iff by auto
  show ?thesis
    unfolding f
    by (intro exI [of _ ?R] exI [of _ "the (map_of machines_down mach)"])
       (simp add: factory_val assms(3) whole total getitem_machines_down length_months)
qed

theorem downtime_requirement_witness:
  "build_factory = Inr factory_built \<and> feasible (factory_model factory_built) factory_plan \<and>
   ''grinder'' \<in> set machines \<and>
   sum_list (map (\<lambda>mth. the (val factory_plan (dv_repair factory_built) (mth, ''grinder'')))
               months) = 2"
proof -
  have g: "''grinder'' \<in> set machines" by (simp add: machines_def)
  obtain R down where
    R: "\<forall>mth\<in>set months. val factory_plan (dv_repair factory_built) (mth, ''grinder'') =
          Some (R mth) \<and> whole (R mth)"
    and down: "getitem machines_down ''grinder'' = Inr down"
    and total: "sum_list (map R months) = down"
    using downtime_requirement [OF build_factory_closed factory_plan_ok g] by blast
  have "down = 2" using down by (simp add: getitem_def machines_down_def)
  moreover have "map (\<lambda>mth. the (val factory_plan (dv_repair factory_built) (mth, ''grinder'')))
      months = map R months"
    using R by (intro map_cong) auto
  ultimately have "sum_list (map (\<lambda>mth. the (val factory_plan (dv_repair factory_built)
      (mth, ''grinder''))) months) = 2"
    using total by (simp only:)
  then show ?thesis
    using g build_factory_closed factory_plan_ok by (intro conjI)
qed

text \<open>
  Claim C7. In the factory model the registry creates, for every month and product, the
  sold variable with the bounds 0 and \<open>max_sales[(month, product)]\<close>. The table has an
  entry for each of the 6 times 7 combinations, so the lookup succeeds and the build
  returns a model. In every feasible assignment the sold quantity lies within these bounds,
  both included, and is 0 where the market cap is 0.
\<close>

theorem sold_bounds:
  assumes "mth \<in> set months" and "prd \<in> set products"
  shows "\<exists>cap f h.
           getitem max_sales (mth, prd) = Inr cap \<and> length month_product = 6 * 7 \<and>
           build_factory = Inr f \<and> map_of (dv_sold f) (mth, prd) = Some h \<and>
           h < length (variables (factory_model f)) \<and>
           variables (factory_model f) ! h =
             \<lparr>var_lb = 0, var_ub = cap, var_integer = False,
              var_name = ''sold_'' @ str_pair (mth, prd)\<rparr> \<and>
           (\<forall>a. feasible (factory_model f) a \<longrightarrow>
                  0 \<le> a h \<and> a h \<le> cap \<and> (cap = 0 \<longrightarrow> a h = 0))"
proof -
  let ?i = "(mth, prd)"
  let ?h = "handle_of (dv_sold factory_dicts) ?i"
  let ?cap = "the (map_of max_sales ?i)"
  have i: "?i \<in> set month_product" using assms by (simp add: set_month_product)
  have h: "map_of (dv_sold factory_dicts) ?i = Some ?h"
    using i by (simp add: map_of_closed factory_keys set_month_product)
  have range: "?h < 126"
    using handle_of_range(2) [OF distinct_month_product i, of 84]
    by (simp add: factory_dicts_def length_month_product del: upt_rec_numeral)
  have len: "length factory_vars = 156"
    by (simp add: factory_vars_def length_month_product length_months length_machines)
  have nth: "factory_vars ! ?h =
      \<lparr>var_lb = 0, var_ub = ?cap, var_integer = False, var_name = ''sold_'' @ str_pair ?i\<rparr>"
    unfolding factory_vars_def factory_dicts_def
    using nth_registered [OF distinct_month_product i, where n = 84
        and v = "\<lambda>i. \<lparr>var_lb = 0, var_ub = the (map_of max_sales i), var_integer = False,
                var_name = ''sold_'' @ str_pair i\<rparr>"
        and A = "map (\<lambda>i. \<lparr>var_lb = 0, var_ub = 1000000, var_integer = False,
                var_name = ''manuf_'' @ str_pair i\<rparr>) month_product @
              map (\<lambda>i. \<lparr>var_lb = 0, var_ub = maximum_inventory, var_integer = False,
                var_name = ''invt_'' @ str_pair i\<rparr>) month_product"]
    by (simp add: length_month_product del: upt_rec_numeral)
  have bounds: "0 \<le> a ?h \<and> a ?h \<le> ?cap \<and> (?cap = 0 \<longrightarrow> a ?h = 0)"
    if "feasible (factory_model factory_built) a" for a
  proof -
    have "0 \<le> a ?h \<and> a ?h \<le> ?cap"
      using that i unfolding factory_feasible factory_feasible_iff by blast
    then show ?thesis by auto
  qed
  show ?thesis
    by (intro exI [of _ ?cap] exI [of _ factory_built] exI [of _ ?h])
       (use range in \<open>simp add: getitem_max_sales i build_factory_closed h factory_built_fields
          len nth bounds length_month_product\<close>)
qed

theorem sold_bounds_witness:
  "''Feb'' \<in> set months \<and> ''Prod4'' \<in> set products \<and>
   getitem max_sales (''Feb'', ''Prod4'') = Inr 0 \<and>
   feasible (factory_model factory_built) factory_plan \<and>
   val factory_plan (dv_sold factory_built) (''Feb'', ''Prod4'') = Some 0"
proof -
  have m: "''Feb'' \<in> set months" by (simp add: months_def)
  have p: "''Prod4'' \<in> set products" by (simp add: products_def)
  have cap0: "getitem max_sales (''Feb'', ''Prod4'') = Inr 0"
    by (simp add: getitem_def max_sales_def)
  obtain cap f h where cap: "getitem max_sales (''Feb'', ''Prod4'') = Inr cap"
    and f: "build_factory = Inr f"
    and h: "map_of (dv_sold f) (''Feb'', ''Prod4'') = Some h"
    and b: "\<forall>a. feasible (factory_model f) a \<longrightarrow>
                  0 \<le> a h \<and> a h \<le> cap \<and> (cap = 0 \<longrightarrow> a h = 0)"
    using sold_bounds [OF m p] by blast
  have "f = factory_built" using f by (simp add: build_factory_closed)
  moreover have "cap = 0" using cap cap0 by simp
  ultimately have "factory_plan h = 0" using b factory_plan_ok by blast
  then have "val factory_plan (dv_sold factory_built) (''Feb'', ''Prod4'') = Some 0"
    using h \<open>f = factory_built\<close> by (simp add: val_def)
  then show ?thesis using m p cap0 factory_plan_ok by simp
qed

text \<open>
  Claim C3. In every feasible assignment the stock of the last month equals its target
  exactly: in the factory model the June inventory of every product is 50, and in the
  food model the June inventory of every oil is 500.
\<close>

theorem terminal_targets:
  "(build_factory = Inr f \<and> feasible (factory_model f) a \<and> prd \<in> set products \<longrightarrow>
      val a (dv_inventory f) (last months, prd) = Some 50) \<and>
   (build_food = Inr g \<and> feasible (food_model g) b \<and> ol \<in> set oils \<longrightarrow>
      val b (dv_oil_inventory g) (last months, ol) = Some 500) \<and>
   last months = ''Jun''"
proof (intro conjI impI)
  show jun: "last months = ''Jun''" by (simp add: months_def)
  assume h: "build_factory = Inr f \<and> feasible (factory_model f) a \<and> prd \<in> set products"
  then have f: "f = factory_built" by (simp add: build_factory_closed)
  have "holds a (Eq (Var (handle_of (dv_inventory factory_dicts) (''Jun'', prd)))
                    (Const inventory_target))"
    using h factory_row_holds factory_rows_member(3) unfolding f by blast
  then show "val a (dv_inventory f) (last months, prd) = Some 50"
    using h unfolding f jun
    by (simp add: factory_val set_month_product Jun_month inventory_target_def)
next
  assume h: "build_food = Inr g \<and> feasible (food_model g) b \<and> ol \<in> set oils"
  then have g: "g = food_built" by (simp add: build_food_closed)
  have jun: "last months = ''Jun''" by (simp add: months_def)
  have "holds b (Eq (Var (handle_of (dv_oil_inventory food_dicts) (''Jun'', ol)))
                    (Const target_store_inventory))"
    using h food_row_holds food_rows_member(3) unfolding g by blast
  then show "val b (dv_oil_inventory g) (last months, ol) = Some 500"
    using h unfolding g jun
    by (simp add: food_val Jun_month target_store_inventory_def)
qed

theorem terminal_targets_witness:
  "build_factory = Inr factory_built \<and> feasible (factory_model factory_built) factory_plan \<and>
   ''Prod3'' \<in> set products \<and>
   val factory_plan (dv_inventory factory_built) (last months, ''Prod3'') = Some 50 \<and>
   build_food = Inr food_built \<and> feasible (food_model food_built) food_plan \<and>
   ''OIL2'' \<in> set oils \<and>
   val food_plan (dv_oil_inventory food_built) (last months, ''OIL2'') = Some 500"
proof -
  have p: "''Prod3'' \<in> set products" by (simp add: products_def)
  have o: "''OIL2'' \<in> set oils" by (simp add: oils_def)
  show ?thesis
    using terminal_targets [of factory_built factory_plan "''Prod3''" food_built food_plan
        "''OIL2''"]
      p o build_factory_closed factory_plan_ok build_food_closed food_plan_ok
    by blast
qed

text \<open>
  Claim C4. In the food model, in every feasible assignment and every month, the tons of
  oil consumed add up exactly to the tons of food produced, and the hardness-weighted
  sum of the consumed oils lies between 3 times and 6 times the production.
\<close>

theorem food_blend:
  assumes "build_food = Inr g" and "feasible (food_model g) a" and "mth \<in> set months"
  shows "\<exists>prod C.
           val a (dv_prod g) mth = Some prod \<and>
           (\<forall>ol\<in>set oils. val a (dv_oil_consume g) (mth, ol) = Some (C ol)) \<and>
           C ''VEG1'' + C ''VEG2'' + C ''OIL1'' + C ''OIL2'' + C ''OIL3'' = prod \<and>
           3 * prod \<le> 88 / 10 * C ''VEG1'' + 61 / 10 * C ''VEG2'' + 2 * C ''OIL1'' +
                         42 / 10 * C ''OIL2'' + 5 * C ''OIL3'' \<and>
           88 / 10 * C ''VEG1'' + 61 / 10 * C ''VEG2'' + 2 * C ''OIL1'' +
             42 / 10 * C ''OIL2'' + 5 * C ''OIL3'' \<le> 6 * prod"
proof -
  have g: "g = food_built" using assms(1) by (simp add: build_food_closed)
  have feas: "feasible (food_model food_built) a" using assms(2) g by simp
  let ?C = "\<lambda>ol. a (handle_of (dv_oil_consume food_dicts) (mth, ol))"
  let ?P = "a (handle_of (dv_prod food_dicts) mth)"
  have total: "?C ''VEG1'' + ?C ''VEG2'' + ?C ''OIL1'' + ?C ''OIL2'' + ?C ''OIL3'' = ?P"
    using food_row_holds [OF feas food_rows_member(6) [OF assms(3)]]
    by (simp add: oils_def)
  have lo: "3 * ?P \<le> 88 / 10 * ?C ''VEG1'' + 61 / 10 * ?C ''VEG2'' + 2 * ?C ''OIL1'' +
                         42 / 10 * ?C ''OIL2'' + 5 * ?C ''OIL3''"
    using food_row_holds [OF feas food_rows_member(4) [OF assms(3)]]
    by (simp add: oils_def hardness_def min_hardness_def)
  have hi: "88 / 10 * ?C ''VEG1'' + 61 / 10 * ?C ''VEG2'' + 2 * ?C ''OIL1'' +
              42 / 10 * ?C ''OIL2'' + 5 * ?C ''OIL3'' \<le> 6 * ?P"
    using food_row_holds [OF feas food_rows_member(5) [OF assms(3)]]
    by (simp add: oils_def hardness_def max_hardness_def)
  show ?thesis
    unfolding g
    by (intro exI [of _ ?P] exI [of _ ?C])
       (use total lo hi in \<open>simp add: food_val assms(3)\<close>)
qed

theorem food_blend_witness:
  "build_food = Inr food_built \<and> feasible (food_model food_built) food_plan \<and>
   ''Mar'' \<in> set months \<and> val food_plan (dv_prod food_built) ''Mar'' = Some 200 \<and>
   val food_plan (dv_oil_consume food_built) (''Mar'', ''VEG2'') = Some 100 \<and>
   val food_plan (dv_oil_consume food_built) (''Mar'', ''OIL1'') = Some 100 \<and>
   3 * (200 :: real) \<le> 61 / 10 * 100 + 2 * 100 \<and> 61 / 10 * 100 + 2 * 100 \<le> 6 * (200 :: real)"
proof -
  have m: "''Mar'' \<in> set months" by (simp add: months_def)
  have o: "''VEG2'' \<in> set oils" "''OIL1'' \<in> set oils" by (simp_all add: oils_def)
  obtain prod C where "val food_plan (dv_prod food_built) ''Mar'' = Some prod"
    and "\<forall>ol\<in>set oils. val food_plan (dv_oil_consume food_built) (''Mar'', ol) = Some (C ol)"
    using food_blend [OF build_food_closed food_plan_ok m] by blast
  then show ?thesis
    using m o build_food_closed food_plan_ok
    by (simp add: food_val food_plan_values set_month_oil)
qed

text \<open>
  Claim C6. In the manpower model the retraining of unskilled workers (s1) directly into
  skilled ones (s3) has the value 0 in every year of every feasible assignment.
\<close>

theorem disallowed_transition:
  assumes "build_manpower = Inr m" and "feasible (manpower_model m) a" and "t \<in> set years"
  shows "val a (dv_train m) (t, ''s1'', ''s3'') = Some 0"
proof -
  have m: "m = manpower_built" using assms(1) by (simp add: build_manpower_closed)
  have "holds a (Eq (Var (handle_of (dv_train manpower_dicts) (t, ''s1'', ''s3''))) (Const 0))"
    using assms(2) manpower_row_holds manpower_rows_member(3) [OF assms(3)] unfolding m
    by blast
  then show ?thesis
    unfolding m using assms(3) by (simp add: manpower_val skill_names)
qed

theorem disallowed_transition_witness:
  "build_manpower = Inr manpower_built \<and>
   feasible (manpower_model manpower_built) manpower_plan \<and> 2 \<in> set years \<and>
   val manpower_plan (dv_train manpower_built) (2, ''s1'', ''s3'') = Some 0 \<and>
   val manpower_plan (dv_train manpower_built) (2, ''s1'', ''s2'') = Some 200"
proof -
  have y: "2 \<in> set years" by (simp add: years_def)
  have "val manpower_plan (dv_train manpower_built) (2, ''s1'', ''s2'') = Some 200"
    using y by (simp add: manpower_val manpower_plan_values skill_names set_year_skill_skill)
  then show ?thesis
    using disallowed_transition [OF build_manpower_closed manpower_plan_ok y]
      build_manpower_closed manpower_plan_ok y
    by simp
qed

text \<open>
  Claim C9. In the manpower model, for every year and skill, every feasible assignment
  has workforce = demand + excess + 0.5 * part-time. As this is an equality and the
  excess and part-time variables are not negative, the workforce is never below the
  demand, and what exceeds the demand is exactly the overmanning plus half the part-time
  workers.
\<close>

theorem demand_coverage:
  assumes "build_manpower = Inr m" and "feasible (manpower_model m) a"
    and "t \<in> set years" and "s \<in> set skills"
  shows "\<exists>W E P d.
           val a (dv_workforce m) (t, s) = Some W \<and> val a (dv_excess m) (t, s) = Some E \<and>
           val a (dv_part_time m) (t, s) = Some P \<and> getitem demand (t, s) = Inr d \<and>
           W = d + E + 0.5 * P \<and> d \<le> W \<and> 0 \<le> E \<and> 0 \<le> P \<and> W - d = E + P / 2"
proof -
  have m: "m = manpower_built" using assms(1) by (simp add: build_manpower_closed)
  have feas: "feasible (manpower_model manpower_built) a" using assms(2) m by simp
  let ?W = "a (handle_of (dv_workforce manpower_dicts) (t, s))"
  let ?E = "a (handle_of (dv_excess manpower_dicts) (t, s))"
  let ?P = "a (handle_of (dv_part_time manpower_dicts) (t, s))"
  let ?d = "the (map_of demand (t, s))"
  have k: "(t, s) \<in> set year_skill" using assms(3,4) by (simp add: set_year_skill)
  have dem: "?W = ?d + ?E + 0.5 * ?P"
    using manpower_row_holds [OF feas manpower_rows_member(4) [OF assms(3,4)]]
    by (simp add: parttime_cap_def)
  have E: "0 \<le> ?E" and P: "0 \<le> ?P"
    using feas k unfolding manpower_feasible manpower_feasible_iff by blast+
  show ?thesis
    unfolding m
    by (intro exI [of _ ?W] exI [of _ ?E] exI [of _ ?P] exI [of _ ?d])
       (use dem E P in \<open>simp add: manpower_val assms(3,4) getitem_demand\<close>)
qed

theorem demand_coverage_witness:
  "build_manpower = Inr manpower_built \<and>
   feasible (manpower_model manpower_built) manpower_plan \<and>
   1 \<in> set years \<and> ''s2'' \<in> set skills \<and> getitem demand (1, ''s2'') = Inr 1400 \<and>
   val manpower_plan (dv_workforce manpower_built) (1, ''s2'') = Some 1425 \<and>
   val manpower_plan (dv_excess manpower_built) (1, ''s2'') = Some 20 \<and>
   val manpower_plan (dv_part_time manpower_built) (1, ''s2'') = Some 10 \<and>
   (1425 :: real) = 1400 + 20 + 0.5 * 10"
proof -
  obtain W E P d where "val manpower_plan (dv_workforce manpower_built) (1, ''s2'') = Some W"
    and "getitem demand (1, ''s2'') = Inr d"
    using demand_coverage [OF build_manpower_closed manpower_plan_ok year_one skill_names(2)]
    by blast
  then show ?thesis
    using build_manpower_closed manpower_plan_ok year_one skill_names(2)
    by (simp add: manpower_val manpower_plan_values set_year_skill getitem_def demand_def)
qed

text \<open>
  Claim C1. In every model, for every period after the first and every tracked entity
  (product, oil or skill), every feasible assignment satisfies the balance exactly: what
  is carried over from the period before plus the inflows of the period, minus its
  outflows and minus what is carried forward, is 0. In the factory the inflow is the
  production and the outflow the sales; in the food model they are the purchases and the
  consumption. In the manpower model the quantity carried over is the share of last
  year's workforce that stays (1 minus the attrition of experienced workers), the inflows
  are the hires and retrained workers that stay, and the outflows are the workers
  retrained away and the layoffs.
\<close>

theorem balance_conservation:
  "(build_factory = Inr f \<and> feasible (factory_model f) a \<and>
      1 \<le> t \<and> t < length months \<and> prd \<in> set products \<longrightarrow>
      (\<exists>i0 m s i1.
         val a (dv_inventory f) (months ! (t - 1), prd) = Some i0 \<and>
         val a (dv_manufacture f) (months ! t, prd) = Some m \<and>
         val a (dv_sold f) (months ! t, prd) = Some s \<and>
         val a (dv_inventory f) (months ! t, prd) = Some i1 \<and>
         i0 + m - s - i1 = 0)) \<and>
   (build_food = Inr g \<and> feasible (food_model g) b \<and>
      1 \<le> t \<and> t < length months \<and> ol \<in> set oils \<longrightarrow>
      (\<exists>i0 p c i1.
         val b (dv_oil_inventory g) (months ! (t - 1), ol) = Some i0 \<and>
         val b (dv_oil_buy g) (months ! t, ol) = Some p \<and>
         val b (dv_oil_consume g) (months ! t, ol) = Some c \<and>
         val b (dv_oil_inventory g) (months ! t, ol) = Some i1 \<and>
         i0 + p - c - i1 = 0)) \<and>
   (build_manpower = Inr mp \<and> feasible (manpower_model mp) w \<and>
      y \<in> set years \<and> 1 < y \<and> sk \<in> set skills \<longrightarrow>
      (\<exists>W0 W H L Tin Tout e n.
         val w (dv_workforce mp) (y - 1, sk) = Some W0 \<and>
         val w (dv_workforce mp) (y, sk) = Some W \<and>
         val w (dv_hire mp) (y, sk) = Some H \<and>
         val w (dv_layoff mp) (y, sk) = Some L \<and>
         (\<forall>s2\<in>set skills.
            val w (dv_train mp) (y, s2, sk) = Some (Tin s2) \<and>
            val w (dv_train mp) (y, sk, s2) = Some (Tout s2)) \<and>
         getitem experienced_attrition sk = Inr e \<and>
         getitem new_hire_attrition sk = Inr n \<and>
         (1 - e) * W0 + (1 - n) * H +
           (\<Sum>s2\<leftarrow>filter (\<lambda>s2. s2 < sk) skills. (1 - e) * Tin s2 - Tout s2) +
           (\<Sum>s2\<leftarrow>filter (\<lambda>s2. sk < s2) skills. 1 / 2 * Tin s2 - Tout s2) -
           L - W = 0))"
proof (intro conjI impI)
  assume h: "build_factory = Inr f \<and> feasible (factory_model f) a \<and>
      1 \<le> t \<and> t < length months \<and> prd \<in> set products"
  then have f: "f = factory_built" by (simp add: build_factory_closed)
  have t: "Suc 0 \<le> t" "t < 6" using h by (simp_all add: length_months)
  have row: "holds a
     (Eq (Plus (Var (handle_of (dv_inventory factory_dicts) (months ! (t - 1), prd)))
              (Var (handle_of (dv_manufacture factory_dicts) (months ! t, prd))))
        (Plus (Var (handle_of (dv_sold factory_dicts) (months ! t, prd)))
              (Var (handle_of (dv_inventory factory_dicts) (months ! t, prd)))))"
    using h factory_row_holds factory_rows_member(2) [OF t] unfolding f by blast
  show "\<exists>i0 m s i1.
         val a (dv_inventory f) (months ! (t - 1), prd) = Some i0 \<and>
         val a (dv_manufacture f) (months ! t, prd) = Some m \<and>
         val a (dv_sold f) (months ! t, prd) = Some s \<and>
         val a (dv_inventory f) (months ! t, prd) = Some i1 \<and>
         i0 + m - s - i1 = 0"
    unfolding f using h row prev_month(3,4) [OF t]
    by (simp add: factory_val set_month_product)
next
  assume h: "build_food = Inr g \<and> feasible (food_model g) b \<and>
      1 \<le> t \<and> t < length months \<and> ol \<in> set oils"
  then have g: "g = food_built" by (simp add: build_food_closed)
  have t: "Suc 0 \<le> t" "t < 6" using h by (simp_all add: length_months)
  have row: "holds b
     (Eq (Plus (Var (handle_of (dv_oil_inventory food_dicts) (months ! (t - 1), ol)))
              (Var (handle_of (dv_oil_buy food_dicts) (months ! t, ol))))
        (Plus (Var (handle_of (dv_oil_consume food_dicts) (months ! t, ol)))
              (Var (handle_of (dv_oil_inventory food_dicts) (months ! t, ol)))))"
    using h food_row_holds food_rows_member(2) [OF t] unfolding g by blast
  show "\<exists>i0 p c i1.
         val b (dv_oil_inventory g) (months ! (t - 1), ol) = Some i0 \<and>
         val b (dv_oil_buy g) (months ! t, ol) = Some p \<and>
         val b (dv_oil_consume g) (months ! t, ol) = Some c \<and>
         val b (dv_oil_inventory g) (months ! t, ol) = Some i1 \<and>
         i0 + p - c - i1 = 0"
    unfolding g using h row prev_month(3,4) [OF t]
    by (simp add: food_val)
next
  assume h: "build_manpower = Inr mp \<and> feasible (manpower_model mp) w \<and>
      y \<in> set years \<and> 1 < y \<and> sk \<in> set skills"
  then have mp: "mp = manpower_built" by (simp add: build_manpower_closed)
  have y: "y \<in> set (drop 1 years)" "y \<in> set years" "y - 1 \<in> set years"
    using h by (auto simp: years_def)
  have sk: "sk \<in> set skills" using h by simp
  let ?Tin = "\<lambda>s2. w (handle_of (dv_train manpower_dicts) (y, s2, sk))"
  let ?Tout = "\<lambda>s2. w (handle_of (dv_train manpower_dicts) (y, sk, s2))"
  let ?e = "the (map_of experienced_attrition sk)"
  let ?n = "the (map_of new_hire_attrition sk)"
  have row: "holds w (manpower_flow_row (Times (1 - ?e)
                (Var (handle_of (dv_workforce manpower_dicts) (y - 1, sk)))) y sk)"
    using h manpower_row_holds manpower_rows_member(2) [OF y(1) sk] unfolding mp by blast
  have bal: "(1 - ?e) * w (handle_of (dv_workforce manpower_dicts) (y - 1, sk)) +
      (1 - ?n) * w (handle_of (dv_hire manpower_dicts) (y, sk)) +
      (\<Sum>s2\<leftarrow>filter (\<lambda>s2. s2 < sk) skills. (1 - ?e) * ?Tin s2 - ?Tout s2) +
      (\<Sum>s2\<leftarrow>filter (\<lambda>s2. sk < s2) skills. 1 / 2 * ?Tin s2 - ?Tout s2) -
      w (handle_of (dv_layoff manpower_dicts) (y, sk)) -
      w (handle_of (dv_workforce manpower_dicts) (y, sk)) = 0"
    using row
    by (simp add: manpower_flow_row_def comp_def downgrade_skill_attrition_def)
  show "\<exists>W0 W H L Tin Tout e n.
         val w (dv_workforce mp) (y - 1, sk) = Some W0 \<and>
         val w (dv_workforce mp) (y, sk) = Some W \<and>
         val w (dv_hire mp) (y, sk) = Some H \<and>
         val w (dv_layoff mp) (y, sk) = Some L \<and>
         (\<forall>s2\<in>set skills.
            val w (dv_train mp) (y, s2, sk) = Some (Tin s2) \<and>
            val w (dv_train mp) (y, sk, s2) = Some (Tout s2)) \<and>
         getitem experienced_attrition sk = Inr e \<and>
         getitem new_hire_attrition sk = Inr n \<and>
         (1 - e) * W0 + (1 - n) * H +
           (\<Sum>s2\<leftarrow>filter (\<lambda>s2. s2 < sk) skills. (1 - e) * Tin s2 - Tout s2) +
           (\<Sum>s2\<leftarrow>filter (\<lambda>s2. sk < s2) skills. 1 / 2 * Tin s2 - Tout s2) -
           L - W = 0"
    unfolding mp
    apply (rule exI [of _ "w (handle_of (dv_workforce manpower_dicts) (y - 1, sk))"])
    apply (rule exI [of _ "w (handle_of (dv_workforce manpower_dicts) (y, sk))"])
    apply (rule exI [of _ "w (handle_of (dv_hire manpower_dicts) (y, sk))"])
    apply (rule exI [of _ "w (handle_of (dv_layoff manpower_dicts) (y, sk))"])
    apply (rule exI [of _ ?Tin])
    apply (rule exI [of _ ?Tout])
    apply (rule exI [of _ ?e])
    apply (rule exI [of _ ?n])
    using bal y sk
    apply (simp add: manpower_val getitem_skill_tables)
    done
qed

theorem balance_conservation_witness:
  "build_factory = Inr factory_built \<and> feasible (factory_model factory_built) factory_plan \<and>
   (1 :: nat) \<le> 1 \<and> 1 < length months \<and> ''Prod1'' \<in> set products \<and>
   val factory_plan (dv_inventory factory_built) (months ! (1 - 1), ''Prod1'') = Some 0 \<and>
   val factory_plan (dv_manufacture factory_built) (months ! 1, ''Prod1'') = Some 100 \<and>
   val factory_plan (dv_sold factory_built) (months ! 1, ''Prod1'') = Some 100 \<and>
   val factory_plan (dv_inventory factory_built) (months ! 1, ''Prod1'') = Some 0 \<and>
   (0 :: real) + 100 - 100 - 0 = 0 \<and>
   build_food = Inr food_built \<and> feasible (food_model food_built) food_plan \<and>
   ''VEG2'' \<in> set oils \<and>
   val food_plan (dv_oil_inventory food_built) (months ! (1 - 1), ''VEG2'') = Some 500 \<and>
   val food_plan (dv_oil_buy food_built) (months ! 1, ''VEG2'') = Some 100 \<and>
   val food_plan (dv_oil_consume food_built) (months ! 1, ''VEG2'') = Some 100 \<and>
   val food_plan (dv_oil_inventory food_built) (months ! 1, ''VEG2'') = Some 500 \<and>
   (500 :: real) + 100 - 100 - 500 = 0 \<and>
   build_manpower = Inr manpower_built \<and>
   feasible (manpower_model manpower_built) manpower_plan \<and>
   2 \<in> set years \<and> (1 :: int) < 2 \<and> ''s2'' \<in> set skills \<and>
   val manpower_plan (dv_workforce manpower_built) (2 - 1, ''s2'') = Some 1425 \<and>
   val manpower_plan (dv_workforce manpower_built) (2, ''s2'') = Some 2000 \<and>
   val manpower_plan (dv_hire manpower_built) (2, ''s2'') = Some 800 \<and>
   val manpower_plan (dv_layoff manpower_built) (2, ''s2'') = Some (255 / 4) \<and>
   val manpower_plan (dv_train manpower_built) (2, ''s1'', ''s2'') = Some 200 \<and>
   val manpower_plan (dv_train manpower_built) (2, ''s2'', ''s3'') = Some 120 \<and>
   (1 - 5 / 100) * (1425 :: real) + (1 - 20 / 100) * 800 + ((1 - 5 / 100) * 200 - 0) +
     (1 / 2 * 0 - 120) - 255 / 4 - 2000 = 0"
proof -
  have p: "''Prod1'' \<in> set products" by (simp add: products_def)
  have o: "''VEG2'' \<in> set oils" by (simp add: oils_def)
  have t: "(1 :: nat) \<le> 1" "1 < length months" by (simp_all add: length_months)
  have y: "2 \<in> set years" "(1 :: int) < 2" by (simp_all add: years_def)
  have m: "months ! (1 - 1) = ''Jan''" "months ! 1 = ''Feb''" by (simp_all add: months_def)
  note inst = balance_conservation [of factory_built factory_plan 1 "''Prod1''"
      food_built food_plan "''VEG2''" manpower_built manpower_plan 2 "''s2''"]
  have "\<exists>i0. val factory_plan (dv_inventory factory_built) (months ! (1 - 1), ''Prod1'') =
      Some i0"
    using inst build_factory_closed factory_plan_ok t p by blast
  moreover have "\<exists>i0. val food_plan (dv_oil_inventory food_built) (months ! (1 - 1), ''VEG2'') =
      Some i0"
    using inst build_food_closed food_plan_ok t o by blast
  moreover have "\<exists>W0. val manpower_plan (dv_workforce manpower_built) (2 - 1, ''s2'') = Some W0"
    using inst build_manpower_closed manpower_plan_ok y skill_names(2) by blast
  ultimately show ?thesis
    using p o t y skill_names(2) build_factory_closed factory_plan_ok build_food_closed
      food_plan_ok build_manpower_closed manpower_plan_ok
    unfolding m
    by (simp add: factory_val factory_plan_values set_month_product food_val food_plan_values
        set_month_oil manpower_val manpower_plan_values set_year_skill set_year_skill_skill
        skill_names months_def years_def demand_def plan_layoff_def)
qed

text \<open>
  Claim C2. In every model the balance row of the first period is seeded from a constant
  and holds no variable of an earlier period: the constant is \<open>init_store_inventory\<close>
  (500) in the food model, the retained current workforce in the manpower model, and 0
  in the factory model, whose opening stock is empty, so that its row carries no term
  for it. Every balance row of a later period \<open>t\<close> holds the inventory or workforce
  variable of period \<open>t - 1\<close>. The rows are given as the scripts register them.
\<close>

theorem balance_sequencing:
  "(build_factory = Inr f \<and> prd \<in> set products \<longrightarrow>
      (\<exists>hm hs hi.
         map_of (dv_manufacture f) (hd months, prd) = Some hm \<and>
         map_of (dv_sold f) (hd months, prd) = Some hs \<and>
         map_of (dv_inventory f) (hd months, prd) = Some hi \<and>
         Eq (Var hm) (Plus (Var hs) (Var hi)) \<in> set (constraints (factory_model f)) \<and>
         (\<forall>a. holds a (Eq (Var hm) (Plus (Var hs) (Var hi))) \<longleftrightarrow>
                0 + a hm - a hs - a hi = 0)) \<and>
      (1 \<le> t \<and> t < length months \<longrightarrow>
        (\<exists>h0 hm hs hi.
           map_of (dv_inventory f) (months ! (t - 1), prd) = Some h0 \<and>
           map_of (dv_manufacture f) (months ! t, prd) = Some hm \<and>
           map_of (dv_sold f) (months ! t, prd) = Some hs \<and>
           map_of (dv_inventory f) (months ! t, prd) = Some hi \<and>
           Eq (Plus (Var h0) (Var hm)) (Plus (Var hs) (Var hi))
             \<in> set (constraints (factory_model f))))) \<and>
   (build_food = Inr g \<and> ol \<in> set oils \<longrightarrow>
      (\<exists>hb hc hi.
         map_of (dv_oil_buy g) (hd months, ol) = Some hb \<and>
         map_of (dv_oil_consume g) (hd months, ol) = Some hc \<and>
         map_of (dv_oil_inventory g) (hd months, ol) = Some hi \<and>
         Eq (Plus (Const 500) (Var hb)) (Plus (Var hc) (Var hi))
           \<in> set (constraints (food_model g))) \<and>
      (1 \<le> t \<and> t < length months \<longrightarrow>
        (\<exists>h0 hb hc hi.
           map_of (dv_oil_inventory g) (months ! (t - 1), ol) = Some h0 \<and>
           map_of (dv_oil_buy g) (months ! t, ol) = Some hb \<and>
           map_of (dv_oil_consume g) (months ! t, ol) = Some hc \<and>
           map_of (dv_oil_inventory g) (months ! t, ol) = Some hi \<and>
           Eq (Plus (Var h0) (Var hb)) (Plus (Var hc) (Var hi))
             \<in> set (constraints (food_model g))))) \<and>
   (build_manpower = Inr mp \<and> sk \<in> set skills \<longrightarrow>
      (\<exists>hW hH hL T e n c.
         map_of (dv_workforce mp) (hd years, sk) = Some hW \<and>
         map_of (dv_hire mp) (hd years, sk) = Some hH \<and>
         map_of (dv_layoff mp) (hd years, sk) = Some hL \<and>
         (\<forall>s1\<in>set skills. \<forall>s2\<in>set skills.
            map_of (dv_train mp) (hd years, s1, s2) = Some (T s1 s2)) \<and>
         getitem experienced_attrition sk = Inr e \<and>
         getitem new_hire_attrition sk = Inr n \<and>
         getitem current_workforce sk = Inr c \<and>
         workforce_row (Const ((1 - e) * c)) hW hH hL T e n sk
           \<in> set (constraints (manpower_model mp))) \<and>
      (y \<in> set years \<and> 1 < y \<longrightarrow>
        (\<exists>hW0 hW hH hL T e n.
           map_of (dv_workforce mp) (y - 1, sk) = Some hW0 \<and>
           map_of (dv_workforce mp) (y, sk) = Some hW \<and>
           map_of (dv_hire mp) (y, sk) = Some hH \<and>
           map_of (dv_layoff mp) (y, sk) = Some hL \<and>
           (\<forall>s1\<in>set skills. \<forall>s2\<in>set skills.
              map_of (dv_train mp) (y, s1, s2) = Some (T s1 s2)) \<and>
           getitem experienced_attrition sk = Inr e \<and>
           getitem new_hire_attrition sk = Inr n \<and>
           workforce_row (Times (1 - e) (Var hW0)) hW hH hL T e n sk
             \<in> set (constraints (manpower_model mp)))))"
proof (intro conjI impI)
  assume h: "build_factory = Inr f \<and> prd \<in> set products"
  then have f: "f = factory_built" by (simp add: build_factory_closed)
  show "\<exists>hm hs hi.
         map_of (dv_manufacture f) (hd months, prd) = Some hm \<and>
         map_of (dv_sold f) (hd months, prd) = Some hs \<and>
         map_of (dv_inventory f) (hd months, prd) = Some hi \<and>
         Eq (Var hm) (Plus (Var hs) (Var hi)) \<in> set (constraints (factory_model f)) \<and>
         (\<forall>a. holds a (Eq (Var hm) (Plus (Var hs) (Var hi))) \<longleftrightarrow>
                0 + a hm - a hs - a hi = 0)"
    unfolding f first_month using h factory_rows_member(1) [of prd]
    by (auto simp: factory_handle Jan_month factory_built_fields)
  assume "1 \<le> t \<and> t < length months"
  then have t: "Suc 0 \<le> t" "t < 6" by (simp_all add: length_months)
  show "\<exists>h0 hm hs hi.
           map_of (dv_inventory f) (months ! (t - 1), prd) = Some h0 \<and>
           map_of (dv_manufacture f) (months ! t, prd) = Some hm \<and>
           map_of (dv_sold f) (months ! t, prd) = Some hs \<and>
           map_of (dv_inventory f) (months ! t, prd) = Some hi \<and>
           Eq (Plus (Var h0) (Var hm)) (Plus (Var hs) (Var hi))
             \<in> set (constraints (factory_model f))"
    unfolding f using h factory_rows_member(2) [OF t, of prd] prev_month(3,4) [OF t]
    by (simp add: factory_handle factory_built_fields)
next
  assume h: "build_food = Inr g \<and> ol \<in> set oils"
  then have g: "g = food_built" by (simp add: build_food_closed)
  show "\<exists>hb hc hi.
         map_of (dv_oil_buy g) (hd months, ol) = Some hb \<and>
         map_of (dv_oil_consume g) (hd months, ol) = Some hc \<and>
         map_of (dv_oil_inventory g) (hd months, ol) = Some hi \<and>
         Eq (Plus (Const 500) (Var hb)) (Plus (Var hc) (Var hi))
           \<in> set (constraints (food_model g))"
    unfolding g first_month using h food_rows_member(1) [of ol]
    by (simp add: food_handle Jan_month food_built_fields init_store_inventory_def)
  assume "1 \<le> t \<and> t < length months"
  then have t: "Suc 0 \<le> t" "t < 6" by (simp_all add: length_months)
  show "\<exists>h0 hb hc hi.
           map_of (dv_oil_inventory g) (months ! (t - 1), ol) = Some h0 \<and>
           map_of (dv_oil_buy g) (months ! t, ol) = Some hb \<and>
           map_of (dv_oil_consume g) (months ! t, ol) = Some hc \<and>
           map_of (dv_oil_inventory g) (months ! t, ol) = Some hi \<and>
           Eq (Plus (Var h0) (Var hb)) (Plus (Var hc) (Var hi))
             \<in> set (constraints (food_model g))"
    unfolding g using h food_rows_member(2) [OF t, of ol] prev_month(3,4) [OF t]
    by (simp add: food_handle food_built_fields)
next
  assume h: "build_manpower = Inr mp \<and> sk \<in> set skills"
  then have mp: "mp = manpower_built" by (simp add: build_manpower_closed)
  have sk: "sk \<in> set skills" using h by simp
  have y1: "hd years = 1" by (simp add: years_def)
  let ?e = "the (map_of experienced_attrition sk)"
  let ?n = "the (map_of new_hire_attrition sk)"
  let ?c = "the (map_of current_workforce sk)"
  show "\<exists>hW hH hL T e n c.
         map_of (dv_workforce mp) (hd years, sk) = Some hW \<and>
         map_of (dv_hire mp) (hd years, sk) = Some hH \<and>
         map_of (dv_layoff mp) (hd years, sk) = Some hL \<and>
         (\<forall>s1\<in>set skills. \<forall>s2\<in>set skills.
            map_of (dv_train mp) (hd years, s1, s2) = Some (T s1 s2)) \<and>
         getitem experienced_attrition sk = Inr e \<and>
         getitem new_hire_attrition sk = Inr n \<and>
         getitem current_workforce sk = Inr c \<and>
         workforce_row (Const ((1 - e) * c)) hW hH hL T e n sk
           \<in> set (constraints (manpower_model mp))"
    unfolding mp y1
    apply (rule exI [of _ "handle_of (dv_workforce manpower_dicts) (1, sk)"])
    apply (rule exI [of _ "handle_of (dv_hire manpower_dicts) (1, sk)"])
    apply (rule exI [of _ "handle_of (dv_layoff manpower_dicts) (1, sk)"])
    apply (rule exI [of _ "\<lambda>s1 s2. handle_of (dv_train manpower_dicts) (1, s1, s2)"])
    apply (rule exI [of _ ?e])
    apply (rule exI [of _ ?n])
    apply (rule exI [of _ ?c])
    using sk manpower_rows_member(1) [OF sk]
    apply (simp add: manpower_handle year_one getitem_skill_tables manpower_built_fields
        manpower_flow_row_eq)
    done
  assume "y \<in> set years \<and> 1 < y"
  then have y: "y \<in> set (drop 1 years)" "y \<in> set years" "y - 1 \<in> set years"
    by (auto simp: years_def)
  show "\<exists>hW0 hW hH hL T e n.
           map_of (dv_workforce mp) (y - 1, sk) = Some hW0 \<and>
           map_of (dv_workforce mp) (y, sk) = Some hW \<and>
           map_of (dv_hire mp) (y, sk) = Some hH \<and>
           map_of (dv_layoff mp) (y, sk) = Some hL \<and>
           (\<forall>s1\<in>set skills. \<forall>s2\<in>set skills.
              map_of (dv_train mp) (y, s1, s2) = Some (T s1 s2)) \<and>
           getitem experienced_attrition sk = Inr e \<and>
           getitem new_hire_attrition sk = Inr n \<and>
           workforce_row (Times (1 - e) (Var hW0)) hW hH hL T e n sk
             \<in> set (constraints (manpower_model mp))"
    unfolding mp
    apply (rule exI [of _ "handle_of (dv_workforce manpower_dicts) (y - 1, sk)"])
    apply (rule exI [of _ "handle_of (dv_workforce manpower_dicts) (y, sk)"])
    apply (rule exI [of _ "handle_of (dv_hire manpower_dicts) (y, sk)"])
    apply (rule exI [of _ "handle_of (dv_layoff manpower_dicts) (y, sk)"])
    apply (rule exI [of _ "\<lambda>s1 s2. handle_of (dv_train manpower_dicts) (y, s1, s2)"])
    apply (rule exI [of _ ?e])
    apply (rule exI [of _ ?n])
    using sk y manpower_rows_member(2) [OF y(1) sk]
    apply (simp add: manpower_handle getitem_skill_tables manpower_built_fields
        manpower_flow_row_eq)
    done
qed

theorem balance_sequencing_witness:
  "build_factory = Inr factory_built \<and> ''Prod2'' \<in> set products \<and>
   (1 :: nat) \<le> 2 \<and> 2 < length months \<and>
   Eq (Var (the (map_of (dv_manufacture factory_built) (hd months, ''Prod2''))))
      (Plus (Var (the (map_of (dv_sold factory_built) (hd months, ''Prod2''))))
            (Var (the (map_of (dv_inventory factory_built) (hd months, ''Prod2'')))))
     \<in> set (constraints (factory_model factory_built)) \<and>
   Eq (Plus (Var (the (map_of (dv_inventory factory_built) (months ! (2 - 1), ''Prod2''))))
            (Var (the (map_of (dv_manufacture factory_built) (months ! 2, ''Prod2'')))))
      (Plus (Var (the (map_of (dv_sold factory_built) (months ! 2, ''Prod2''))))
            (Var (the (map_of (dv_inventory factory_built) (months ! 2, ''Prod2'')))))
     \<in> set (constraints (factory_model factory_built)) \<and>
   build_food = Inr food_built \<and> ''OIL3'' \<in> set oils \<and>
   Eq (Plus (Const 500) (Var (the (map_of (dv_oil_buy food_built) (hd months, ''OIL3'')))))
      (Plus (Var (the (map_of (dv_oil_consume food_built) (hd months, ''OIL3''))))
            (Var (the (map_of (dv_oil_inventory food_built) (hd months, ''OIL3'')))))
     \<in> set (constraints (food_model food_built)) \<and>
   Eq (Plus (Var (the (map_of (dv_oil_inventory food_built) (months ! (2 - 1), ''OIL3''))))
            (Var (the (map_of (dv_oil_buy food_built) (months ! 2, ''OIL3'')))))
      (Plus (Var (the (map_of (dv_oil_consume food_built) (months ! 2, ''OIL3''))))
            (Var (the (map_of (dv_oil_inventory food_built) (months ! 2, ''OIL3'')))))
     \<in> set (constraints (food_model food_built)) \<and>
   build_manpower = Inr manpower_built \<and> ''s2'' \<in> set skills \<and>
   3 \<in> set years \<and> (1 :: int) < 3 \<and>
   getitem current_workforce ''s2'' = Inr 1500 \<and>
   getitem experienced_attrition ''s2'' = Inr (5 / 100) \<and>
   manpower_flow_row (Const ((1 - 5 / 100) * 1500)) 1 ''s2''
     \<in> set (constraints (manpower_model manpower_built)) \<and>
   manpower_flow_row
       (Times (1 - 5 / 100) (Var (the (map_of (dv_workforce manpower_built) (3 - 1, ''s2'')))))
       3 ''s2''
     \<in> set (constraints (manpower_model manpower_built))"
proof -
  have p: "''Prod2'' \<in> set products" by (simp add: products_def)
  have o: "''OIL3'' \<in> set oils" by (simp add: oils_def)
  have t: "(1 :: nat) \<le> 2" "2 < length months" by (simp_all add: length_months)
  have y: "3 \<in> set years" "(1 :: int) < 3" "3 \<in> set (drop 1 years)" "3 - 1 \<in> set years"
    by (simp_all add: years_def)
  note inst = balance_sequencing [of factory_built "''Prod2''" 2 food_built "''OIL3''"
      manpower_built "''s2''" 3]
  obtain hm hs hi where
    "map_of (dv_manufacture factory_built) (hd months, ''Prod2'') = Some hm"
    "map_of (dv_sold factory_built) (hd months, ''Prod2'') = Some hs"
    "map_of (dv_inventory factory_built) (hd months, ''Prod2'') = Some hi"
    "Eq (Var hm) (Plus (Var hs) (Var hi)) \<in> set (constraints (factory_model factory_built))"
    using inst build_factory_closed p by blast
  then have F1: "Eq (Var (the (map_of (dv_manufacture factory_built) (hd months, ''Prod2''))))
      (Plus (Var (the (map_of (dv_sold factory_built) (hd months, ''Prod2''))))
            (Var (the (map_of (dv_inventory factory_built) (hd months, ''Prod2'')))))
     \<in> set (constraints (factory_model factory_built))"
    by simp
  obtain h0 hm hs hi where
    "map_of (dv_inventory factory_built) (months ! (2 - 1), ''Prod2'') = Some h0"
    "map_of (dv_manufacture factory_built) (months ! 2, ''Prod2'') = Some hm"
    "map_of (dv_sold factory_built) (months ! 2, ''Prod2'') = Some hs"
    "map_of (dv_inventory factory_built) (months ! 2, ''Prod2'') = Some hi"
    "Eq (Plus (Var h0) (Var hm)) (Plus (Var hs) (Var hi))
       \<in> set (constraints (factory_model factory_built))"
    using inst build_factory_closed p t by blast
  then have F2: "Eq (Plus (Var (the (map_of (dv_inventory factory_built)
                                        (months ! (2 - 1), ''Prod2''))))
            (Var (the (map_of (dv_manufacture factory_built) (months ! 2, ''Prod2'')))))
      (Plus (Var (the (map_of (dv_sold factory_built) (months ! 2, ''Prod2''))))
            (Var (the (map_of (dv_inventory factory_built) (months ! 2, ''Prod2'')))))
     \<in> set (constraints (factory_model factory_built))"
    by simp
  obtain hb hc hi where
    "map_of (dv_oil_buy food_built) (hd months, ''OIL3'') = Some hb"
    "map_of (dv_oil_consume food_built) (hd months, ''OIL3'') = Some hc"
    "map_of (dv_oil_inventory food_built) (hd months, ''OIL3'') = Some hi"
    "Eq (Plus (Const 500) (Var hb)) (Plus (Var hc) (Var hi))
       \<in> set (constraints (food_model food_built))"
    using inst build_food_closed o by blast
  then have G1: "Eq (Plus (Const 500)
                          (Var (the (map_of (dv_oil_buy food_built) (hd months, ''OIL3'')))))
      (Plus (Var (the (map_of (dv_oil_consume food_built) (hd months, ''OIL3''))))
            (Var (the (map_of (dv_oil_inventory food_built) (hd months, ''OIL3'')))))
     \<in> set (constraints (food_model food_built))"
    by simp
  obtain h0 hb hc hi where
    "map_of (dv_oil_inventory food_built) (months ! (2 - 1), ''OIL3'') = Some h0"
    "map_of (dv_oil_buy food_built) (months ! 2, ''OIL3'') = Some hb"
    "map_of (dv_oil_consume food_built) (months ! 2, ''OIL3'') = Some hc"
    "map_of (dv_oil_inventory food_built) (months ! 2, ''OIL3'') = Some hi"
    "Eq (Plus (Var h0) (Var hb)) (Plus (Var hc) (Var hi))
       \<in> set (constraints (food_model food_built))"
    using inst build_food_closed o t by blast
  then have G2: "Eq (Plus (Var (the (map_of (dv_oil_inventory food_built)
                                        (months ! (2 - 1), ''OIL3''))))
            (Var (the (map_of (dv_oil_buy food_built) (months ! 2, ''OIL3'')))))
      (Plus (Var (the (map_of (dv_oil_consume food_built) (months ! 2, ''OIL3''))))
            (Var (the (map_of (dv_oil_inventory food_built) (months ! 2, ''OIL3'')))))
     \<in> set (constraints (food_model food_built))"
    by simp
  have tab: "getitem current_workforce ''s2'' = Inr 1500"
    "getitem experienced_attrition ''s2'' = Inr (5 / 100)"
    by (simp_all add: getitem_def current_workforce_def experienced_attrition_def)
  have tab': "the (map_of current_workforce ''s2'') = 1500"
    "the (map_of experienced_attrition ''s2'') = 5 / 100"
    by (simp_all add: current_workforce_def experienced_attrition_def)
  have M1: "manpower_flow_row (Const ((1 - 5 / 100) * 1500)) 1 ''s2''
     \<in> set (constraints (manpower_model manpower_built))"
    using manpower_rows_member(1) [OF skill_names(2)]
    by (simp only: tab' manpower_built_fields)
  have "map_of (dv_workforce manpower_built) (3 - 1, ''s2'') =
      Some (handle_of (dv_workforce manpower_dicts) (3 - 1, ''s2''))"
    using y(4) by (simp add: manpower_built_fields manpower_handle skill_names)
  then have M2: "manpower_flow_row
       (Times (1 - 5 / 100) (Var (the (map_of (dv_workforce manpower_built) (3 - 1, ''s2'')))))
       3 ''s2''
     \<in> set (constraints (manpower_model manpower_built))"
    using manpower_rows_member(2) [OF y(3) skill_names(2)]
    by (simp only: tab' manpower_built_fields option.sel)
  show ?thesis
    using p o t y(1,2) skill_names(2) build_factory_closed build_food_closed
      build_manpower_closed F1 F2 G1 G2 tab M1 M2
    by (intro conjI)
qed

text \<open>
  Claim C8. After the one call of the solver, the program prints the objective value when
  the status is optimal, and for any other status only the fixed message that the
  problem does not have an optimal solution, with nothing else about the failure. In
  both cases it goes on to print the problem size: the number of variables and of
  constraints (156 and 84 in the factory script, 96 and 65 in the food script). The
  whole output of a run is given, line by line, for any answer of the solver to the
  model that the script builds.
\<close>

theorem status_report:
  "build_factory = Inr factory_built \<and> build_food = Inr food_built \<and>
   (result_status (Solve (factory_model factory_built)) = OPTIMAL \<longrightarrow>
      main_factory Solve = Inr
        [Print [Str ''Solution:''],
         Print [Str ''Objective value ='', Num (objective_value (Solve (factory_model factory_built)))],
         Print [Str [CHR 0x0A]],
         Print [Str ''Problem size:''],
         Print [Str ''Number of decision variables ='', Count 156],
         Print [Str ''Number of constraints ='', Count 84],
         Print [Str [CHR 0x0A]],
         Print [Str ''Advanced usage:''],
         Format ''Problem solved in %s seconds'' [Num (wall_time (Solve (factory_model factory_built)) / 1000)],
         Format ''Problem solved in %s iterations'' [Count (iterations (Solve (factory_model factory_built)))],
         Format ''Problem solved in %d branch-and-bound nodes'' [Count (nodes (Solve (factory_model factory_built)))]]) \<and>
   (result_status (Solve (factory_model factory_built)) \<noteq> OPTIMAL \<longrightarrow>
      main_factory Solve = Inr
        [Print [Str ''The problem does not have an optimal solution.''],
         Print [Str [CHR 0x0A]],
         Print [Str ''Problem size:''],
         Print [Str ''Number of decision variables ='', Count 156],
         Print [Str ''Number of constraints ='', Count 84],
         Print [Str [CHR 0x0A]],
         Print [Str ''Advanced usage:''],
         Format ''Problem solved in %s seconds'' [Num (wall_time (Solve (factory_model factory_built)) / 1000)],
         Format ''Problem solved in %s iterations'' [Count (iterations (Solve (factory_model factory_built)))],
         Format ''Problem solved in %d branch-and-bound nodes'' [Count (nodes (Solve (factory_model factory_built)))]]) \<and>
   (result_status (Solve' (food_model food_built)) = OPTIMAL \<longrightarrow>
      main_food Solve' = Inr
        [Print [Str ''Solution:''],
         Print [Str ''Objective value ='', Num (objective_value (Solve' (food_model food_built)))],
         Print [Str [CHR 0x0A]],
         Print [Str ''Problem size:''],
         Print [Str ''Number of decision variables ='', Count 96],
         Print [Str ''Number of constraints ='', Count 65],
         Print [Str [CHR 0x0A]],
         Print [Str ''Advanced usage:''],
         Format ''Problem solved in %s seconds'' [Num (wall_time (Solve' (food_model food_built)) / 1000)],
         Format ''Problem solved in %s iterations'' [Count (iterations (Solve' (food_model food_built)))]]) \<and>
   (result_status (Solve' (food_model food_built)) \<noteq> OPTIMAL \<longrightarrow>
      main_food Solve' = Inr
        [Print [Str ''The problem does not have an optimal solution.''],
         Print [Str [CHR 0x0A]],
         Print [Str ''Problem size:''],
         Print [Str ''Number of decision variables ='', Count 96],
         Print [Str ''Number of constraints ='', Count 65],
         Print [Str [CHR 0x0A]],
         Print [Str ''Advanced usage:''],
         Format ''Problem solved in %s seconds'' [Num (wall_time (Solve' (food_model food_built)) / 1000)],
         Format ''Problem solved in %s iterations'' [Count (iterations (Solve' (food_model food_built)))]])"
  by (simp add: main_factory_def main_food_def build_factory_closed build_food_closed
      report_factory_def report_food_def factory_size food_size)

theorem status_report_witness:
  "result_status (no_solution (factory_model factory_built)) \<noteq> OPTIMAL \<and>
   main_factory no_solution = Inr
     [Print [Str ''The problem does not have an optimal solution.''],
      Print [Str [CHR 0x0A]],
      Print [Str ''Problem size:''],
      Print [Str ''Number of decision variables ='', Count 156],
      Print [Str ''Number of constraints ='', Count 84],
      Print [Str [CHR 0x0A]],
      Print [Str ''Advanced usage:''],
      Format ''Problem solved in %s seconds'' [Num (12 / 1000)],
      Format ''Problem solved in %s iterations'' [Count 0],
      Format ''Problem solved in %d branch-and-bound nodes'' [Count 0]] \<and>
   result_status (some_optimum (factory_model factory_built)) = OPTIMAL \<and>
   main_factory some_optimum = Inr
     [Print [Str ''Solution:''],
      Print [Str ''Objective value ='', Num 1000],
      Print [Str [CHR 0x0A]],
      Print [Str ''Problem size:''],
      Print [Str ''Number of decision variables ='', Count 156],
      Print [Str ''Number of constraints ='', Count 84],
      Print [Str [CHR 0x0A]],
      Print [Str ''Advanced usage:''],
      Format ''Problem solved in %s seconds'' [Num (12 / 1000)],
      Format ''Problem solved in %s iterations'' [Count 30],
      Format ''Problem solved in %d branch-and-bound nodes'' [Count 1]] \<and>
   result_status (no_solution (food_model food_built)) \<noteq> OPTIMAL \<and>
   main_food no_solution = Inr
     [Print [Str ''The problem does not have an optimal solution.''],
      Print [Str [CHR 0x0A]],
      Print [Str ''Problem size:''],
      Print [Str ''Number of decision variables ='', Count 96],
      Print [Str ''Number of constraints ='', Count 65],
      Print [Str [CHR 0x0A]],
      Print [Str ''Advanced usage:''],
      Format ''Problem solved in %s seconds'' [Num (12 / 1000)],
      Format ''Problem solved in %s iterations'' [Count 0]] \<and>
   result_status (some_optimum (food_model food_built)) = OPTIMAL \<and>
   main_food some_optimum = Inr
     [Print [Str ''Solution:''],
      Print [Str ''Objective value ='', Num 1000],
      Print [Str [CHR 0x0A]],
      Print [Str ''Problem size:''],
      Print [Str ''Number of decision variables ='', Count 96],
      Print [Str ''Number of constraints ='', Count 65],
      Print [Str [CHR 0x0A]],
      Print [Str ''Advanced usage:''],
      Format ''Problem solved in %s seconds'' [Num (12 / 1000)],
      Format ''Problem solved in %s iterations'' [Count 30]]"
  using status_report [of no_solution some_optimum] status_report [of some_optimum no_solution]
  by (simp add: no_solution_def some_optimum_def)

end
